theory Spec2Isabelle
  imports Complex_Main "HOL-Library.AList"
begin

section \<open>JavaScript values and coercions used by the tool handlers\<close>

text \<open>
  The tool handlers of \<^verbatim>\<open>src/index.ts\<close> receive a loosely typed argument bag and
  coerce every argument with \<^verbatim>\<open>String(...)\<close>, \<^verbatim>\<open>Number(...)\<close>,
  \<^verbatim>\<open>Boolean(...)\<close>, \<^verbatim>\<open>||\<close> and \<^verbatim>\<open>??\<close>. The embedding keeps these
  coercions as functions on a datatype of JavaScript values.

  Strings are lists of code units below 256. A number is \<^verbatim>\<open>NaN\<close>, one of the two
  infinities, or a finite number, kept as the rational that is its exact value (the
  two zeros are one value: the handlers do not tell them apart). The values of the
  argument bag and of a parsed body are those of JSON: an object is the list of its own
  properties (each key once), each a value again, so that no value is a function.
\<close>

datatype jsnum = NaN | Infinity | NegInfinity | Num rat

datatype jsvalue =
    JUndefined
  | JNull
  | JBool bool
  | JNumber jsnum
  | JString string
  | JArray "jsvalue list"
  | JObject "(string \<times> jsvalue) list"

fun join :: "string \<Rightarrow> string list \<Rightarrow> string" where
  "join sep [] = []"
| "join sep [x] = x"
| "join sep (x # y # ys) = x @ sep @ join sep (y # ys)"

text \<open>Truthiness, which decides \<^verbatim>\<open>!v\<close>, \<^verbatim>\<open>if (v)\<close>, \<^verbatim>\<open>v || d\<close> and
  \<^verbatim>\<open>Boolean(v)\<close>.\<close>

fun num_truthy :: "jsnum \<Rightarrow> bool" where
  "num_truthy NaN = False"
| "num_truthy Infinity = True"
| "num_truthy NegInfinity = True"
| "num_truthy (Num q) = (q \<noteq> 0)"

fun truthy :: "jsvalue \<Rightarrow> bool" where
  "truthy JUndefined = False"
| "truthy JNull = False"
| "truthy (JBool b) = b"
| "truthy (JNumber n) = num_truthy n"
| "truthy (JString s) = (s \<noteq> [])"
| "truthy (JArray xs) = True"
| "truthy (JObject kvs) = True"

definition Boolean_js :: "jsvalue \<Rightarrow> bool" where
  "Boolean_js v = truthy v"

text \<open>\<^verbatim>\<open>a || b\<close> and \<^verbatim>\<open>a ?? b\<close> on values, and \<^verbatim>\<open>n || d\<close> on a number
  with a numeric default.\<close>

definition or_js :: "jsvalue \<Rightarrow> jsvalue \<Rightarrow> jsvalue" where
  "or_js a b = (if truthy a then a else b)"

definition nullish :: "jsvalue \<Rightarrow> jsvalue \<Rightarrow> jsvalue" where
  "nullish a b = (if a = JUndefined \<or> a = JNull then b else a)"

definition num_or :: "jsnum \<Rightarrow> rat \<Rightarrow> jsnum" where
  "num_or n d = (if num_truthy n then n else Num d)"

text \<open>Comparisons with a numeric literal are false on \<^verbatim>\<open>NaN\<close>.\<close>

fun num_lt :: "jsnum \<Rightarrow> rat \<Rightarrow> bool" where
  "num_lt NaN k = False"
| "num_lt Infinity k = False"
| "num_lt NegInfinity k = True"
| "num_lt (Num q) k = (q < k)"

fun num_gt :: "jsnum \<Rightarrow> rat \<Rightarrow> bool" where
  "num_gt NaN k = False"
| "num_gt Infinity k = True"
| "num_gt NegInfinity k = False"
| "num_gt (Num q) k = (q > k)"

fun isNaN :: "jsnum \<Rightarrow> bool" where
  "isNaN NaN = True"
| "isNaN n = False"

text \<open>
  The decimal numeral of a natural number. \<^verbatim>\<open>String(n)\<close> is this numeral, with
  its sign, when \<open>n\<close> is an integer of magnitude at most \<open>2\<^sup>5\<^sup>3\<close>; the
  string of any other finite number is left to the platform.
\<close>

definition digit_char :: "nat \<Rightarrow> char" where
  "digit_char d = ''0123456789'' ! d"

fun digits :: "nat \<Rightarrow> string" where
  "digits n = (if n < 10 then [digit_char n] else digits (n div 10) @ [digit_char (n mod 10)])"

declare digits.simps [simp del]

definition safe_integer :: "rat \<Rightarrow> bool" where
  "safe_integer q = (q = of_int \<lfloor>q\<rfloor> \<and> \<bar>q\<bar> \<le> 9007199254740992)"

text \<open>Strings: \<^verbatim>\<open>trim\<close>, \<^verbatim>\<open>split\<close> on one character,
  \<^verbatim>\<open>includes\<close>.\<close>

definition white_space :: "char \<Rightarrow> bool" where
  "white_space c = (c \<in> set [CHR 0x09, CHR 0x0A, CHR 0x0B, CHR 0x0C, CHR 0x0D, CHR 0x20, CHR 0xA0])"

definition trim :: "string \<Rightarrow> string" where
  "trim s = rev (dropWhile white_space (rev (dropWhile white_space s)))"

fun split_on :: "char \<Rightarrow> string \<Rightarrow> string list" where
  "split_on sep [] = [[]]"
| "split_on sep (c # cs) =
     (if c = sep then [] # split_on sep cs
      else (case split_on sep cs of [] \<Rightarrow> [[c]] | l # ls \<Rightarrow> (c # l) # ls))"

fun starts_with :: "string \<Rightarrow> string \<Rightarrow> bool" where
  "starts_with s [] = True"
| "starts_with [] (p # ps) = False"
| "starts_with (c # cs) (p # ps) = (c = p \<and> starts_with cs ps)"

fun includes_str :: "string \<Rightarrow> string \<Rightarrow> bool" where
  "includes_str [] p = (p = [])"
| "includes_str (c # cs) p = (starts_with (c # cs) p \<or> includes_str cs p)"

text \<open>Reading a property of a value: a \<^verbatim>\<open>TypeError\<close> on \<^verbatim>\<open>null\<close> and
  \<^verbatim>\<open>undefined\<close>, the member of an object, and \<^verbatim>\<open>undefined\<close> on every
  other value (the handlers read no built-in property such as \<^verbatim>\<open>length\<close>).\<close>

fun get_prop :: "jsvalue \<Rightarrow> string \<Rightarrow> string + jsvalue" where
  "get_prop JUndefined p =
     Inl (''Cannot read properties of undefined (reading '' @ [CHR 0x27] @ p @ [CHR 0x27] @ '')'')"
| "get_prop JNull p =
     Inl (''Cannot read properties of null (reading '' @ [CHR 0x27] @ p @ [CHR 0x27] @ '')'')"
| "get_prop (JObject kvs) p = Inr (case map_of kvs p of None \<Rightarrow> JUndefined | Some v \<Rightarrow> v)"
| "get_prop v p = Inr JUndefined"
section \<open>Requests, responses and the platform\<close>

text \<open>
  \<^verbatim>\<open>RequestInit\<close> as the handlers use it, the request that reaches
  \<^verbatim>\<open>fetch\<close>, and the part of a \<^verbatim>\<open>Response\<close> that the handlers read.
  Headers are association lists; \<open>spread\<close> is the object spread
  \<^verbatim>\<open>{...base, ...extra}\<close>, where a later key overrides an earlier one.
\<close>

record options =
  "method" :: "string option"
  headers :: "(string \<times> string) list option"
  body :: "string option"

record request =
  url :: string
  rq_method :: "string option"
  rq_headers :: "(string \<times> string) list"
  rq_body :: "string option"

record response =
  status :: nat
  statusText :: string
  content_type :: "string option"
  text_body :: string

datatype fetch_result = Rejected string | Resolved response

definition ok :: "response \<Rightarrow> bool" where
  "ok r = (200 \<le> status r \<and> status r \<le> 299)"

definition spread :: "(string \<times> string) list \<Rightarrow> (string \<times> string) list \<Rightarrow> (string \<times> string) list" where
  "spread base extra = foldl (\<lambda>acc kv. AList.update (fst kv) (snd kv) acc) base extra"


text \<open>
  What the code takes from its platform and from the network is a parameter of the
  model: the reply of the remote service to a request, and the library functions
  \<^verbatim>\<open>JSON.parse\<close>, \<^verbatim>\<open>JSON.stringify(v)\<close>, \<^verbatim>\<open>JSON.stringify(v, null, 2)\<close>,
  \<^verbatim>\<open>URLSearchParams.toString\<close>, \<^verbatim>\<open>encodeURIComponent\<close>, the parts of
  \<^verbatim>\<open>new URL(input, base)\<close>, the conversion of a string to a number, the
  string of a finite number that is not an integer of magnitude at most \<open>2\<^sup>5\<^sup>3\<close>,
  and the rounding of an exact product to a number.
  \<^verbatim>\<open>JSON.parse\<close> returns the message of its \<^verbatim>\<open>SyntaxError\<close> on the left.
\<close>

record world =
  fetch :: "request \<Rightarrow> fetch_result"
  StringToNumber :: "string \<Rightarrow> jsnum"
  NumberToString :: "rat \<Rightarrow> string"
  Number_round :: "rat \<Rightarrow> jsnum"
  JSON_parse :: "string \<Rightarrow> string + jsvalue"
  JSON_stringify :: "jsvalue \<Rightarrow> string"
  JSON_stringify_2 :: "jsvalue \<Rightarrow> string"
  URLSearchParams_toString :: "(string \<times> string) list \<Rightarrow> string"
  encodeURIComponent :: "string \<Rightarrow> string"
  URL_pathname :: "string \<Rightarrow> string \<Rightarrow> string"
  URL_search :: "string \<Rightarrow> string \<Rightarrow> string"
  URL_searchParams :: "string \<Rightarrow> string \<Rightarrow> (string \<times> string) list"

section \<open>Errors, the credential store and the effects of a handler\<close>

text \<open>
  The code throws \<^verbatim>\<open>Error(message)\<close> only. Each throw is tagged with the kind of
  the specification's taxonomy that its place in the code stands for: a check of the
  arguments, the check of the stored token, a response that is not \<^verbatim>\<open>ok\<close> (by its
  status), a rejected \<^verbatim>\<open>fetch\<close>, a body that does not decode. An unknown tool name
  and a \<^verbatim>\<open>TypeError\<close> of the runtime have kinds of their own. A
  \<^verbatim>\<open>catch\<close> that throws a new error with a prefixed message keeps the kind.
\<close>

datatype error_kind =
    ValidationError | MissingCredential | NotFound | InvalidRequest | UpstreamError
  | TransportError | ParseError | UnknownTool | RuntimeTypeError

datatype error = Error (kind: error_kind) (message: string)

definition http_kind :: "nat \<Rightarrow> error_kind" where
  "http_kind st = (if st = 404 then NotFound else if st = 400 then InvalidRequest else UpstreamError)"

definition invalid :: "string \<Rightarrow> error" where
  "invalid msg = Error ValidationError msg"

definition http_error :: "response \<Rightarrow> string \<Rightarrow> error" where
  "http_error r msg = Error (http_kind (status r)) msg"

section \<open>Coercions that may throw\<close>

text \<open>
  \<^verbatim>\<open>String(v)\<close>, which is also the conversion of a template literal. An array
  is joined with commas, \<^verbatim>\<open>null\<close> and \<^verbatim>\<open>undefined\<close> elements giving the
  empty string. An object without an own property \<^verbatim>\<open>toString\<close> gives
  \<^verbatim>\<open>[object Object]\<close>; with one, which is never a function, the conversion
  finds no method that returns a primitive value and throws a \<^verbatim>\<open>TypeError\<close>.
\<close>

definition type_error :: error where
  "type_error = Error RuntimeTypeError ''Cannot convert object to primitive value''"

fun String_num :: "world \<Rightarrow> jsnum \<Rightarrow> string" where
  "String_num w NaN = ''NaN''"
| "String_num w Infinity = ''Infinity''"
| "String_num w NegInfinity = ''-Infinity''"
| "String_num w (Num q) =
     (if safe_integer q
      then (if q < 0 then CHR ''-'' # digits (nat \<lfloor>- q\<rfloor>) else digits (nat \<lfloor>q\<rfloor>))
      else NumberToString w q)"

fun String_js :: "world \<Rightarrow> jsvalue \<Rightarrow> error + string"
  and String_elements :: "world \<Rightarrow> jsvalue list \<Rightarrow> error + string list" where
  "String_js w JUndefined = Inr ''undefined''"
| "String_js w JNull = Inr ''null''"
| "String_js w (JBool b) = Inr (if b then ''true'' else ''false'')"
| "String_js w (JNumber n) = Inr (String_num w n)"
| "String_js w (JString s) = Inr s"
| "String_js w (JArray xs) =
     (case String_elements w xs of Inl e \<Rightarrow> Inl e | Inr ss \<Rightarrow> Inr (join '','' ss))"
| "String_js w (JObject kvs) =
     (if ''toString'' \<in> set (map fst kvs) then Inl type_error else Inr ''[object Object]'')"
| "String_elements w [] = Inr []"
| "String_elements w (x # xs) =
     (case (if x = JUndefined \<or> x = JNull then Inr [] else String_js w x) of
        Inl e \<Rightarrow> Inl e
      | Inr s \<Rightarrow> (case String_elements w xs of Inl e \<Rightarrow> Inl e | Inr ss \<Rightarrow> Inr (s # ss)))"

text \<open>\<^verbatim>\<open>Number(v)\<close>, which is also the conversion of an operand of
  \<^verbatim>\<open>*\<close>: an array or object is converted through its string, and throws when
  that does.\<close>

fun Number_js :: "world \<Rightarrow> jsvalue \<Rightarrow> error + jsnum" where
  "Number_js w JUndefined = Inr NaN"
| "Number_js w JNull = Inr (Num 0)"
| "Number_js w (JBool b) = Inr (if b then Num 1 else Num 0)"
| "Number_js w (JNumber n) = Inr n"
| "Number_js w (JString s) = Inr (StringToNumber w s)"
| "Number_js w v = (case String_js w v of Inl e \<Rightarrow> Inl e | Inr s \<Rightarrow> Inr (StringToNumber w s))"

text \<open>The product of a number and a positive literal.\<close>

fun num_times :: "world \<Rightarrow> jsnum \<Rightarrow> rat \<Rightarrow> jsnum" where
  "num_times w (Num q) k = Number_round w (q * k)"
| "num_times w n k = n"

text \<open>
  The state of the process is the module variable \<^verbatim>\<open>LICHESS_TOKEN\<close>
  (\<^verbatim>\<open>string | undefined\<close>); \<open>fetched\<close> records the requests handed to
  \<^verbatim>\<open>fetch\<close>, oldest first. A handler is a function of the state that returns
  its result or the error it throws, and the new state.
\<close>

record store =
  LICHESS_TOKEN :: "string option"
  fetched :: "request list"

type_synonym 'a action = "store \<Rightarrow> (error + 'a) \<times> store"

definition succeed :: "'a \<Rightarrow> 'a action" where
  "succeed x = (\<lambda>s. (Inr x, s))"

definition throw :: "error \<Rightarrow> 'a action" where
  "throw e = (\<lambda>s. (Inl e, s))"

text \<open>A coercion as a step of a handler.\<close>

definition coerce :: "error + 'a \<Rightarrow> 'a action" where
  "coerce c = (case c of Inl e \<Rightarrow> throw e | Inr v \<Rightarrow> succeed v)"

definition ToString :: "world \<Rightarrow> jsvalue \<Rightarrow> string action" where
  "ToString w v = coerce (String_js w v)"

definition ToNumber :: "world \<Rightarrow> jsvalue \<Rightarrow> jsnum action" where
  "ToNumber w v = coerce (Number_js w v)"

definition seq :: "'a action \<Rightarrow> ('a \<Rightarrow> 'b action) \<Rightarrow> 'b action" where
  "seq m f = (\<lambda>s. case m s of (Inl e, s') \<Rightarrow> (Inl e, s') | (Inr x, s') \<Rightarrow> f x s')"

definition try_catch :: "'a action \<Rightarrow> (error \<Rightarrow> 'a action) \<Rightarrow> 'a action" where
  "try_catch m h = (\<lambda>s. case m s of (Inl e, s') \<Rightarrow> h e s' | (Inr x, s') \<Rightarrow> (Inr x, s'))"

definition read_token :: "string option action" where
  "read_token = (\<lambda>s. (Inr (LICHESS_TOKEN s), s))"

definition write_token :: "string option \<Rightarrow> unit action" where
  "write_token t = (\<lambda>s. (Inr (), s\<lparr>LICHESS_TOKEN := t\<rparr>))"

definition fetch_call :: "world \<Rightarrow> request \<Rightarrow> response action" where
  "fetch_call w rq = (\<lambda>s.
     (case fetch w rq of
        Rejected msg \<Rightarrow> Inl (Error TransportError msg)
      | Resolved r \<Rightarrow> Inr r,
      s\<lparr>fetched := fetched s @ [rq]\<rparr>))"

text \<open>\<^verbatim>\<open>throw new Error(`prefix${error.message || 'Unknown error'}`)\<close> in a
  \<^verbatim>\<open>catch\<close>.\<close>

definition rethrow :: "string \<Rightarrow> error \<Rightarrow> 'a action" where
  "rethrow prefix e =
     throw (Error (kind e) (prefix @ (if message e = [] then ''Unknown error'' else message e)))"

text \<open>\<^verbatim>\<open>response.json()\<close>, \<^verbatim>\<open>response.text()\<close> and a property read that may
  throw.\<close>

definition json :: "world \<Rightarrow> response \<Rightarrow> jsvalue action" where
  "json w r = (case JSON_parse w (text_body r) of
                 Inl msg \<Rightarrow> throw (Error ParseError msg)
               | Inr v \<Rightarrow> succeed v)"

definition read_text :: "response \<Rightarrow> string action" where
  "read_text r = succeed (text_body r)"

definition read_prop :: "jsvalue \<Rightarrow> string \<Rightarrow> jsvalue action" where
  "read_prop v p = (case get_prop v p of
                 Inl msg \<Rightarrow> throw (Error RuntimeTypeError msg)
               | Inr x \<Rightarrow> succeed x)"

text \<open>A property of a value already known to be truthy, where the read cannot throw.\<close>

definition member :: "jsvalue \<Rightarrow> string \<Rightarrow> jsvalue" where
  "member v p = (case get_prop v p of Inl msg \<Rightarrow> JUndefined | Inr x \<Rightarrow> x)"

section \<open>The authenticated request helper\<close>

definition LICHESS_API_URL :: string where
  "LICHESS_API_URL = ''https://lichess.org/api''"

definition no_options :: options where
  "no_options = \<lparr>method = None, headers = None, body = None\<rparr>"

definition post :: options where
  "post = \<lparr>method = Some ''POST'', headers = None, body = None\<rparr>"

definition post_with :: "string \<Rightarrow> string \<Rightarrow> options" where
  "post_with ctype b =
     \<lparr>method = Some ''POST'', headers = Some [(''Content-Type'', ctype)], body = Some b\<rparr>"


definition lichessRequest :: "world \<Rightarrow> string \<Rightarrow> options \<Rightarrow> response action" where
  "lichessRequest w endpoint opts =
     seq read_token (\<lambda>token.
       case token of
         None \<Rightarrow>
           throw (Error MissingCredential ''Lichess API token not set. Use the set_token tool first.'')
       | Some tok \<Rightarrow>
           if tok = []
           then throw (Error MissingCredential ''Lichess API token not set. Use the set_token tool first.'')
           else
             seq (fetch_call w
                    \<lparr>url = LICHESS_API_URL @ endpoint,
                     rq_method = method opts,
                     rq_headers =
                       spread [(''Authorization'', ''Bearer '' @ tok),
                               (''Content-Type'', ''application/json'')]
                              (case headers opts of None \<Rightarrow> [] | Some h \<Rightarrow> h),
                     rq_body = body opts\<rparr>)
               (\<lambda>response.
                  if \<not> ok response
                  then throw (http_error response (''Lichess API error: '' @ statusText response))
                  else succeed response))"

section \<open>The tool handlers\<close>

text \<open>
  One definition for each \<^verbatim>\<open>case\<close> of the \<^verbatim>\<open>switch\<close> in the
  \<^verbatim>\<open>CallToolRequestSchema\<close> handler, in the order of the source. The argument
  \<open>a\<close> is the lookup \<^verbatim>\<open>request.params.arguments?.[key]\<close>, which is
  \<^verbatim>\<open>undefined\<close> for a key that the bag does not hold; the result is the
  \<^verbatim>\<open>text\<close> of the single content item that the handler returns. The checks of
  \<^verbatim>\<open>response.ok\<close> after \<^verbatim>\<open>lichessRequest\<close> are kept as they are written.
\<close>

type_synonym handler = "world \<Rightarrow> (string \<Rightarrow> jsvalue) \<Rightarrow> string action"

text \<open>
  A query or a form is built by statements \<^verbatim>\<open>if (c) params.append(k, String(v))\<close>
  in a row: \<open>gather\<close> runs them in order and collects what they append,
  \<open>param\<close> is one \<^verbatim>\<open>append\<close> of a converted value, and
  \<open>defined_params\<close> is the loop that appends each listed argument that is not
  \<^verbatim>\<open>undefined\<close>.
\<close>

fun gather :: "'a list action list \<Rightarrow> 'a list action" where
  "gather [] = succeed []"
| "gather (m # ms) = seq m (\<lambda>xs. seq (gather ms) (\<lambda>ys. succeed (xs @ ys)))"

definition param :: "string \<Rightarrow> string action \<Rightarrow> (string \<times> string) list action" where
  "param k m = seq m (\<lambda>v. succeed [(k, v)])"

definition defined_params ::
  "world \<Rightarrow> (string \<Rightarrow> jsvalue) \<Rightarrow> string list \<Rightarrow> (string \<times> string) list action" where
  "defined_params w a names =
     gather (map (\<lambda>name. if a name \<noteq> JUndefined then param name (ToString w (a name))
                         else succeed []) names)"

definition form_urlencoded :: string where
  "form_urlencoded = ''application/x-www-form-urlencoded''"

definition set_token :: handler where
  "set_token w a =
     seq (ToString w (a ''token'')) (\<lambda>token.
      if token = [] then throw (invalid ''Token is required'')
      else seq (write_token (Some token)) (\<lambda>_. succeed ''Lichess API token has been set''))"

definition get_my_profile :: handler where
  "get_my_profile w a =
     seq (lichessRequest w ''/account'' no_options) (\<lambda>response.
     seq (json w response) (\<lambda>profile.
     succeed (JSON_stringify_2 w profile)))"

definition get_user_profile :: handler where
  "get_user_profile w a =
     seq (ToString w (a ''username'')) (\<lambda>username.
     (let trophies = Boolean_js (a ''trophies'') in
      seq (lichessRequest w (''/user/'' @ username @ (if trophies then ''?trophies=true'' else ''''))
             no_options) (\<lambda>response.
      seq (json w response) (\<lambda>profile.
      succeed (JSON_stringify_2 w profile)))))"

definition get_my_email :: handler where
  "get_my_email w a =
     seq (lichessRequest w ''/account/email'' no_options) (\<lambda>response.
     seq (json w response) (\<lambda>emailData.
     seq (read_prop emailData ''email'') (\<lambda>email.
     seq (ToString w email) (\<lambda>email_text.
     succeed (''Your email address is: '' @ email_text)))))"

definition get_kid_mode :: handler where
  "get_kid_mode w a =
     seq (lichessRequest w ''/account/kid'' no_options) (\<lambda>response.
     seq (json w response) (\<lambda>kidData.
     seq (read_prop kidData ''kid'') (\<lambda>kid.
     succeed (''Kid mode is '' @ (if truthy kid then ''enabled'' else ''disabled'')))))"

definition set_kid_mode :: handler where
  "set_kid_mode w a =
     (let val = Boolean_js (a ''value'') in
      seq (lichessRequest w (''/account/kid?v='' @ (if val then ''true'' else ''false'')) post)
        (\<lambda>_. succeed (''Kid mode has been '' @ (if val then ''enabled'' else ''disabled''))))"

definition create_challenge :: handler where
  "create_challenge w a =
     seq (ToString w (a ''username'')) (\<lambda>username.
     seq (gather
            [if a ''rated'' \<noteq> JUndefined then param ''rated'' (ToString w (a ''rated''))
             else succeed [],
             if truthy (a ''color'') then param ''color'' (ToString w (a ''color''))
             else succeed [],
             if truthy (a ''variant'') then param ''variant'' (ToString w (a ''variant''))
             else succeed [],
             if truthy (a ''clock'') then
               (let clock = a ''clock'' in
                gather
                  [if member clock ''limit'' \<noteq> JUndefined
                   then param ''clock.limit''
                          (seq (ToNumber w (member clock ''limit'')) (\<lambda>limit.
                           succeed (String_num w (num_times w limit 60))))
                   else succeed [],
                   if member clock ''increment'' \<noteq> JUndefined
                   then param ''clock.increment'' (ToString w (member clock ''increment''))
                   else succeed []])
             else succeed [],
             if truthy (a ''days'') then param ''days'' (ToString w (a ''days''))
             else succeed [],
             if truthy (a ''fen'') then param ''fen'' (ToString w (a ''fen''))
             else succeed []]) (\<lambda>params.
     seq (lichessRequest w (''/challenge/'' @ username)
            (post_with form_urlencoded (URLSearchParams_toString w params))) (\<lambda>response.
     seq (json w response) (\<lambda>challenge.
     seq (read_prop challenge ''challenge'') (\<lambda>inner.
     seq (read_prop inner ''url'') (\<lambda>challenge_url.
     seq (ToString w challenge_url) (\<lambda>url_text.
     succeed (''Challenge created: '' @ url_text))))))))"

definition make_move :: handler where
  "make_move w a =
     seq (ToString w (a ''gameId'')) (\<lambda>gameId.
     seq (ToString w (a ''move'')) (\<lambda>move.
     (let offeringDraw = Boolean_js (a ''offeringDraw'');
          input = ''/board/game/'' @ gameId @ ''/move/'' @ move;
          pathname = URL_pathname w input LICHESS_API_URL;
          search =
            (if offeringDraw
             then ''?'' @ URLSearchParams_toString w
                    (URL_searchParams w input LICHESS_API_URL @ [(''offeringDraw'', ''true'')])
             else URL_search w input LICHESS_API_URL) in
      seq (lichessRequest w (pathname @ search) post) (\<lambda>_.
      succeed (''Move '' @ move @ '' made in game '' @ gameId
               @ (if offeringDraw then '' with draw offer'' else ''''))))))"

definition get_preferences :: handler where
  "get_preferences w a =
     seq (lichessRequest w ''/account/preferences'' no_options) (\<lambda>response.
     seq (json w response) (\<lambda>preferences.
     succeed (JSON_stringify_2 w preferences)))"

definition get_timeline :: handler where
  "get_timeline w a =
     (let since = a ''since'';
          nb = or_js (a ''nb'') (JNumber (Num 15)) in
      seq (gather
             [if truthy since then param ''since'' (ToString w since) else succeed [],
              if truthy nb then param ''nb'' (ToString w nb) else succeed []]) (\<lambda>queryParams.
      seq (lichessRequest w (''/timeline?'' @ URLSearchParams_toString w queryParams) no_options)
        (\<lambda>response.
      seq (json w response) (\<lambda>timeline.
      succeed (JSON_stringify_2 w timeline)))))"

definition test_tokens :: handler where
  "test_tokens w a =
     seq (ToString w (a ''tokens'')) (\<lambda>tokens.
      if tokens = [] then throw (invalid ''Tokens parameter is required'')
      else if length (split_on CHR '','' tokens) > 1000
      then throw (invalid ''Maximum of 1000 tokens allowed'')
      else
        seq (fetch_call w
               \<lparr>url = LICHESS_API_URL @ ''/token/test'',
                rq_method = Some ''POST'',
                rq_headers = [(''Content-Type'', ''text/plain'')],
                rq_body = Some tokens\<rparr>) (\<lambda>response.
        if \<not> ok response
        then throw (http_error response (''Lichess API error: '' @ statusText response))
        else
          seq (json w response) (\<lambda>results.
          succeed (JSON_stringify_2 w results))))"

definition revoke_token :: handler where
  "revoke_token w a =
     seq read_token (\<lambda>token.
       case token of
         None \<Rightarrow>
           throw (Error MissingCredential
                    ''No token set to revoke. Please set a token first using set_token.'')
       | Some tok \<Rightarrow>
           if tok = []
           then throw (Error MissingCredential
                         ''No token set to revoke. Please set a token first using set_token.'')
           else
             try_catch
               (seq (fetch_call w
                       \<lparr>url = LICHESS_API_URL @ ''/token'',
                        rq_method = Some ''DELETE'',
                        rq_headers = [(''Authorization'', ''Bearer '' @ tok)],
                        rq_body = None\<rparr>) (\<lambda>response.
                if \<not> ok response
                then throw (http_error response (''Failed to revoke token: '' @ statusText response))
                else
                  seq (write_token None) (\<lambda>_.
                  succeed ''Access token has been successfully revoked and cleared'')))
               (rethrow ''Failed to revoke token: ''))"

definition upgrade_to_bot :: handler where
  "upgrade_to_bot w a =
     seq (lichessRequest w ''/bot/account/upgrade'' post) (\<lambda>_.
     succeed ''Account has been successfully upgraded to a Bot account. The account can now only play as a Bot.'')"

definition add_user_note :: handler where
  "add_user_note w a =
     seq (ToString w (a ''username'')) (\<lambda>username.
      if username = [] then throw (invalid ''Username parameter is required'')
      else
        seq (ToString w (a ''text'')) (\<lambda>text.
         if text = [] then throw (invalid ''Text parameter is required'')
         else
           try_catch
             (seq (lichessRequest w (''/user/'' @ username @ ''/note'')
                     (post_with form_urlencoded (URLSearchParams_toString w [(''text'', text)])))
                (\<lambda>response.
                if \<not> ok response then
                  (if status response = 404
                   then throw (http_error response (''User '' @ username @ '' not found''))
                   else throw (http_error response (''Failed to add note: '' @ statusText response)))
                else succeed (''Note successfully added for user '' @ username)))
             (rethrow ''Failed to add note: '')))"

definition send_message :: handler where
  "send_message w a =
     seq (ToString w (a ''username'')) (\<lambda>username.
      if username = [] then throw (invalid ''Username parameter is required'')
      else
        seq (ToString w (a ''text'')) (\<lambda>text.
         if text = [] then throw (invalid ''Text parameter is required'')
         else
           try_catch
             (seq (lichessRequest w (''/inbox/'' @ username)
                     (post_with form_urlencoded (URLSearchParams_toString w [(''text'', text)])))
                (\<lambda>response.
                if \<not> ok response then
                  (if status response = 404
                   then throw (http_error response (''User '' @ username @ '' not found''))
                   else throw (http_error response (''Failed to send message: '' @ statusText response)))
                else succeed (''Message successfully sent to '' @ username)))
             (rethrow ''Failed to send message: '')))"

text \<open>The decoding of a newline-delimited body:
  \<^verbatim>\<open>text.split('\n').filter(line => line.trim()).map(line => JSON.parse(line))\<close>.
  The first line that does not parse throws.\<close>

fun parse_lines :: "world \<Rightarrow> string list \<Rightarrow> string + jsvalue list" where
  "parse_lines w [] = Inr []"
| "parse_lines w (line # rest) =
     (case JSON_parse w line of
        Inl msg \<Rightarrow> Inl msg
      | Inr v \<Rightarrow> (case parse_lines w rest of Inl msg \<Rightarrow> Inl msg | Inr vs \<Rightarrow> Inr (v # vs)))"

definition ndjson_lines :: "string \<Rightarrow> string list" where
  "ndjson_lines body_text = filter (\<lambda>line. trim line \<noteq> []) (split_on CHR 0x0A body_text)"

definition ndjson :: "world \<Rightarrow> string \<Rightarrow> jsvalue action" where
  "ndjson w body_text =
     (case parse_lines w (ndjson_lines body_text) of
        Inl msg \<Rightarrow> throw (Error ParseError msg)
      | Inr vs \<Rightarrow> succeed (JArray vs))"

definition get_following :: handler where
  "get_following w a =
     try_catch
       (seq (lichessRequest w ''/rel/following'' no_options) (\<lambda>response.
        if \<not> ok response
        then throw (http_error response (''Failed to get following list: '' @ statusText response))
        else
          seq (read_text response) (\<lambda>text.
          seq (ndjson w text) (\<lambda>following.
          succeed (JSON_stringify_2 w following)))))
       (rethrow ''Failed to get following list: '')"

definition follow_user :: handler where
  "follow_user w a =
     seq (ToString w (a ''username'')) (\<lambda>username.
      if username = [] then throw (invalid ''Username parameter is required'')
      else
        try_catch
          (seq (lichessRequest w (''/rel/follow/'' @ username) post) (\<lambda>response.
           if \<not> ok response then
             (if status response = 404
              then throw (http_error response (''User '' @ username @ '' not found''))
              else if status response = 400
              then throw (http_error response
                     (''Cannot follow '' @ username
                      @ '': invalid request (you may be trying to follow yourself)''))
              else throw (http_error response (''Failed to follow user: '' @ statusText response)))
           else succeed (''Successfully following '' @ username)))
          (rethrow ''Failed to follow user: ''))"

definition unfollow_user :: handler where
  "unfollow_user w a =
     seq (ToString w (a ''username'')) (\<lambda>username.
      if username = [] then throw (invalid ''Username parameter is required'')
      else
        try_catch
          (seq (lichessRequest w (''/rel/unfollow/'' @ username) post) (\<lambda>response.
           if \<not> ok response then
             (if status response = 404
              then throw (http_error response (''User '' @ username @ '' not found''))
              else throw (http_error response (''Failed to unfollow user: '' @ statusText response)))
           else succeed (''Successfully unfollowed '' @ username)))
          (rethrow ''Failed to unfollow user: ''))"

definition block_user :: handler where
  "block_user w a =
     seq (ToString w (a ''username'')) (\<lambda>username.
      if username = [] then throw (invalid ''Username parameter is required'')
      else
        try_catch
          (seq (lichessRequest w (''/rel/block/'' @ username) post) (\<lambda>response.
           if \<not> ok response then
             (if status response = 404
              then throw (http_error response (''User '' @ username @ '' not found''))
              else throw (http_error response (''Failed to block user: '' @ statusText response)))
           else succeed (''Successfully blocked '' @ username)))
          (rethrow ''Failed to block user: ''))"

definition get_users_status :: handler where
  "get_users_status w a =
     seq (ToString w (a ''ids'')) (\<lambda>ids.
      if ids = [] then throw (invalid ''IDs parameter is required'')
      else if length (split_on CHR '','' ids) > 100
      then throw (invalid ''Maximum of 100 user IDs allowed'')
      else
        (let withSignal = Boolean_js (a ''withSignal'');
             withGameIds = Boolean_js (a ''withGameIds'');
             withGameMetas = Boolean_js (a ''withGameMetas'') in
         try_catch
           (let params =
              (if withSignal then [(''withSignal'', ''true'')] else [])
              @ (if withGameIds then [(''withGameIds'', ''true'')] else [])
              @ (if withGameMetas then [(''withGameMetas'', ''true'')] else []) in
            seq (lichessRequest w
                   (''/users/status?ids='' @ ids @ ''&'' @ URLSearchParams_toString w params)
                   no_options) (\<lambda>response.
            if \<not> ok response
            then throw (http_error response (''Failed to get user statuses: '' @ statusText response))
            else
              seq (json w response) (\<lambda>status_value.
              succeed (JSON_stringify_2 w status_value))))
           (rethrow ''Failed to get user statuses: '')))"

definition get_all_top_10 :: handler where
  "get_all_top_10 w a =
     seq (lichessRequest w ''/player'' no_options) (\<lambda>response.
     seq (json w response) (\<lambda>top10s.
     succeed (JSON_stringify_2 w top10s)))"

definition leaderboard_perf_types :: "string list" where
  "leaderboard_perf_types =
     [''ultraBullet'', ''bullet'', ''blitz'', ''rapid'', ''classical'',
      ''chess960'', ''crazyhouse'', ''antichess'', ''atomic'', ''horde'',
      ''kingOfTheHill'', ''racingKings'', ''threeCheck'']"

definition get_leaderboard :: handler where
  "get_leaderboard w a =
     seq (ToString w (a ''perfType'')) (\<lambda>perfType.
      if perfType = [] then throw (invalid ''perfType parameter is required'')
      else if perfType \<notin> set leaderboard_perf_types
      then throw (invalid (''Invalid perfType. Must be one of: '' @ join '', '' leaderboard_perf_types))
      else
        seq (ToNumber w (a ''nb'')) (\<lambda>nb_value.
        (let nb = num_or nb_value 100 in
         if num_lt nb 1 \<or> num_gt nb 200
         then throw (invalid ''nb parameter must be between 1 and 200'')
         else
           seq (lichessRequest w (''/player/top/'' @ String_num w nb @ ''/'' @ perfType) no_options)
             (\<lambda>response.
           seq (json w response) (\<lambda>leaderboard.
           succeed (JSON_stringify_2 w leaderboard))))))"

definition get_user_public_data :: handler where
  "get_user_public_data w a =
     seq (ToString w (a ''username'')) (\<lambda>username.
      if username = [] then throw (invalid ''Username parameter is required'')
      else if trim username = [] then throw (invalid ''Username cannot be empty'')
      else
        (let withTrophies = Boolean_js (a ''withTrophies'');
             params = (if withTrophies then [(''trophies'', ''true'')] else []) in
         try_catch
           (seq (lichessRequest w (''/user/'' @ username @ ''?'' @ URLSearchParams_toString w params)
                   no_options) (\<lambda>response.
            if \<not> ok response then
              (if status response = 404
               then throw (http_error response (''User '' @ username @ '' not found''))
               else throw (http_error response (''Failed to get user data: '' @ statusText response)))
            else
              seq (json w response) (\<lambda>userData.
              succeed (JSON_stringify_2 w userData))))
           (rethrow ''Failed to get user data: '')))"

definition get_rating_history :: handler where
  "get_rating_history w a =
     seq (ToString w (a ''username'')) (\<lambda>username.
      if username = [] then throw (invalid ''Username parameter is required'')
      else if trim username = [] then throw (invalid ''Username cannot be empty'')
      else
        try_catch
          (seq (lichessRequest w (''/user/'' @ username @ ''/rating-history'') no_options)
             (\<lambda>response.
           if \<not> ok response then
             (if status response = 404
              then throw (http_error response (''User '' @ username @ '' not found''))
              else throw (http_error response (''Failed to get rating history: '' @ statusText response)))
           else
             seq (json w response) (\<lambda>ratingHistory.
             succeed (JSON_stringify_2 w ratingHistory))))
          (rethrow ''Failed to get rating history: ''))"

definition get_user_performance :: handler where
  "get_user_performance w a =
     seq (ToString w (a ''username'')) (\<lambda>username.
     seq (ToString w (a ''perf'')) (\<lambda>perf.
      seq (lichessRequest w (''/user/'' @ username @ ''/perf/'' @ perf) no_options) (\<lambda>response.
      seq (json w response) (\<lambda>perfStats.
      succeed (JSON_stringify_2 w perfStats)))))"

definition get_user_activity :: handler where
  "get_user_activity w a =
     seq (ToString w (a ''username'')) (\<lambda>username.
      if username = [] then throw (invalid ''Username parameter is required'')
      else if trim username = [] then throw (invalid ''Username cannot be empty'')
      else
        try_catch
          (seq (lichessRequest w (''/user/'' @ username @ ''/activity'') no_options) (\<lambda>response.
           if \<not> ok response then
             (if status response = 404
              then throw (http_error response (''User '' @ username @ '' not found''))
              else throw (http_error response (''Failed to get user activity: '' @ statusText response)))
           else
             seq (json w response) (\<lambda>activity.
             succeed (JSON_stringify_2 w activity))))
          (rethrow ''Failed to get user activity: ''))"

definition get_users_by_id :: handler where
  "get_users_by_id w a =
     seq (ToString w (a ''ids'')) (\<lambda>ids.
      if ids = [] then throw (invalid ''IDs parameter is required'')
      else if trim ids = [] then throw (invalid ''IDs cannot be empty'')
      else if length (split_on CHR '','' ids) > 300
      then throw (invalid ''Maximum of 300 user IDs allowed'')
      else
        try_catch
          (seq (lichessRequest w ''/users'' (post_with ''text/plain'' ids)) (\<lambda>response.
           if \<not> ok response
           then throw (http_error response (''Failed to get users: '' @ statusText response))
           else
             seq (json w response) (\<lambda>users.
             succeed (JSON_stringify_2 w users))))
          (rethrow ''Failed to get users: ''))"

definition unblock_user :: handler where
  "unblock_user w a =
     seq (ToString w (a ''username'')) (\<lambda>username.
      if username = [] then throw (invalid ''Username parameter is required'')
      else if trim username = [] then throw (invalid ''Username cannot be empty'')
      else
        try_catch
          (seq (lichessRequest w (''/rel/unblock/'' @ username) post) (\<lambda>response.
           if \<not> ok response then
             (if status response = 404
              then throw (http_error response (''User '' @ username @ '' not found''))
              else throw (http_error response (''Failed to unblock user: '' @ statusText response)))
           else succeed (''Successfully unblocked '' @ username)))
          (rethrow ''Failed to unblock user: ''))"

text \<open>The tests \<^verbatim>\<open>contentType?.includes('application/x-chess-pgn')\<close> and
  \<^verbatim>\<open>contentType?.includes('application/x-ndjson')\<close> on the
  \<^verbatim>\<open>content-type\<close> header, which is \<^verbatim>\<open>null\<close> when the response has
  none, and the final
  \<^verbatim>\<open>typeof content === 'string' ? content : JSON.stringify(content, null, 2)\<close>.\<close>

definition is_pgn :: "response \<Rightarrow> bool" where
  "is_pgn r = (case content_type r of None \<Rightarrow> False
               | Some ct \<Rightarrow> includes_str ct ''application/x-chess-pgn'')"

definition is_ndjson :: "response \<Rightarrow> bool" where
  "is_ndjson r = (case content_type r of None \<Rightarrow> False
                  | Some ct \<Rightarrow> includes_str ct ''application/x-ndjson'')"

definition render :: "world \<Rightarrow> jsvalue \<Rightarrow> string" where
  "render w content = (case content of JString s \<Rightarrow> s | _ \<Rightarrow> JSON_stringify_2 w content)"

definition pgn_or_json :: "world \<Rightarrow> response \<Rightarrow> jsvalue action" where
  "pgn_or_json w response =
     (if is_pgn response then seq (read_text response) (\<lambda>t. succeed (JString t))
      else json w response)"

definition export_game :: handler where
  "export_game w a =
     seq (ToString w (a ''gameId'')) (\<lambda>gameId.
      if gameId = [] \<or> length gameId \<noteq> 8
      then throw (invalid ''Game ID must be exactly 8 characters long'')
      else
        seq (defined_params w a
               [''moves'', ''pgnInJson'', ''tags'', ''clocks'', ''evals'', ''accuracy'',
                ''opening'', ''literate'']) (\<lambda>params.
         try_catch
           (seq (lichessRequest w
                   (''/game/export/'' @ gameId @ ''?'' @ URLSearchParams_toString w params)
                   no_options) (\<lambda>response.
            if \<not> ok response then
              (if status response = 404
               then throw (http_error response (''Game '' @ gameId @ '' not found''))
               else throw (http_error response (''Failed to export game: '' @ statusText response)))
            else
              seq (pgn_or_json w response) (\<lambda>content.
              succeed (render w content))))
           (rethrow ''Failed to export game: '')))"

definition export_ongoing_game :: handler where
  "export_ongoing_game w a =
     seq (ToString w (a ''username'')) (\<lambda>username.
      if username = [] then throw (invalid ''Username parameter is required'')
      else if trim username = [] then throw (invalid ''Username cannot be empty'')
      else
        seq (defined_params w a
               [''moves'', ''pgnInJson'', ''tags'', ''clocks'', ''evals'', ''opening'']) (\<lambda>params.
         try_catch
           (seq (lichessRequest w
                   (''/user/'' @ username @ ''/current-game?'' @ URLSearchParams_toString w params)
                   no_options) (\<lambda>response.
            if \<not> ok response then
              (if status response = 404
               then throw (http_error response
                      (''User '' @ username @ '' not found or has no ongoing game''))
               else throw (http_error response
                      (''Failed to export ongoing game: '' @ statusText response)))
            else
              seq (pgn_or_json w response) (\<lambda>content.
              succeed (render w content))))
           (rethrow ''Failed to export ongoing game: '')))"

definition export_perf_types :: "string list" where
  "export_perf_types =
     [''ultraBullet'', ''bullet'', ''blitz'', ''rapid'', ''classical'', ''correspondence'',
      ''chess960'', ''crazyhouse'', ''antichess'', ''atomic'', ''horde'', ''kingOfTheHill'',
      ''racingKings'', ''threeCheck'']"

text \<open>The loop over \<^verbatim>\<open>stringParams\<close> of \<^verbatim>\<open>export_user_games\<close>: it
  throws at the first parameter, in the order of the list, whose value does not
  convert or is not allowed.\<close>

fun string_params ::
  "world \<Rightarrow> (string \<Rightarrow> jsvalue) \<Rightarrow> string list \<Rightarrow> (string \<times> string) list action" where
  "string_params w a [] = succeed []"
| "string_params w a (name # rest) =
     seq (ToString w (or_js (a name) (JString []))) (\<lambda>v.
      if v \<noteq> [] then
        (if name = ''color'' \<and> v \<notin> set [''white'', ''black'']
         then throw (invalid (''Color must be either '' @ [CHR 0x22] @ ''white'' @ [CHR 0x22]
                               @ '' or '' @ [CHR 0x22] @ ''black'' @ [CHR 0x22]))
         else if name = ''sort'' \<and> v \<notin> set [''dateAsc'', ''dateDesc'']
         then throw (invalid (''Sort must be either '' @ [CHR 0x22] @ ''dateAsc'' @ [CHR 0x22]
                               @ '' or '' @ [CHR 0x22] @ ''dateDesc'' @ [CHR 0x22]))
         else if name = ''perfType'' \<and> v \<notin> set export_perf_types
         then throw (invalid ''Invalid perfType value'')
         else seq (string_params w a rest) (\<lambda>ps. succeed ((name, v) # ps)))
      else string_params w a rest)"

definition export_user_games :: handler where
  "export_user_games w a =
     seq (ToString w (a ''username'')) (\<lambda>username.
      if username = [] then throw (invalid ''Username parameter is required'')
      else if trim username = [] then throw (invalid ''Username cannot be empty'')
      else
        seq (gather
               [if a ''since'' \<noteq> JUndefined then
                  seq (ToNumber w (a ''since'')) (\<lambda>since.
                  if num_lt since 1356998400070
                  then throw (invalid ''Since timestamp must be after January 1, 2013'')
                  else succeed [(''since'', String_num w since)])
                else succeed [],
                if a ''until'' \<noteq> JUndefined then
                  seq (ToNumber w (a ''until'')) (\<lambda>until.
                  if num_lt until 1356998400070
                  then throw (invalid ''Until timestamp must be after January 1, 2013'')
                  else succeed [(''until'', String_num w until)])
                else succeed [],
                if a ''max'' \<noteq> JUndefined then
                  seq (ToNumber w (a ''max'')) (\<lambda>max_nb.
                  if num_lt max_nb 1
                  then throw (invalid ''Max number of games must be at least 1'')
                  else succeed [(''max'', String_num w max_nb)])
                else succeed [],
                string_params w a [''vs'', ''perfType'', ''color'', ''players'', ''sort''],
                defined_params w a
                  [''rated'', ''analysed'', ''moves'', ''tags'', ''clocks'', ''evals'',
                   ''accuracy'', ''opening'', ''ongoing'', ''finished'', ''literate'',
                   ''lastFen'']]) (\<lambda>params.
            try_catch
              (seq (lichessRequest w
                      (''/games/user/'' @ username @ ''?'' @ URLSearchParams_toString w params)
                      no_options) (\<lambda>response.
               if \<not> ok response then
                 (if status response = 404
                  then throw (http_error response (''User '' @ username @ '' not found''))
                  else throw (http_error response (''Failed to export games: '' @ statusText response)))
               else
                 seq (if is_pgn response then seq (read_text response) (\<lambda>t. succeed (JString t))
                      else if is_ndjson response
                      then seq (read_text response) (\<lambda>text. ndjson w text)
                      else throw (Error ParseError ''Unexpected response format''))
                   (\<lambda>content.
                 succeed (render w content))))
              (rethrow ''Failed to export games: '')))"

text \<open>\<^verbatim>\<open>export_games_by_ids\<close> builds a \<^verbatim>\<open>URLSearchParams\<close> from its optional
  arguments, converting each, and never uses it; the request carries the identifiers
  only.\<close>

definition export_games_by_ids :: handler where
  "export_games_by_ids w a =
     seq (ToString w (a ''ids'')) (\<lambda>ids.
      if ids = [] then throw (invalid ''Game IDs parameter is required'')
      else if length (split_on CHR '','' ids) > 300
      then throw (invalid ''Maximum of 300 game IDs allowed'')
      else
        seq (defined_params w a
               [''moves'', ''pgnInJson'', ''tags'', ''clocks'', ''evals'', ''opening'']) (\<lambda>params.
        try_catch
          (seq (lichessRequest w ''/games/export/_ids'' (post_with ''text/plain'' ids))
             (\<lambda>response.
           if \<not> ok response
           then throw (http_error response (''Failed to export games: '' @ statusText response))
           else
             seq (if is_pgn response then seq (read_text response) (\<lambda>t. succeed (JString t))
                  else if is_ndjson response
                  then seq (read_text response) (\<lambda>text. ndjson w text)
                  else json w response)
               (\<lambda>content.
             succeed (render w content))))
          (rethrow ''Failed to export games: '')))"

definition get_tv_channels :: handler where
  "get_tv_channels w a =
     try_catch
       (seq (lichessRequest w ''/tv/channels'' no_options) (\<lambda>response.
        if \<not> ok response
        then throw (http_error response (''Failed to get TV channels: '' @ statusText response))
        else
          seq (json w response) (\<lambda>channels.
          succeed (JSON_stringify_2 w channels))))
       (rethrow ''Failed to get TV channels: '')"

definition validChannels :: "string list" where
  "validChannels =
     [''bot'', ''blitz'', ''racingKings'', ''ultraBullet'', ''bullet'', ''classical'',
      ''threeCheck'', ''antichess'', ''computer'', ''horde'', ''rapid'', ''atomic'',
      ''crazyhouse'', ''chess960'', ''kingOfTheHill'', ''best'']"

definition get_tv_game :: handler where
  "get_tv_game w a =
     seq (ToString w (or_js (a ''channel'') (JString []))) (\<lambda>channel.
      if channel \<noteq> [] \<and> channel \<notin> set validChannels
      then throw (invalid (''Invalid channel. Must be one of: '' @ join '', '' validChannels))
      else
        try_catch
          (let path = (if channel \<noteq> [] then ''/tv/'' @ channel else ''/tv'') in
           seq (lichessRequest w path no_options) (\<lambda>response.
           if \<not> ok response
           then throw (http_error response (''Failed to get TV game: '' @ statusText response))
           else
             seq (pgn_or_json w response) (\<lambda>content.
             succeed (render w content))))
          (rethrow ''Failed to get TV game: ''))"

definition get_puzzle_activity :: handler where
  "get_puzzle_activity w a =
     (let max_arg = a ''max'' in
      seq (if max_arg \<noteq> JUndefined then
             seq (ToNumber w max_arg) (\<lambda>maxNum.
             if isNaN maxNum then throw (invalid ''max parameter must be a number'')
             else if num_lt maxNum 1 \<or> num_gt maxNum 200
             then throw (invalid ''max parameter must be between 1 and 200'')
             else succeed ())
           else succeed ()) (\<lambda>_.
      seq (if max_arg \<noteq> JUndefined then param ''max'' (ToString w max_arg) else succeed [])
        (\<lambda>params.
         try_catch
           (seq (lichessRequest w (''/puzzle/activity?'' @ URLSearchParams_toString w params)
                   no_options) (\<lambda>response.
            if \<not> ok response
            then throw (http_error response (''Failed to get puzzle activity: '' @ statusText response))
            else
              seq (json w response) (\<lambda>activity.
              succeed (JSON_stringify_2 w activity))))
           (rethrow ''Failed to get puzzle activity: ''))))"

definition get_puzzle_dashboard :: handler where
  "get_puzzle_dashboard w a =
     seq (ToNumber w (a ''days'')) (\<lambda>days_value.
     (let days = num_or days_value 30 in
      if isNaN days then throw (invalid ''days parameter must be a number'')
      else if num_lt days 1 then throw (invalid ''days parameter must be at least 1'')
      else if num_gt days 30 then throw (invalid ''days parameter must not exceed 30'')
      else
        try_catch
          (seq (lichessRequest w (''/puzzle/dashboard/'' @ String_num w days) no_options)
             (\<lambda>response.
           if \<not> ok response
           then throw (http_error response (''Failed to get puzzle dashboard: '' @ statusText response))
           else
             seq (json w response) (\<lambda>dashboard.
             succeed (JSON_stringify_2 w dashboard))))
          (rethrow ''Failed to get puzzle dashboard: '')))"

text \<open>\<^verbatim>\<open>if (!race.id || !race.url) throw ...\<close> on the decoded body, followed by its
  serialisation.\<close>

definition race_result :: "world \<Rightarrow> jsvalue \<Rightarrow> string action" where
  "race_result w race =
     seq (read_prop race ''id'') (\<lambda>race_id.
     if \<not> truthy race_id
     then throw (Error ParseError ''Invalid response format from Lichess API'')
     else
       seq (read_prop race ''url'') (\<lambda>race_url.
       if \<not> truthy race_url
       then throw (Error ParseError ''Invalid response format from Lichess API'')
       else succeed (JSON_stringify_2 w race)))"

definition get_puzzle_race :: handler where
  "get_puzzle_race w a =
     seq (ToString w (a ''raceId'')) (\<lambda>raceId.
      if raceId = [] then throw (invalid ''raceId parameter is required'')
      else if trim raceId = [] then throw (invalid ''raceId cannot be empty'')
      else
        try_catch
          (seq (lichessRequest w (''/racer/'' @ raceId) no_options) (\<lambda>response.
           if \<not> ok response then
             (if status response = 404
              then throw (http_error response (''Puzzle race '' @ raceId @ '' not found''))
              else throw (http_error response (''Failed to get puzzle race: '' @ statusText response)))
           else
             seq (json w response) (\<lambda>race. race_result w race)))
          (rethrow ''Failed to get puzzle race: ''))"

definition create_puzzle_race :: handler where
  "create_puzzle_race w a =
     try_catch
       (seq (lichessRequest w ''/racer'' post) (\<lambda>response.
        if \<not> ok response
        then throw (http_error response (''Failed to create puzzle race: '' @ statusText response))
        else
          seq (json w response) (\<lambda>race. race_result w race)))
       (rethrow ''Failed to create puzzle race: '')"

definition get_puzzle_storm_dashboard :: handler where
  "get_puzzle_storm_dashboard w a =
     seq (ToNumber w (a ''days'')) (\<lambda>days_value.
     (let days = num_or days_value 30 in
      if isNaN days then throw (invalid ''days parameter must be a number'')
      else if num_lt days 1 then throw (invalid ''days parameter must be at least 1'')
      else if num_gt days 30 then throw (invalid ''days parameter must not exceed 30'')
      else
        try_catch
          (seq (lichessRequest w (''/storm/dashboard/'' @ String_num w days) no_options)
             (\<lambda>response.
           if \<not> ok response
           then throw (http_error response
                  (''Failed to get puzzle storm dashboard: '' @ statusText response))
           else
             seq (json w response) (\<lambda>dashboard.
             succeed (JSON_stringify_2 w dashboard))))
          (rethrow ''Failed to get puzzle storm dashboard: '')))"

definition get_team_info :: handler where
  "get_team_info w a =
     seq (ToString w (a ''teamId'')) (\<lambda>teamId.
      if teamId = [] then throw (invalid ''teamId parameter is required'')
      else if trim teamId = [] then throw (invalid ''teamId cannot be empty'')
      else
        try_catch
          (seq (lichessRequest w (''/team/'' @ teamId) no_options) (\<lambda>response.
           if \<not> ok response then
             (if status response = 404
              then throw (http_error response (''Team '' @ teamId @ '' not found''))
              else throw (http_error response (''Failed to get team info: '' @ statusText response)))
           else
             seq (json w response) (\<lambda>team.
             succeed (JSON_stringify_2 w team))))
          (rethrow ''Failed to get team info: ''))"

definition get_team_members :: handler where
  "get_team_members w a =
     seq (ToString w (a ''teamId'')) (\<lambda>teamId.
      if teamId = [] then throw (invalid ''teamId parameter is required'')
      else if trim teamId = [] then throw (invalid ''teamId cannot be empty'')
      else
        seq (ToNumber w (a ''max'')) (\<lambda>max_nb_value.
        (let max_nb = num_or max_nb_value 100 in
         if isNaN max_nb then throw (invalid ''max parameter must be a number'')
         else if num_lt max_nb 1 then throw (invalid ''max parameter must be at least 1'')
         else
           (let params = [(''max'', String_num w max_nb)] in
            try_catch
              (seq (lichessRequest w
                      (''/team/'' @ teamId @ ''/users?'' @ URLSearchParams_toString w params)
                      no_options) (\<lambda>response.
               if \<not> ok response then
                 (if status response = 404
                  then throw (http_error response (''Team '' @ teamId @ '' not found''))
                  else throw (http_error response
                         (''Failed to get team members: '' @ statusText response)))
               else
                 seq (json w response) (\<lambda>members.
                 succeed (JSON_stringify_2 w members))))
              (rethrow ''Failed to get team members: '')))))"

definition get_team_join_requests :: handler where
  "get_team_join_requests w a =
     seq (ToString w (a ''teamId'')) (\<lambda>teamId.
      if teamId = [] then throw (invalid ''teamId parameter is required'')
      else if trim teamId = [] then throw (invalid ''teamId cannot be empty'')
      else
        try_catch
          (seq (lichessRequest w (''/team/'' @ teamId @ ''/requests'') no_options) (\<lambda>response.
           if \<not> ok response then
             (if status response = 404
              then throw (http_error response (''Team '' @ teamId @ '' not found''))
              else throw (http_error response
                     (''Failed to get team join requests: '' @ statusText response)))
           else
             seq (json w response) (\<lambda>requests.
             succeed (JSON_stringify_2 w requests))))
          (rethrow ''Failed to get team join requests: ''))"

definition join_team :: handler where
  "join_team w a =
     seq (ToString w (a ''teamId'')) (\<lambda>teamId.
      if teamId = [] then throw (invalid ''teamId parameter is required'')
      else if trim teamId = [] then throw (invalid ''teamId cannot be empty'')
      else
        seq (ToString w (or_js (a ''message'') (JString []))) (\<lambda>msg.
        (let params = (if trim msg \<noteq> [] then [(''message'', msg)] else []) in
         try_catch
           (seq (lichessRequest w (''/team/'' @ teamId @ ''/join'')
                   (post_with form_urlencoded (URLSearchParams_toString w params))) (\<lambda>response.
            if \<not> ok response then
              (if status response = 404
               then throw (http_error response (''Team '' @ teamId @ '' not found''))
               else if status response = 403
               then throw (http_error response ''You are not allowed to join this team'')
               else if status response = 409
               then throw (http_error response ''You are already a member of this team'')
               else throw (http_error response (''Failed to join team: '' @ statusText response)))
            else succeed (''Successfully joined team '' @ teamId)))
           (rethrow ''Failed to join team: ''))))"

definition leave_team :: handler where
  "leave_team w a =
     seq (ToString w (a ''teamId'')) (\<lambda>teamId.
      if teamId = [] then throw (invalid ''teamId parameter is required'')
      else if trim teamId = [] then throw (invalid ''teamId cannot be empty'')
      else
        try_catch
          (seq (lichessRequest w (''/team/'' @ teamId @ ''/quit'') post) (\<lambda>response.
           if \<not> ok response then
             (if status response = 404
              then throw (http_error response (''Team '' @ teamId @ '' not found''))
              else if status response = 403
              then throw (http_error response ''You are not allowed to leave this team'')
              else if status response = 409
              then throw (http_error response ''You are not a member of this team'')
              else throw (http_error response (''Failed to leave team: '' @ statusText response)))
           else succeed (''Successfully left team '' @ teamId)))
          (rethrow ''Failed to leave team: ''))"

definition kick_user_from_team :: handler where
  "kick_user_from_team w a =
     seq (ToString w (a ''teamId'')) (\<lambda>teamId.
     seq (ToString w (a ''userId'')) (\<lambda>userId.
      if teamId = [] then throw (invalid ''teamId parameter is required'')
      else if trim teamId = [] then throw (invalid ''teamId cannot be empty'')
      else if userId = [] then throw (invalid ''userId parameter is required'')
      else if trim userId = [] then throw (invalid ''userId cannot be empty'')
      else
        try_catch
          (seq (lichessRequest w (''/team/'' @ teamId @ ''/kick/'' @ userId) post) (\<lambda>response.
           if \<not> ok response then
             (if status response = 404
              then throw (http_error response
                     (''Team '' @ teamId @ '' or user '' @ userId @ '' not found''))
              else if status response = 403
              then throw (http_error response ''You are not allowed to kick users from this team'')
              else if status response = 409
              then throw (http_error response ''User is not a member of this team'')
              else throw (http_error response
                     (''Failed to kick user from team: '' @ statusText response)))
           else succeed (''Successfully kicked user '' @ userId @ '' from team '' @ teamId)))
          (rethrow ''Failed to kick user from team: '')))"

definition accept_join_request :: handler where
  "accept_join_request w a =
     seq (ToString w (a ''teamId'')) (\<lambda>teamId.
     seq (ToString w (a ''userId'')) (\<lambda>userId.
      if teamId = [] then throw (invalid ''teamId parameter is required'')
      else if trim teamId = [] then throw (invalid ''teamId cannot be empty'')
      else if userId = [] then throw (invalid ''userId parameter is required'')
      else if trim userId = [] then throw (invalid ''userId cannot be empty'')
      else
        try_catch
          (seq (lichessRequest w (''/team/'' @ teamId @ ''/request/'' @ userId @ ''/accept'') post)
             (\<lambda>response.
           if \<not> ok response then
             (if status response = 404
              then throw (http_error response
                     (''Team '' @ teamId @ '' or join request from user '' @ userId @ '' not found''))
              else if status response = 403
              then throw (http_error response
                     ''You are not allowed to accept join requests for this team'')
              else throw (http_error response
                     (''Failed to accept join request: '' @ statusText response)))
           else succeed (''Successfully accepted join request from user '' @ userId
                         @ '' to team '' @ teamId)))
          (rethrow ''Failed to accept join request: '')))"

definition decline_join_request :: handler where
  "decline_join_request w a =
     seq (ToString w (a ''teamId'')) (\<lambda>teamId.
     seq (ToString w (a ''userId'')) (\<lambda>userId.
      if teamId = [] then throw (invalid ''teamId parameter is required'')
      else if trim teamId = [] then throw (invalid ''teamId cannot be empty'')
      else if userId = [] then throw (invalid ''userId parameter is required'')
      else if trim userId = [] then throw (invalid ''userId cannot be empty'')
      else
        try_catch
          (seq (lichessRequest w (''/team/'' @ teamId @ ''/request/'' @ userId @ ''/decline'') post)
             (\<lambda>response.
           if \<not> ok response then
             (if status response = 404
              then throw (http_error response
                     (''Team '' @ teamId @ '' or join request from user '' @ userId @ '' not found''))
              else if status response = 403
              then throw (http_error response
                     ''You are not allowed to decline join requests for this team'')
              else throw (http_error response
                     (''Failed to decline join request: '' @ statusText response)))
           else succeed (''Successfully declined join request from user '' @ userId
                         @ '' to team '' @ teamId)))
          (rethrow ''Failed to decline join request: '')))"

definition search_teams :: handler where
  "search_teams w a =
     seq (ToString w (a ''text'')) (\<lambda>text.
     seq (ToNumber w (a ''page'')) (\<lambda>page_value.
     (let page = num_or page_value 1 in
      if text = [] then throw (invalid ''text parameter is required'')
      else if trim text = [] then throw (invalid ''text cannot be empty'')
      else if isNaN page then throw (invalid ''page parameter must be a number'')
      else if num_lt page 1 then throw (invalid ''page parameter must be at least 1'')
      else
        try_catch
          (let params = [(''text'', text), (''page'', String_num w page)] in
           seq (lichessRequest w (''/team/search?'' @ URLSearchParams_toString w params) no_options)
             (\<lambda>response.
           if \<not> ok response
           then throw (http_error response (''Failed to search teams: '' @ statusText response))
           else
             seq (json w response) (\<lambda>teams.
             succeed (JSON_stringify_2 w teams))))
          (rethrow ''Failed to search teams: ''))))"

definition make_board_move :: handler where
  "make_board_move w a =
     seq (ToString w (a ''gameId'')) (\<lambda>gameId.
     seq (ToString w (a ''move'')) (\<lambda>move.
     (let offeringDraw = Boolean_js (a ''offeringDraw'') in
      if gameId = [] then throw (invalid ''gameId parameter is required'')
      else if trim gameId = [] then throw (invalid ''gameId cannot be empty'')
      else if move = [] then throw (invalid ''move parameter is required'')
      else if trim move = [] then throw (invalid ''move cannot be empty'')
      else
        try_catch
          (let params = (if offeringDraw then [(''offeringDraw'', ''true'')] else []) in
           seq (lichessRequest w
                  (''/board/game/'' @ gameId @ ''/move/'' @ move @ ''?''
                   @ URLSearchParams_toString w params) post) (\<lambda>response.
           if \<not> ok response then
             (if status response = 404
              then throw (http_error response (''Game '' @ gameId @ '' not found''))
              else if status response = 400
              then throw (http_error response ''Invalid move'')
              else throw (http_error response (''Failed to make move: '' @ statusText response)))
           else succeed (''Move '' @ move @ '' made in game '' @ gameId
                         @ (if offeringDraw then '' with draw offer'' else ''''))))
          (rethrow ''Failed to make move: ''))))"

definition abort_board_game :: handler where
  "abort_board_game w a =
     seq (ToString w (a ''gameId'')) (\<lambda>gameId.
      if gameId = [] then throw (invalid ''gameId parameter is required'')
      else if trim gameId = [] then throw (invalid ''gameId cannot be empty'')
      else
        try_catch
          (seq (lichessRequest w (''/board/game/'' @ gameId @ ''/abort'') post) (\<lambda>response.
           if \<not> ok response then
             (if status response = 404
              then throw (http_error response (''Game '' @ gameId @ '' not found''))
              else if status response = 400
              then throw (http_error response ''Game cannot be aborted'')
              else throw (http_error response (''Failed to abort game: '' @ statusText response)))
           else succeed (''Game '' @ gameId @ '' aborted'')))
          (rethrow ''Failed to abort game: ''))"

definition resign_board_game :: handler where
  "resign_board_game w a =
     seq (ToString w (a ''gameId'')) (\<lambda>gameId.
      if gameId = [] then throw (invalid ''gameId parameter is required'')
      else if trim gameId = [] then throw (invalid ''gameId cannot be empty'')
      else
        try_catch
          (seq (lichessRequest w (''/board/game/'' @ gameId @ ''/resign'') post) (\<lambda>response.
           if \<not> ok response then
             (if status response = 404
              then throw (http_error response (''Game '' @ gameId @ '' not found''))
              else if status response = 400
              then throw (http_error response ''Game cannot be resigned'')
              else throw (http_error response (''Failed to resign game: '' @ statusText response)))
           else succeed (''Resigned game '' @ gameId)))
          (rethrow ''Failed to resign game: ''))"

definition write_in_chat :: handler where
  "write_in_chat w a =
     seq (ToString w (a ''gameId'')) (\<lambda>gameId.
     seq (ToString w (a ''room'')) (\<lambda>room.
     seq (ToString w (a ''text'')) (\<lambda>text.
      if gameId = [] then throw (invalid ''gameId parameter is required'')
      else if trim gameId = [] then throw (invalid ''gameId cannot be empty'')
      else if room = [] then throw (invalid ''room parameter is required'')
      else if room \<notin> set [''player'', ''spectator'']
      then throw (invalid (''room must be either '' @ [CHR 0x22] @ ''player'' @ [CHR 0x22]
                           @ '' or '' @ [CHR 0x22] @ ''spectator'' @ [CHR 0x22]))
      else if text = [] then throw (invalid ''text parameter is required'')
      else if trim text = [] then throw (invalid ''text cannot be empty'')
      else
        try_catch
          (seq (lichessRequest w (''/board/game/'' @ gameId @ ''/chat'')
                  (post_with ''application/json''
                     (JSON_stringify w (JObject [(''room'', JString room), (''text'', JString text)]))))
             (\<lambda>response.
           if \<not> ok response then
             (if status response = 404
              then throw (http_error response (''Game '' @ gameId @ '' not found''))
              else if status response = 400
              then throw (http_error response ''Invalid chat message'')
              else throw (http_error response (''Failed to send message: '' @ statusText response)))
           else succeed (''Message sent to '' @ room @ '' chat in game '' @ gameId)))
          (rethrow ''Failed to send message: ''))))"

definition handle_draw_board_game :: handler where
  "handle_draw_board_game w a =
     seq (ToString w (a ''gameId'')) (\<lambda>gameId.
     (let accept = Boolean_js (nullish (a ''accept'') (JBool True)) in
      if gameId = [] then throw (invalid ''gameId parameter is required'')
      else if trim gameId = [] then throw (invalid ''gameId cannot be empty'')
      else
        try_catch
          (seq (lichessRequest w
                  (''/board/game/'' @ gameId @ ''/draw/'' @ (if accept then ''yes'' else ''no''))
                  post) (\<lambda>response.
           if \<not> ok response then
             (if status response = 404
              then throw (http_error response (''Game '' @ gameId @ '' not found''))
              else if status response = 400
              then throw (http_error response ''No draw offer to handle'')
              else throw (http_error response
                     (''Failed to handle draw offer: '' @ statusText response)))
           else succeed (''Draw offer '' @ (if accept then ''accepted'' else ''declined'')
                         @ '' for game '' @ gameId)))
          (rethrow ''Failed to handle draw offer: '')))"

definition claim_victory :: handler where
  "claim_victory w a =
     seq (ToString w (a ''gameId'')) (\<lambda>gameId.
      if gameId = [] then throw (invalid ''gameId parameter is required'')
      else if trim gameId = [] then throw (invalid ''gameId cannot be empty'')
      else
        try_catch
          (seq (lichessRequest w (''/board/game/'' @ gameId @ ''/claim-victory'') post)
             (\<lambda>response.
           if \<not> ok response then
             (if status response = 404
              then throw (http_error response (''Game '' @ gameId @ '' not found''))
              else if status response = 400
              then throw (http_error response ''Victory cannot be claimed'')
              else throw (http_error response (''Failed to claim victory: '' @ statusText response)))
           else succeed (''Victory claimed for game '' @ gameId)))
          (rethrow ''Failed to claim victory: ''))"

definition list_challenges :: handler where
  "list_challenges w a =
     try_catch
       (seq (lichessRequest w ''/challenge'' no_options) (\<lambda>response.
        if \<not> ok response
        then throw (http_error response (''Failed to list challenges: '' @ statusText response))
        else
          seq (json w response) (\<lambda>challenges.
          succeed (JSON_stringify_2 w challenges))))
       (rethrow ''Failed to list challenges: '')"

definition accept_challenge :: handler where
  "accept_challenge w a =
     seq (ToString w (a ''challengeId'')) (\<lambda>challengeId.
      if challengeId = [] then throw (invalid ''challengeId parameter is required'')
      else if trim challengeId = [] then throw (invalid ''challengeId cannot be empty'')
      else
        try_catch
          (seq (lichessRequest w (''/challenge/'' @ challengeId @ ''/accept'') post) (\<lambda>response.
           if \<not> ok response then
             (if status response = 404
              then throw (http_error response (''Challenge '' @ challengeId @ '' not found''))
              else if status response = 400
              then throw (http_error response ''Challenge cannot be accepted'')
              else throw (http_error response
                     (''Failed to accept challenge: '' @ statusText response)))
           else succeed (''Challenge '' @ challengeId @ '' accepted'')))
          (rethrow ''Failed to accept challenge: ''))"

definition validReasons :: "string list" where
  "validReasons =
     [''generic'', ''later'', ''tooFast'', ''tooSlow'', ''timeControl'', ''rated'', ''casual'',
      ''standard'', ''variant'', ''noBot'', ''onlyBot'']"

definition decline_challenge :: handler where
  "decline_challenge w a =
     seq (ToString w (a ''challengeId'')) (\<lambda>challengeId.
     seq (ToString w (or_js (a ''reason'') (JString ''generic''))) (\<lambda>reason.
      if challengeId = [] then throw (invalid ''challengeId parameter is required'')
      else if trim challengeId = [] then throw (invalid ''challengeId cannot be empty'')
      else if reason \<notin> set validReasons
      then throw (invalid (''Invalid reason. Must be one of: '' @ join '', '' validReasons))
      else
        try_catch
          (seq (lichessRequest w (''/challenge/'' @ challengeId @ ''/decline'')
                  (post_with ''application/json''
                     (JSON_stringify w (JObject [(''reason'', JString reason)])))) (\<lambda>response.
           if \<not> ok response then
             (if status response = 404
              then throw (http_error response (''Challenge '' @ challengeId @ '' not found''))
              else if status response = 400
              then throw (http_error response ''Challenge cannot be declined'')
              else throw (http_error response
                     (''Failed to decline challenge: '' @ statusText response)))
           else succeed (''Challenge '' @ challengeId @ '' declined'')))
          (rethrow ''Failed to decline challenge: '')))"

definition cancel_challenge :: handler where
  "cancel_challenge w a =
     seq (ToString w (a ''challengeId'')) (\<lambda>challengeId.
      if challengeId = [] then throw (invalid ''challengeId parameter is required'')
      else if trim challengeId = [] then throw (invalid ''challengeId cannot be empty'')
      else
        try_catch
          (seq (lichessRequest w (''/challenge/'' @ challengeId @ ''/cancel'') post) (\<lambda>response.
           if \<not> ok response then
             (if status response = 404
              then throw (http_error response (''Challenge '' @ challengeId @ '' not found''))
              else if status response = 400
              then throw (http_error response ''Challenge cannot be cancelled'')
              else throw (http_error response
                     (''Failed to cancel challenge: '' @ statusText response)))
           else succeed (''Challenge '' @ challengeId @ '' cancelled'')))
          (rethrow ''Failed to cancel challenge: ''))"

definition get_arena_tournaments :: handler where
  "get_arena_tournaments w a =
     try_catch
       (seq (lichessRequest w ''/tournament'' no_options) (\<lambda>response.
        if \<not> ok response
        then throw (http_error response (''Failed to get arena tournaments: '' @ statusText response))
        else
          seq (json w response) (\<lambda>tournaments.
          succeed (JSON_stringify_2 w tournaments))))
       (rethrow ''Failed to get arena tournaments: '')"

definition validVariants :: "string list" where
  "validVariants =
     [''standard'', ''chess960'', ''crazyhouse'', ''antichess'', ''atomic'', ''horde'',
      ''kingOfTheHill'', ''racingKings'', ''threeCheck'']"

definition create_arena :: handler where
  "create_arena w a =
     (if \<not> truthy (a ''name'') then throw (invalid ''name parameter is required'')
      else
        try_catch
          (seq (ToString w (a ''name'')) (\<lambda>name.
           seq (ToNumber w (a ''clockTime'')) (\<lambda>clockTime_value.
           seq (ToNumber w (a ''clockIncrement'')) (\<lambda>clockIncrement_value.
           seq (ToNumber w (a ''minutes'')) (\<lambda>minutes_value.
           seq (ToNumber w (a ''waitMinutes'')) (\<lambda>waitMinutes_value.
           seq (ToString w (or_js (a ''variant'') (JString ''standard''))) (\<lambda>variant.
           (let clockTime = num_or clockTime_value 3;
                clockIncrement = num_or clockIncrement_value 2;
                minutes = num_or minutes_value 45;
                waitMinutes = num_or waitMinutes_value 5;
                body0 =
                  [(''name'', JString name),
                   (''clockTime'', JNumber clockTime),
                   (''clockIncrement'', JNumber clockIncrement),
                   (''minutes'', JNumber minutes),
                   (''waitMinutes'', JNumber waitMinutes),
                   (''variant'', JString variant),
                   (''rated'', JBool (Boolean_js (nullish (a ''rated'') (JBool True)))),
                   (''berserkable'', JBool (Boolean_js (nullish (a ''berserkable'') (JBool True)))),
                   (''streakable'', JBool (Boolean_js (nullish (a ''streakable'') (JBool True)))),
                   (''hasChat'', JBool (Boolean_js (nullish (a ''hasChat'') (JBool True))))] in
            if num_lt clockTime 0 then throw (invalid ''clockTime must be positive'')
            else if num_lt clockIncrement 0 then throw (invalid ''clockIncrement must be positive'')
            else if num_lt minutes 1 then throw (invalid ''minutes must be at least 1'')
            else if num_lt waitMinutes 1 then throw (invalid ''waitMinutes must be at least 1'')
            else if variant \<notin> set validVariants
            then throw (invalid (''Invalid variant. Must be one of: '' @ join '', '' validVariants))
            else
              seq (gather
                     [if truthy (a ''startDate'') then
                        seq (ToNumber w (a ''startDate'')) (\<lambda>startDate.
                        if isNaN startDate
                        then throw (invalid ''startDate must be a valid timestamp'')
                        else succeed [(''startDate'', JNumber startDate)])
                      else succeed [],
                      if truthy (a ''position'') then
                        seq (ToString w (a ''position'')) (\<lambda>position.
                        succeed [(''position'', JString position)])
                      else succeed [],
                      if truthy (a ''description'') then
                        seq (ToString w (a ''description'')) (\<lambda>description.
                        succeed [(''description'', JString description)])
                      else succeed [],
                      if truthy (a ''conditions'')
                      then succeed [(''conditions'', a ''conditions'')]
                      else succeed []]) (\<lambda>optional.
              seq (lichessRequest w ''/tournament''
                     (post_with ''application/json'' (JSON_stringify w (JObject (body0 @ optional)))))
                (\<lambda>response.
              if \<not> ok response then
                (if status response = 400
                 then throw (http_error response ''Invalid tournament parameters'')
                 else throw (http_error response
                        (''Failed to create tournament: '' @ statusText response)))
              else
                seq (json w response) (\<lambda>tournament.
                succeed (JSON_stringify_2 w tournament))))))))))))
          (rethrow ''Failed to create tournament: ''))"

definition get_arena_info :: handler where
  "get_arena_info w a =
     seq (ToString w (a ''tournamentId'')) (\<lambda>tournamentId.
      if tournamentId = [] then throw (invalid ''tournamentId parameter is required'')
      else if trim tournamentId = [] then throw (invalid ''tournamentId cannot be empty'')
      else
        try_catch
          (seq (lichessRequest w (''/tournament/'' @ tournamentId) no_options) (\<lambda>response.
           if \<not> ok response then
             (if status response = 404
              then throw (http_error response (''Tournament '' @ tournamentId @ '' not found''))
              else throw (http_error response
                     (''Failed to get tournament info: '' @ statusText response)))
           else
             seq (json w response) (\<lambda>info.
             succeed (JSON_stringify_2 w info))))
          (rethrow ''Failed to get tournament info: ''))"

definition get_arena_games :: handler where
  "get_arena_games w a =
     seq (ToString w (a ''tournamentId'')) (\<lambda>tournamentId.
      seq (lichessRequest w (''/tournament/'' @ tournamentId @ ''/games'') no_options)
        (\<lambda>response.
      seq (json w response) (\<lambda>games.
      succeed (JSON_stringify_2 w games))))"

definition get_arena_results :: handler where
  "get_arena_results w a =
     seq (ToString w (a ''tournamentId'')) (\<lambda>tournamentId.
      if tournamentId = [] then throw (invalid ''tournamentId parameter is required'')
      else if trim tournamentId = [] then throw (invalid ''tournamentId cannot be empty'')
      else
        try_catch
          (seq (gather
                  [if truthy (a ''nb'') then param ''nb'' (ToString w (a ''nb'')) else succeed [],
                   if truthy (a ''sheet'') then param ''sheet'' (ToString w (a ''sheet''))
                   else succeed []]) (\<lambda>queryParams.
           (let query = URLSearchParams_toString w queryParams;
                endpoint = ''/tournament/'' @ tournamentId @ ''/results''
                           @ (if query \<noteq> [] then ''?'' @ query else '''') in
           seq (lichessRequest w endpoint no_options) (\<lambda>response.
           if \<not> ok response then
             (if status response = 404
              then throw (http_error response (''Tournament '' @ tournamentId @ '' not found''))
              else throw (http_error response
                     (''Failed to get tournament results: '' @ statusText response)))
           else
             seq (json w response) (\<lambda>results.
             succeed (JSON_stringify_2 w results))))))
          (rethrow ''Failed to get tournament results: ''))"

definition join_arena :: handler where
  "join_arena w a =
     seq (ToString w (a ''tournamentId'')) (\<lambda>tournamentId.
      if tournamentId = [] then throw (invalid ''tournamentId parameter is required'')
      else if trim tournamentId = [] then throw (invalid ''tournamentId cannot be empty'')
      else
        try_catch
          (seq (lichessRequest w (''/tournament/'' @ tournamentId @ ''/join'') post) (\<lambda>response.
           if \<not> ok response then
             (if status response = 404
              then throw (http_error response (''Tournament '' @ tournamentId @ '' not found''))
              else if status response = 403
              then throw (http_error response ''You are not allowed to join this tournament'')
              else if status response = 400
              then throw (http_error response ''Cannot join this tournament'')
              else throw (http_error response (''Failed to join tournament: '' @ statusText response)))
           else succeed (''Successfully joined tournament '' @ tournamentId)))
          (rethrow ''Failed to join tournament: ''))"

definition withdraw_from_arena :: handler where
  "withdraw_from_arena w a =
     seq (ToString w (a ''tournamentId'')) (\<lambda>tournamentId.
      if tournamentId = [] then throw (invalid ''tournamentId parameter is required'')
      else if trim tournamentId = [] then throw (invalid ''tournamentId cannot be empty'')
      else
        try_catch
          (seq (lichessRequest w (''/tournament/'' @ tournamentId @ ''/withdraw'') post)
             (\<lambda>response.
           if \<not> ok response then
             (if status response = 404
              then throw (http_error response (''Tournament '' @ tournamentId @ '' not found''))
              else if status response = 403
              then throw (http_error response
                     ''You are not allowed to withdraw from this tournament'')
              else if status response = 400
              then throw (http_error response ''Cannot withdraw from this tournament'')
              else throw (http_error response
                     (''Failed to withdraw from tournament: '' @ statusText response)))
           else succeed (''Successfully withdrew from tournament '' @ tournamentId)))
          (rethrow ''Failed to withdraw from tournament: ''))"

definition get_team_battle_results :: handler where
  "get_team_battle_results w a =
     seq (ToString w (a ''tournamentId'')) (\<lambda>tournamentId.
      if tournamentId = [] then throw (invalid ''tournamentId parameter is required'')
      else if trim tournamentId = [] then throw (invalid ''tournamentId cannot be empty'')
      else
        try_catch
          (seq (lichessRequest w (''/tournament/'' @ tournamentId @ ''/teams'') no_options)
             (\<lambda>response.
           if \<not> ok response then
             (if status response = 404
              then throw (http_error response (''Tournament '' @ tournamentId @ '' not found''))
              else throw (http_error response
                     (''Failed to get team battle results: '' @ statusText response)))
           else
             seq (json w response) (\<lambda>results.
             succeed (JSON_stringify_2 w results))))
          (rethrow ''Failed to get team battle results: ''))"

definition create_swiss :: handler where
  "create_swiss w a =
     (if \<not> truthy (a ''name'') then throw (invalid ''name parameter is required'')
      else if \<not> truthy (a ''teamId'') then throw (invalid ''teamId parameter is required'')
      else
        (let clock = a ''clock'' in
         if \<not> truthy clock then throw (invalid ''clock parameter is required'')
         else if \<not> truthy (member clock ''limit'') \<or> \<not> truthy (member clock ''increment'')
         then throw (invalid ''clock must specify both limit and increment'')
         else
           try_catch
             (seq (ToString w (a ''name'')) (\<lambda>name.
              seq (ToString w (a ''teamId'')) (\<lambda>teamId.
              seq (ToNumber w (member clock ''limit'')) (\<lambda>clock_limit.
              seq (ToNumber w (member clock ''increment'')) (\<lambda>clock_increment.
              seq (ToNumber w (a ''nbRounds'')) (\<lambda>nbRounds_value.
              seq (ToString w (or_js (a ''variant'') (JString ''standard''))) (\<lambda>variant.
              seq (ToNumber w (a ''roundInterval'')) (\<lambda>roundInterval_value.
              (let nbRounds = num_or nbRounds_value 7;
                   roundInterval = num_or roundInterval_value 300;
                   body0 =
                     [(''name'', JString name),
                      (''teamId'', JString teamId),
                      (''clock'', JObject [(''limit'', JNumber clock_limit),
                                           (''increment'', JNumber clock_increment)]),
                      (''nbRounds'', JNumber nbRounds),
                      (''variant'', JString variant),
                      (''rated'', JBool (Boolean_js (nullish (a ''rated'') (JBool True)))),
                      (''roundInterval'', JNumber roundInterval)] in
               if num_lt nbRounds 1 then throw (invalid ''nbRounds must be at least 1'')
               else if num_lt roundInterval 1
               then throw (invalid ''roundInterval must be at least 1 second'')
               else if num_lt clock_limit 0 then throw (invalid ''clock limit must be positive'')
               else if num_lt clock_increment 0
               then throw (invalid ''clock increment must be positive'')
               else if variant \<notin> set validVariants
               then throw (invalid (''Invalid variant. Must be one of: '' @ join '', '' validVariants))
               else
                 seq (if truthy (a ''description'') then
                        seq (ToString w (a ''description'')) (\<lambda>description.
                        succeed [(''description'', JString description)])
                      else succeed []) (\<lambda>optional.
                 seq (lichessRequest w ''/swiss/new''
                        (post_with ''application/json''
                           (JSON_stringify w (JObject (body0 @ optional)))))
                   (\<lambda>response.
                 if \<not> ok response then
                   (if status response = 404
                    then throw (http_error response ''Team not found'')
                    else if status response = 403
                    then throw (http_error response
                           ''You are not allowed to create tournaments for this team'')
                    else throw (http_error response
                           (''Failed to create Swiss tournament: '' @ statusText response)))
                 else
                   seq (json w response) (\<lambda>tournament.
                   succeed (JSON_stringify_2 w tournament)))))))))))))
             (rethrow ''Failed to create Swiss tournament: '')))"

definition get_swiss_info :: handler where
  "get_swiss_info w a =
     seq (ToString w (a ''swissId'')) (\<lambda>swissId.
      if swissId = [] then throw (invalid ''swissId parameter is required'')
      else if trim swissId = [] then throw (invalid ''swissId cannot be empty'')
      else
        try_catch
          (seq (lichessRequest w (''/swiss/'' @ swissId) no_options) (\<lambda>response.
           if \<not> ok response then
             (if status response = 404
              then throw (http_error response (''Swiss tournament '' @ swissId @ '' not found''))
              else throw (http_error response
                     (''Failed to get Swiss tournament info: '' @ statusText response)))
           else
             seq (json w response) (\<lambda>info.
             succeed (JSON_stringify_2 w info))))
          (rethrow ''Failed to get Swiss tournament info: ''))"

definition get_swiss_games :: handler where
  "get_swiss_games w a =
     seq (ToString w (a ''swissId'')) (\<lambda>swissId.
      if swissId = [] then throw (invalid ''swissId parameter is required'')
      else if trim swissId = [] then throw (invalid ''swissId cannot be empty'')
      else
        try_catch
          (seq (gather
                  [if truthy (a ''player'') then param ''player'' (ToString w (a ''player''))
                   else succeed [],
                   defined_params w a
                     [''moves'', ''pgnInJson'', ''tags'', ''clocks'', ''evals'', ''opening'']])
             (\<lambda>params.
           seq (lichessRequest w
                  (''/swiss/'' @ swissId @ ''/games?'' @ URLSearchParams_toString w params)
                  no_options) (\<lambda>response.
           if \<not> ok response then
             (if status response = 404
              then throw (http_error response (''Swiss tournament '' @ swissId @ '' not found''))
              else throw (http_error response
                     (''Failed to get Swiss tournament games: '' @ statusText response)))
           else
             seq (read_text response) (\<lambda>text.
             seq (ndjson w text) (\<lambda>games.
             succeed (JSON_stringify_2 w games))))))
          (rethrow ''Failed to get Swiss tournament games: ''))"

definition get_swiss_results :: handler where
  "get_swiss_results w a =
     seq (ToString w (a ''swissId'')) (\<lambda>swissId.
      if swissId = [] then throw (invalid ''swissId parameter is required'')
      else if trim swissId = [] then throw (invalid ''swissId cannot be empty'')
      else
        try_catch
          (seq (lichessRequest w (''/swiss/'' @ swissId @ ''/results'') no_options) (\<lambda>response.
           if \<not> ok response then
             (if status response = 404
              then throw (http_error response (''Swiss tournament '' @ swissId @ '' not found''))
              else throw (http_error response
                     (''Failed to get Swiss tournament results: '' @ statusText response)))
           else
             seq (read_text response) (\<lambda>text.
             seq (ndjson w text) (\<lambda>results.
             succeed (JSON_stringify_2 w results)))))
          (rethrow ''Failed to get Swiss tournament results: ''))"

definition join_swiss :: handler where
  "join_swiss w a =
     seq (ToString w (a ''swissId'')) (\<lambda>swissId.
      if swissId = [] then throw (invalid ''swissId parameter is required'')
      else if trim swissId = [] then throw (invalid ''swissId cannot be empty'')
      else
        try_catch
          (seq (lichessRequest w (''/swiss/'' @ swissId @ ''/join'') post) (\<lambda>response.
           if \<not> ok response then
             (if status response = 404
              then throw (http_error response (''Swiss tournament '' @ swissId @ '' not found''))
              else if status response = 403
              then throw (http_error response ''You are not allowed to join this tournament'')
              else if status response = 400
              then throw (http_error response ''Cannot join this tournament'')
              else throw (http_error response
                     (''Failed to join Swiss tournament: '' @ statusText response)))
           else succeed (''Successfully joined Swiss tournament '' @ swissId)))
          (rethrow ''Failed to join Swiss tournament: ''))"

definition withdraw_from_swiss :: handler where
  "withdraw_from_swiss w a =
     seq (ToString w (a ''swissId'')) (\<lambda>swissId.
      if swissId = [] then throw (invalid ''swissId parameter is required'')
      else if trim swissId = [] then throw (invalid ''swissId cannot be empty'')
      else
        try_catch
          (seq (lichessRequest w (''/swiss/'' @ swissId @ ''/withdraw'') post) (\<lambda>response.
           if \<not> ok response then
             (if status response = 404
              then throw (http_error response (''Swiss tournament '' @ swissId @ '' not found''))
              else if status response = 403
              then throw (http_error response
                     ''You are not allowed to withdraw from this tournament'')
              else if status response = 400
              then throw (http_error response ''Cannot withdraw from this tournament'')
              else throw (http_error response
                     (''Failed to withdraw from Swiss tournament: '' @ statusText response)))
           else succeed (''Successfully withdrew from Swiss tournament '' @ swissId)))
          (rethrow ''Failed to withdraw from Swiss tournament: ''))"

definition get_current_simuls :: handler where
  "get_current_simuls w a =
     try_catch
       (seq (lichessRequest w ''/simul'' no_options) (\<lambda>response.
        if \<not> ok response
        then throw (http_error response (''Failed to get current simuls: '' @ statusText response))
        else
          seq (json w response) (\<lambda>simuls.
          succeed (JSON_stringify_2 w simuls))))
       (rethrow ''Failed to get current simuls: '')"

definition create_simul :: handler where
  "create_simul w a =
     (if \<not> truthy (a ''name'') then throw (invalid ''name parameter is required'')
      else
        try_catch
          (seq (ToString w (a ''name'')) (\<lambda>name.
           seq (ToString w (or_js (a ''variant'') (JString ''standard''))) (\<lambda>variant.
           seq (ToNumber w (a ''clockTime'')) (\<lambda>clockTime_value.
           seq (ToNumber w (a ''clockIncrement'')) (\<lambda>clockIncrement_value.
           seq (ToString w (or_js (a ''color'') (JString ''white''))) (\<lambda>color.
           (let clockTime = num_or clockTime_value 5;
                clockIncrement = num_or clockIncrement_value 3;
                body0 =
                  [(''name'', JString name),
                   (''variant'', JString variant),
                   (''clockTime'', JNumber clockTime),
                   (''clockIncrement'', JNumber clockIncrement),
                   (''color'', JString color)] in
            if num_lt clockTime 0 then throw (invalid ''clockTime must be positive'')
            else if num_lt clockIncrement 0 then throw (invalid ''clockIncrement must be positive'')
            else if variant \<notin> set validVariants
            then throw (invalid (''Invalid variant. Must be one of: '' @ join '', '' validVariants))
            else if color \<notin> set [''white'', ''black'']
            then throw (invalid (''color must be either '' @ [CHR 0x22] @ ''white'' @ [CHR 0x22]
                                 @ '' or '' @ [CHR 0x22] @ ''black'' @ [CHR 0x22]))
            else
              seq (gather
                     [if truthy (a ''minRating'') then
                        seq (ToNumber w (a ''minRating'')) (\<lambda>minRating.
                        succeed [(''minRating'', JNumber minRating)])
                      else succeed [],
                      if truthy (a ''maxRating'') then
                        seq (ToNumber w (a ''maxRating'')) (\<lambda>maxRating.
                        succeed [(''maxRating'', JNumber maxRating)])
                      else succeed [],
                      if truthy (a ''text'') then
                        seq (ToString w (a ''text'')) (\<lambda>text.
                        succeed [(''text'', JString text)])
                      else succeed []]) (\<lambda>optional.
              seq (lichessRequest w ''/simul/new''
                     (post_with ''application/json'' (JSON_stringify w (JObject (body0 @ optional)))))
                (\<lambda>response.
              if \<not> ok response then
                (if status response = 403
                 then throw (http_error response ''You are not allowed to create simuls'')
                 else throw (http_error response (''Failed to create simul: '' @ statusText response)))
              else
                seq (json w response) (\<lambda>simul.
                succeed (JSON_stringify_2 w simul)))))))))))
          (rethrow ''Failed to create simul: ''))"

definition join_simul :: handler where
  "join_simul w a =
     seq (ToString w (a ''simulId'')) (\<lambda>simulId.
      if simulId = [] then throw (invalid ''simulId parameter is required'')
      else if trim simulId = [] then throw (invalid ''simulId cannot be empty'')
      else
        try_catch
          (seq (lichessRequest w (''/simul/'' @ simulId @ ''/join'') post) (\<lambda>response.
           if \<not> ok response then
             (if status response = 404
              then throw (http_error response (''Simul '' @ simulId @ '' not found''))
              else if status response = 403
              then throw (http_error response ''You are not allowed to join this simul'')
              else if status response = 400
              then throw (http_error response ''Cannot join this simul'')
              else throw (http_error response (''Failed to join simul: '' @ statusText response)))
           else succeed (''Successfully joined simul '' @ simulId)))
          (rethrow ''Failed to join simul: ''))"

definition withdraw_from_simul :: handler where
  "withdraw_from_simul w a =
     seq (ToString w (a ''simulId'')) (\<lambda>simulId.
      if simulId = [] then throw (invalid ''simulId parameter is required'')
      else if trim simulId = [] then throw (invalid ''simulId cannot be empty'')
      else
        try_catch
          (seq (lichessRequest w (''/simul/'' @ simulId @ ''/withdraw'') post) (\<lambda>response.
           if \<not> ok response then
             (if status response = 404
              then throw (http_error response (''Simul '' @ simulId @ '' not found''))
              else if status response = 403
              then throw (http_error response ''You are not allowed to withdraw from this simul'')
              else if status response = 400
              then throw (http_error response ''Cannot withdraw from this simul'')
              else throw (http_error response
                     (''Failed to withdraw from simul: '' @ statusText response)))
           else succeed (''Successfully withdrew from simul '' @ simulId)))
          (rethrow ''Failed to withdraw from simul: ''))"

definition study_params :: "string list" where
  "study_params = [''clocks'', ''comments'', ''variations'', ''source'', ''orientation'']"

definition export_study_chapter :: handler where
  "export_study_chapter w a =
     seq (ToString w (a ''studyId'')) (\<lambda>studyId.
     seq (ToString w (a ''chapterId'')) (\<lambda>chapterId.
      if studyId = [] \<or> length studyId \<noteq> 8
      then throw (invalid ''Study ID must be exactly 8 characters long'')
      else if chapterId = [] \<or> length chapterId \<noteq> 8
      then throw (invalid ''Chapter ID must be exactly 8 characters long'')
      else
        seq (defined_params w a study_params) (\<lambda>params.
         try_catch
           (seq (lichessRequest w
                   (''/study/'' @ studyId @ ''/'' @ chapterId @ ''.pgn?''
                    @ URLSearchParams_toString w params) no_options) (\<lambda>response.
            if \<not> ok response then
              (if status response = 404
               then throw (http_error response ''Study chapter not found'')
               else throw (http_error response
                      (''Failed to export study chapter: '' @ statusText response)))
            else
              seq (read_text response) (\<lambda>pgn. succeed pgn)))
           (rethrow ''Failed to export study chapter: ''))))"

definition export_all_study_chapters :: handler where
  "export_all_study_chapters w a =
     seq (ToString w (a ''studyId'')) (\<lambda>studyId.
      if studyId = [] \<or> length studyId \<noteq> 8
      then throw (invalid ''Study ID must be exactly 8 characters long'')
      else
        seq (defined_params w a study_params) (\<lambda>params.
         try_catch
           (seq (lichessRequest w
                   (''/study/'' @ studyId @ ''.pgn?'' @ URLSearchParams_toString w params)
                   no_options) (\<lambda>response.
            if \<not> ok response then
              (if status response = 404
               then throw (http_error response ''Study not found'')
               else throw (http_error response
                      (''Failed to export study chapters: '' @ statusText response)))
            else
              seq (read_text response) (\<lambda>pgn. succeed pgn)))
           (rethrow ''Failed to export study chapters: '')))"

definition get_user_studies :: handler where
  "get_user_studies w a =
     seq (ToString w (a ''username'')) (\<lambda>username.
      if username = [] then throw (invalid ''Username parameter is required'')
      else if trim username = [] then throw (invalid ''Username cannot be empty'')
      else
        try_catch
          (seq (lichessRequest w (''/study/by/'' @ username) no_options) (\<lambda>response.
           if \<not> ok response then
             (if status response = 404
              then throw (http_error response (''User '' @ username @ '' not found''))
              else throw (http_error response (''Failed to get user studies: '' @ statusText response)))
           else
             seq (read_text response) (\<lambda>text.
             seq (ndjson w text) (\<lambda>studies.
             succeed (JSON_stringify_2 w studies)))))
          (rethrow ''Failed to get user studies: ''))"

definition get_thread :: handler where
  "get_thread w a =
     seq (ToString w (a ''userId'')) (\<lambda>userId.
      if userId = [] then throw (invalid ''User ID parameter is required'')
      else if trim userId = [] then throw (invalid ''User ID cannot be empty'')
      else
        try_catch
          (seq (lichessRequest w (''/inbox/'' @ userId) no_options) (\<lambda>response.
           if \<not> ok response then
             (if status response = 401
              then throw (http_error response ''Missing authorization or insufficient permissions'')
              else if status response = 404
              then throw (http_error response (''Thread with user '' @ userId @ '' not found''))
              else throw (http_error response (''Failed to get thread: '' @ statusText response)))
           else
             seq (json w response) (\<lambda>thread.
             succeed (JSON_stringify_2 w thread))))
          (rethrow ''Failed to get thread: ''))"

definition get_official_broadcasts :: handler where
  "get_official_broadcasts w a =
     try_catch
       (seq (lichessRequest w ''/broadcast'' no_options) (\<lambda>response.
        if \<not> ok response
        then throw (http_error response
               (''Failed to get official broadcasts: '' @ statusText response))
        else
          seq (read_text response) (\<lambda>text.
          seq (ndjson w text) (\<lambda>broadcasts.
          succeed (JSON_stringify_2 w broadcasts)))))
       (rethrow ''Failed to get official broadcasts: '')"

definition get_broadcast :: handler where
  "get_broadcast w a =
     seq (ToString w (a ''broadcastId'')) (\<lambda>broadcastId.
      if broadcastId = [] then throw (invalid ''Broadcast ID parameter is required'')
      else if trim broadcastId = [] then throw (invalid ''Broadcast ID cannot be empty'')
      else
        try_catch
          (seq (lichessRequest w (''/broadcast/'' @ broadcastId) no_options) (\<lambda>response.
           if \<not> ok response then
             (if status response = 404
              then throw (http_error response (''Broadcast '' @ broadcastId @ '' not found''))
              else throw (http_error response (''Failed to get broadcast: '' @ statusText response)))
           else
             seq (json w response) (\<lambda>broadcast.
             succeed (JSON_stringify_2 w broadcast))))
          (rethrow ''Failed to get broadcast: ''))"

definition get_broadcast_round :: handler where
  "get_broadcast_round w a =
     seq (ToString w (a ''broadcastId'')) (\<lambda>broadcastId.
     seq (ToString w (a ''roundId'')) (\<lambda>roundId.
      if broadcastId = [] then throw (invalid ''Broadcast ID parameter is required'')
      else if trim broadcastId = [] then throw (invalid ''Broadcast ID cannot be empty'')
      else if roundId = [] then throw (invalid ''Round ID parameter is required'')
      else if trim roundId = [] then throw (invalid ''Round ID cannot be empty'')
      else
        try_catch
          (seq (lichessRequest w (''/broadcast/'' @ broadcastId @ ''/'' @ roundId) no_options)
             (\<lambda>response.
           if \<not> ok response then
             (if status response = 404
              then throw (http_error response ''Broadcast round not found'')
              else throw (http_error response
                     (''Failed to get broadcast round: '' @ statusText response)))
           else
             seq (json w response) (\<lambda>round.
             succeed (JSON_stringify_2 w round))))
          (rethrow ''Failed to get broadcast round: '')))"

definition push_broadcast_round_pgn :: handler where
  "push_broadcast_round_pgn w a =
     seq (ToString w (a ''broadcastId'')) (\<lambda>broadcastId.
     seq (ToString w (a ''roundId'')) (\<lambda>roundId.
     seq (ToString w (a ''pgn'')) (\<lambda>pgn.
      if broadcastId = [] then throw (invalid ''Broadcast ID parameter is required'')
      else if trim broadcastId = [] then throw (invalid ''Broadcast ID cannot be empty'')
      else if roundId = [] then throw (invalid ''Round ID parameter is required'')
      else if trim roundId = [] then throw (invalid ''Round ID cannot be empty'')
      else if pgn = [] then throw (invalid ''PGN parameter is required'')
      else if trim pgn = [] then throw (invalid ''PGN cannot be empty'')
      else
        try_catch
          (seq (lichessRequest w (''/broadcast/'' @ broadcastId @ ''/'' @ roundId @ ''/push'')
                  (post_with ''text/plain'' pgn)) (\<lambda>response.
           if \<not> ok response then
             (if status response = 404
              then throw (http_error response ''Broadcast round not found'')
              else if status response = 401
              then throw (http_error response ''Missing authorization or insufficient permissions'')
              else throw (http_error response (''Failed to push PGN: '' @ statusText response)))
           else succeed (''Successfully pushed PGN to broadcast '' @ broadcastId
                         @ '' round '' @ roundId)))
          (rethrow ''Failed to push PGN: ''))))"

definition get_cloud_eval :: handler where
  "get_cloud_eval w a =
     seq (ToString w (a ''fen'')) (\<lambda>fen.
     seq (ToNumber w (a ''multiPv'')) (\<lambda>multiPv_value.
     (let multiPv = num_or multiPv_value 1 in
      if fen = [] then throw (invalid ''FEN parameter is required'')
      else if trim fen = [] then throw (invalid ''FEN cannot be empty'')
      else if isNaN multiPv then throw (invalid ''multiPv must be a number'')
      else if num_lt multiPv 1 \<or> num_gt multiPv 5
      then throw (invalid ''multiPv must be between 1 and 5'')
      else
        try_catch
          (let params = [(''fen'', fen), (''multiPv'', String_num w multiPv)] in
           seq (lichessRequest w (''/cloud-eval?'' @ URLSearchParams_toString w params) no_options)
             (\<lambda>response.
           if \<not> ok response then
             (if status response = 404
              then throw (http_error response ''Position not found in cloud database'')
              else throw (http_error response
                     (''Failed to get cloud evaluation: '' @ statusText response)))
           else
             seq (json w response) (\<lambda>evaluation.
             succeed (JSON_stringify_2 w evaluation))))
          (rethrow ''Failed to get cloud evaluation: ''))))"

definition get_fide_player :: handler where
  "get_fide_player w a =
     seq (ToString w (a ''playerId'')) (\<lambda>playerId.
      if playerId = [] then throw (invalid ''FIDE player ID parameter is required'')
      else if trim playerId = [] then throw (invalid ''FIDE player ID cannot be empty'')
      else
        try_catch
          (seq (lichessRequest w (''/fide/player/'' @ playerId) no_options) (\<lambda>response.
           if \<not> ok response then
             (if status response = 404
              then throw (http_error response (''FIDE player '' @ playerId @ '' not found''))
              else throw (http_error response
                     (''Failed to get FIDE player info: '' @ statusText response)))
           else
             seq (json w response) (\<lambda>profile.
             succeed (JSON_stringify_2 w profile))))
          (rethrow ''Failed to get FIDE player info: ''))"

definition search_fide_players :: handler where
  "search_fide_players w a =
     seq (ToString w (a ''name'')) (\<lambda>name.
      if name = [] then throw (invalid ''Name parameter is required'')
      else if trim name = [] then throw (invalid ''Name cannot be empty'')
      else
        try_catch
          (seq (lichessRequest w (''/fide/player?q='' @ encodeURIComponent w name) no_options)
             (\<lambda>response.
           if \<not> ok response
           then throw (http_error response (''Failed to search FIDE players: '' @ statusText response))
           else
             seq (json w response) (\<lambda>results.
             succeed (JSON_stringify_2 w results))))
          (rethrow ''Failed to search FIDE players: ''))"

definition get_ongoing_games :: handler where
  "get_ongoing_games w a =
     try_catch
       (seq (ToNumber w (a ''nb'')) (\<lambda>nb_value.
        (let nb = num_or nb_value 9 in
        if isNaN nb \<or> num_lt nb 1 \<or> num_gt nb 50
        then throw (invalid ''nb parameter must be between 1 and 50'')
        else
          seq (lichessRequest w (''/account/playing?nb='' @ String_num w nb) no_options)
            (\<lambda>response.
          if \<not> ok response
          then throw (http_error response (''Failed to get ongoing games: '' @ statusText response))
          else
            seq (json w response) (\<lambda>games.
            succeed (JSON_stringify_2 w games))))))
       (rethrow ''Failed to get ongoing games: '')"

section \<open>The dispatcher\<close>

text \<open>
  The \<^verbatim>\<open>switch (request.params.name)\<close> of the handler registered for
  \<^verbatim>\<open>CallToolRequestSchema\<close>: the table lists the \<^verbatim>\<open>case\<close> labels in the
  order of the source (they are pairwise distinct), the \<^verbatim>\<open>default\<close> branch throws.
  \<^verbatim>\<open>request.params.arguments\<close> may be missing altogether.
\<close>

record CallToolRequest =
  params_name :: string
  params_arguments :: "(string \<rightharpoonup> jsvalue) option"

definition argument :: "CallToolRequest \<Rightarrow> string \<Rightarrow> jsvalue" where
  "argument rq key =
     (case params_arguments rq of
        None \<Rightarrow> JUndefined
      | Some bag \<Rightarrow> (case bag key of None \<Rightarrow> JUndefined | Some v \<Rightarrow> v))"

definition authenticated_tools :: "(string \<times> handler) list" where
  "authenticated_tools =
     [(''get_my_profile'', get_my_profile),
      (''get_user_profile'', get_user_profile),
      (''get_my_email'', get_my_email),
      (''get_kid_mode'', get_kid_mode),
      (''set_kid_mode'', set_kid_mode),
      (''create_challenge'', create_challenge),
      (''make_move'', make_move),
      (''get_preferences'', get_preferences),
      (''get_timeline'', get_timeline),
      (''upgrade_to_bot'', upgrade_to_bot),
      (''add_user_note'', add_user_note),
      (''send_message'', send_message),
      (''get_following'', get_following),
      (''follow_user'', follow_user),
      (''unfollow_user'', unfollow_user),
      (''block_user'', block_user),
      (''get_users_status'', get_users_status),
      (''get_all_top_10'', get_all_top_10),
      (''get_leaderboard'', get_leaderboard),
      (''get_user_public_data'', get_user_public_data),
      (''get_rating_history'', get_rating_history),
      (''get_user_performance'', get_user_performance),
      (''get_user_activity'', get_user_activity),
      (''get_users_by_id'', get_users_by_id),
      (''unblock_user'', unblock_user),
      (''export_game'', export_game),
      (''export_ongoing_game'', export_ongoing_game),
      (''export_user_games'', export_user_games),
      (''export_games_by_ids'', export_games_by_ids),
      (''get_tv_channels'', get_tv_channels),
      (''get_tv_game'', get_tv_game),
      (''get_puzzle_activity'', get_puzzle_activity),
      (''get_puzzle_dashboard'', get_puzzle_dashboard),
      (''get_puzzle_race'', get_puzzle_race),
      (''create_puzzle_race'', create_puzzle_race),
      (''get_puzzle_storm_dashboard'', get_puzzle_storm_dashboard),
      (''get_team_info'', get_team_info),
      (''get_team_members'', get_team_members),
      (''get_team_join_requests'', get_team_join_requests),
      (''join_team'', join_team),
      (''leave_team'', leave_team),
      (''kick_user_from_team'', kick_user_from_team),
      (''accept_join_request'', accept_join_request),
      (''decline_join_request'', decline_join_request),
      (''search_teams'', search_teams),
      (''make_board_move'', make_board_move),
      (''abort_board_game'', abort_board_game),
      (''resign_board_game'', resign_board_game),
      (''write_in_chat'', write_in_chat),
      (''handle_draw_board_game'', handle_draw_board_game),
      (''claim_victory'', claim_victory),
      (''list_challenges'', list_challenges),
      (''accept_challenge'', accept_challenge),
      (''decline_challenge'', decline_challenge),
      (''cancel_challenge'', cancel_challenge),
      (''get_arena_tournaments'', get_arena_tournaments),
      (''create_arena'', create_arena),
      (''get_arena_info'', get_arena_info),
      (''get_arena_games'', get_arena_games),
      (''get_arena_results'', get_arena_results),
      (''join_arena'', join_arena),
      (''withdraw_from_arena'', withdraw_from_arena),
      (''get_team_battle_results'', get_team_battle_results),
      (''create_swiss'', create_swiss),
      (''get_swiss_info'', get_swiss_info),
      (''get_swiss_games'', get_swiss_games),
      (''get_swiss_results'', get_swiss_results),
      (''join_swiss'', join_swiss),
      (''withdraw_from_swiss'', withdraw_from_swiss),
      (''get_current_simuls'', get_current_simuls),
      (''create_simul'', create_simul),
      (''join_simul'', join_simul),
      (''withdraw_from_simul'', withdraw_from_simul),
      (''export_study_chapter'', export_study_chapter),
      (''export_all_study_chapters'', export_all_study_chapters),
      (''get_user_studies'', get_user_studies),
      (''get_thread'', get_thread),
      (''get_official_broadcasts'', get_official_broadcasts),
      (''get_broadcast'', get_broadcast),
      (''get_broadcast_round'', get_broadcast_round),
      (''push_broadcast_round_pgn'', push_broadcast_round_pgn),
      (''get_cloud_eval'', get_cloud_eval),
      (''get_fide_player'', get_fide_player),
      (''search_fide_players'', search_fide_players),
      (''get_ongoing_games'', get_ongoing_games)]"

definition call_tool :: "world \<Rightarrow> CallToolRequest \<Rightarrow> string action" where
  "call_tool w rq =
     (if params_name rq = ''set_token'' then set_token w (argument rq)
      else if params_name rq = ''test_tokens'' then test_tokens w (argument rq)
      else if params_name rq = ''revoke_token'' then revoke_token w (argument rq)
      else
        (case map_of authenticated_tools (params_name rq) of
           Some handle \<Rightarrow> handle w (argument rq)
         | None \<Rightarrow> throw (Error UnknownTool ''Unknown tool'')))"

section \<open>Notions used to state the properties\<close>

text \<open>
  The store holds no usable token when \<^verbatim>\<open>!LICHESS_TOKEN\<close> is true: the variable
  is \<^verbatim>\<open>undefined\<close> or the empty string. The tools that require authentication
  are those routed through \<open>lichessRequest\<close>, and \<^verbatim>\<open>revoke_token\<close>.
  \<open>bearer_request\<close> is the request that \<open>lichessRequest\<close> hands to
  \<^verbatim>\<open>fetch\<close> when the store holds the token \<open>tok\<close>.
\<close>

definition token_absent :: "store \<Rightarrow> bool" where
  "token_absent s = (case LICHESS_TOKEN s of None \<Rightarrow> True | Some tok \<Rightarrow> tok = [])"


definition bearer_request :: "string \<Rightarrow> string \<Rightarrow> options \<Rightarrow> request" where
  "bearer_request tok endpoint opts =
     \<lparr>url = LICHESS_API_URL @ endpoint,
      rq_method = method opts,
      rq_headers =
        spread [(''Authorization'', ''Bearer '' @ tok), (''Content-Type'', ''application/json'')]
               (case headers opts of None \<Rightarrow> [] | Some h \<Rightarrow> h),
      rq_body = body opts\<rparr>"


text \<open>
  The tools that decode a body line by line: five do so whatever the response
  declares, two when its \<^verbatim>\<open>content-type\<close> names
  \<^verbatim>\<open>application/x-ndjson\<close> (and not the PGN type, which is tested first). The
  tools that return the body as it is: five when the \<^verbatim>\<open>content-type\<close> names
  \<^verbatim>\<open>application/x-chess-pgn\<close>, the two study exports always.
\<close>

definition ndjson_tools :: "string list" where
  "ndjson_tools =
     [''get_following'', ''get_swiss_games'', ''get_swiss_results'', ''get_user_studies'',
      ''get_official_broadcasts'', ''export_user_games'', ''export_games_by_ids'']"

definition pgn_tools :: "string list" where
  "pgn_tools =
     [''export_game'', ''export_ongoing_game'', ''export_user_games'', ''export_games_by_ids'',
      ''get_tv_game'', ''export_study_chapter'', ''export_all_study_chapters'']"

text \<open>
  Two shapes of a handler, used to prove a property of all handlers at once.
  An action is \<open>inert\<close> when it leaves the state as it is. It is a step on the
  arguments (\<open>argument_step\<close>) when it neither reads nor changes the state and
  throws, if it throws, the error of a failed check (\<^verbatim>\<open>ValidationError\<close>) or of a
  failed coercion (\<^verbatim>\<open>TypeError\<close>). A handler has the shape \<open>auth_shape\<close>
  when it throws such an error, or runs \<open>lichessRequest\<close> with options that set no
  \<^verbatim>\<open>Authorization\<close> header and continues with an inert action, possibly inside
  a \<^verbatim>\<open>try\<close> whose \<^verbatim>\<open>catch\<close> rethrows. It has the shape
  \<open>decode_shape\<close> for a decoder \<open>D\<close> when the continuation is inert and, on a
  response that is \<^verbatim>\<open>ok\<close> and satisfies \<open>P\<close>, returns what \<open>D\<close> gives.
\<close>

definition inert :: "'a action \<Rightarrow> bool" where
  "inert m = (\<forall>s. snd (m s) = s)"

definition argument_error :: "error \<Rightarrow> bool" where
  "argument_error e = (kind e = ValidationError \<or> kind e = RuntimeTypeError)"

definition argument_step :: "'a action \<Rightarrow> bool" where
  "argument_step m =
     (\<exists>c. m = (\<lambda>s. (c, s)) \<and> (case c of Inl e \<Rightarrow> argument_error e | Inr v \<Rightarrow> True))"

inductive auth_shape :: "world \<Rightarrow> string action \<Rightarrow> bool" for w where
  shape_invalid: "argument_error e \<Longrightarrow> auth_shape w (throw e)"
| shape_request:
    "map_of (case headers opts of None \<Rightarrow> [] | Some h \<Rightarrow> h) ''Authorization'' = None \<Longrightarrow>
     (\<And>r. inert (k r)) \<Longrightarrow> auth_shape w (seq (lichessRequest w ep opts) k)"
| shape_catch: "auth_shape w m \<Longrightarrow> auth_shape w (try_catch m (rethrow p))"

inductive decode_shape ::
  "world \<Rightarrow> (response \<Rightarrow> bool) \<Rightarrow> (response \<Rightarrow> error + string) \<Rightarrow> string action \<Rightarrow> bool"
  for w P D where
  decode_invalid: "argument_error e \<Longrightarrow> decode_shape w P D (throw e)"
| decode_request:
    "(\<And>r. inert (k r)) \<Longrightarrow> (\<And>r. ok r \<Longrightarrow> P r \<Longrightarrow> k r = (\<lambda>s. (D r, s))) \<Longrightarrow>
     decode_shape w P D (seq (lichessRequest w ep opts) k)"
| decode_catch: "decode_shape w P D m \<Longrightarrow> decode_shape w P D (try_catch m (rethrow p))"

text \<open>The result of the line-by-line decoding of a body, as a value.\<close>

definition lines_result :: "world \<Rightarrow> response \<Rightarrow> error + string" where
  "lines_result w r =
     (case parse_lines w (ndjson_lines (text_body r)) of
        Inl msg \<Rightarrow> Inl (Error ParseError msg)
      | Inr vs \<Rightarrow> Inr (JSON_stringify_2 w (JArray vs)))"

section \<open>A sample platform and sample responses\<close>

text \<open>
  Concrete inputs for the examples. The sample platform reads unsigned decimal numerals
  (a blank string is 0, anything else is \<^verbatim>\<open>NaN\<close>), prints the halves with one
  decimal, takes every product as exact, parses the three JSON texts that the examples
  use (the two records \<open>record_a1\<close> and \<open>record_a2\<close>, and the empty object) and
  rejects every other text, serialises a value on one line, and leaves the characters
  of a query as they are. The numbers of the examples are integers below
  \<open>2\<^sup>5\<^sup>3\<close> and their strings need no escaping. \<open>sample_world\<close> is this
  platform in front of a remote service that answers every request with the same
  reply.
\<close>

definition sample_StringToNumber :: "string \<Rightarrow> jsnum" where
  "sample_StringToNumber s =
     (let t = trim s in
      if t = [] then Num 0
      else if list_all (\<lambda>c. c \<in> set ''0123456789'') t
      then Num (of_nat (foldl (\<lambda>n c. 10 * n + (of_char c - 48)) 0 t))
      else NaN)"

definition sample_NumberToString :: "rat \<Rightarrow> string" where
  "sample_NumberToString q =
     (if q < 0 then ''-'' else [])
     @ digits (nat \<lfloor>\<bar>q\<bar>\<rfloor>)
     @ (if \<bar>q\<bar> = of_int \<lfloor>\<bar>q\<bar>\<rfloor> then [] else ''.5'')"

definition record_a1 :: string where
  \<open>record_a1 = ''{"a":1}''\<close>

definition record_a2 :: string where
  \<open>record_a2 = ''{"a":2}''\<close>

definition sample_JSON_parse :: "string \<Rightarrow> string + jsvalue" where
  "sample_JSON_parse s =
     (if s = record_a1 then Inr (JObject [(''a'', JNumber (Num 1))])
      else if s = record_a2 then Inr (JObject [(''a'', JNumber (Num 2))])
      else if s = ''{}'' then Inr (JObject [])
      else Inl ''Unexpected token'')"

fun sample_stringify :: "jsvalue \<Rightarrow> string" where
  "sample_stringify JUndefined = ''null''"
| "sample_stringify JNull = ''null''"
| "sample_stringify (JBool b) = (if b then ''true'' else ''false'')"
| "sample_stringify (JNumber n) =
     (case n of Num q \<Rightarrow> sample_NumberToString q | _ \<Rightarrow> ''null'')"
| "sample_stringify (JString s) = [CHR 0x22] @ s @ [CHR 0x22]"
| "sample_stringify (JArray xs) = ''['' @ join '','' (map sample_stringify xs) @ '']''"
| "sample_stringify (JObject kvs) =
     ''{'' @ join '','' (map (\<lambda>kv. [CHR 0x22] @ fst kv @ [CHR 0x22] @ '':'' @ sample_stringify (snd kv))
                          (filter (\<lambda>kv. snd kv \<noteq> JUndefined) kvs))
     @ ''}''"

definition sample_query :: "(string \<times> string) list \<Rightarrow> string" where
  "sample_query ps = join ''&'' (map (\<lambda>kv. fst kv @ ''='' @ snd kv) ps)"

definition sample_world :: "fetch_result \<Rightarrow> world" where
  "sample_world reply =
     \<lparr>fetch = (\<lambda>rq. reply),
      StringToNumber = sample_StringToNumber,
      NumberToString = sample_NumberToString,
      Number_round = Num,
      JSON_parse = sample_JSON_parse,
      JSON_stringify = sample_stringify,
      JSON_stringify_2 = sample_stringify,
      URLSearchParams_toString = sample_query,
      encodeURIComponent = (\<lambda>s. s),
      URL_pathname = (\<lambda>input base. takeWhile (\<lambda>c. c \<noteq> CHR ''?'') input),
      URL_search = (\<lambda>input base. dropWhile (\<lambda>c. c \<noteq> CHR ''?'') input),
      URL_searchParams = (\<lambda>input base. [])\<rparr>"

definition json_reply :: fetch_result where
  "json_reply =
     Resolved \<lparr>status = 200, statusText = ''OK'',
               content_type = Some ''application/json'', text_body = ''{}''\<rparr>"

definition not_found_reply :: fetch_result where
  "not_found_reply =
     Resolved \<lparr>status = 404, statusText = ''Not Found'',
               content_type = Some ''application/json'', text_body = ''{}''\<rparr>"


definition ndjson_response :: response where
  "ndjson_response =
     \<lparr>status = 200, statusText = ''OK'',
      content_type = Some ''application/x-ndjson'',
      text_body = record_a1 @ [CHR 0x0A, CHR 0x0A] @ record_a2 @ [CHR 0x0A]\<rparr>"

definition pgn_response :: response where
  "pgn_response =
     \<lparr>status = 200, statusText = ''OK'',
      content_type = Some ''application/x-chess-pgn'',
      text_body = ''1. e4 e5 *''\<rparr>"

text \<open>A body whose second line is not a JSON text, and a response whose
  \<^verbatim>\<open>content-type\<close> names both media types.\<close>

definition malformed_response :: response where
  "malformed_response =
     \<lparr>status = 200, statusText = ''OK'',
      content_type = Some ''application/x-ndjson'',
      text_body = record_a1 @ [CHR 0x0A] @ ''{oops'' @ [CHR 0x0A]\<rparr>"

definition two_types_response :: response where
  "two_types_response =
     \<lparr>status = 200, statusText = ''OK'',
      content_type = Some ''application/x-chess-pgn, application/x-ndjson'',
      text_body = record_a1 @ [CHR 0x0A]\<rparr>"

definition stored :: "string \<Rightarrow> store" where
  "stored tok = \<lparr>LICHESS_TOKEN = Some tok, fetched = []\<rparr>"


definition invoke :: "string \<Rightarrow> (string \<times> jsvalue) list \<Rightarrow> CallToolRequest" where
  "invoke tool args = \<lparr>params_name = tool, params_arguments = Some (map_of args)\<rparr>"

text \<open>An argument that \<^verbatim>\<open>String\<close> and \<^verbatim>\<open>Number\<close> cannot convert: the
  object \<^verbatim>\<open>{"toString": 1}\<close>.\<close>

definition unconvertible :: jsvalue where
  "unconvertible = JObject [(''toString'', JNumber (Num 1))]"

section \<open>Properties of the helper and of the shapes\<close>

named_theorems inert_intros
named_theorems tool_shapes
named_theorems tool_decodes
named_theorems step_intros

lemma inert_throw [inert_intros]: "inert (throw e)"
  by (simp add: inert_def throw_def)

lemma inert_succeed [inert_intros]: "inert (succeed x)"
  by (simp add: inert_def succeed_def)

lemma inert_rethrow [inert_intros]: "inert (rethrow p e)"
  by (simp add: rethrow_def inert_throw)

lemma inert_seq [inert_intros]: "inert m \<Longrightarrow> (\<And>x. inert (f x)) \<Longrightarrow> inert (seq m f)"
  by (auto simp: inert_def seq_def split: prod.splits sum.splits) (metis snd_conv)+

lemma inert_json [inert_intros]: "inert (json w r)"
  by (simp add: json_def inert_throw inert_succeed split: sum.splits)

lemma inert_read_text [inert_intros]: "inert (read_text r)"
  by (simp add: read_text_def inert_succeed)

lemma inert_read_prop [inert_intros]: "inert (read_prop v p)"
  by (simp add: read_prop_def inert_throw inert_succeed split: sum.splits)

lemma inert_ndjson [inert_intros]: "inert (ndjson w t)"
  by (simp add: ndjson_def inert_throw inert_succeed split: sum.splits)

lemma inert_if [inert_intros]:
  "(c \<Longrightarrow> inert m) \<Longrightarrow> (\<not> c \<Longrightarrow> inert n) \<Longrightarrow> inert (if c then m else n)"
  by simp

lemma inert_pgn_or_json [inert_intros]: "inert (pgn_or_json w r)"
  unfolding pgn_or_json_def by (intro inert_intros)

lemma inert_race_result [inert_intros]: "inert (race_result w v)"
  unfolding race_result_def by (intro inert_intros)

lemma inert_run: "inert m \<Longrightarrow> m s = (fst (m s), s)"
  by (metis inert_def prod.collapse)

lemma inert_coerce [inert_intros]: "inert (coerce c)"
  by (simp add: coerce_def inert_throw inert_succeed split: sum.splits)

lemma inert_ToString [inert_intros]: "inert (ToString w v)"
  by (simp add: ToString_def inert_coerce)

lemma inert_ToNumber [inert_intros]: "inert (ToNumber w v)"
  by (simp add: ToNumber_def inert_coerce)

lemma kind_invalid [simp]: "kind (invalid msg) = ValidationError"
  by (simp add: invalid_def)

lemma argument_error_invalid [simp]: "argument_error (invalid msg)"
  by (simp add: argument_error_def)

lemma argument_error_type_error [simp]: "argument_error type_error"
  by (simp add: argument_error_def type_error_def)

text \<open>A coercion as a step: it gives its value or throws, in the same state.\<close>

lemma coerce_run: "coerce c s = (c, s)"
  by (cases c) (simp_all add: coerce_def throw_def succeed_def)

lemma ToString_run: "ToString w v s = (String_js w v, s)"
  by (simp add: ToString_def coerce_run)

lemma ToNumber_run: "ToNumber w v s = (Number_js w v, s)"
  by (simp add: ToNumber_def coerce_run)

lemma seq_ToString:
  "seq (ToString w v) k s = (case String_js w v of Inl e \<Rightarrow> (Inl e, s) | Inr t \<Rightarrow> k t s)"
  by (simp add: seq_def ToString_run split: sum.splits)

lemma seq_ToNumber:
  "seq (ToNumber w v) k s = (case Number_js w v of Inl e \<Rightarrow> (Inl e, s) | Inr n \<Rightarrow> k n s)"
  by (simp add: seq_def ToNumber_run split: sum.splits)

text \<open>The laws that evaluate the steps of a handler on its arguments.\<close>

lemma seq_succeed: "seq (succeed x) k = k x"
  by (simp add: seq_def succeed_def)

lemma seq_throw: "seq (throw e) k = throw e"
  by (simp add: seq_def throw_def)

lemmas step_simps =
  ToString_def ToNumber_def coerce_def seq_succeed seq_throw gather.simps param_def
  defined_params_def string_params.simps or_js_def

text \<open>The coercions throw the \<^verbatim>\<open>TypeError\<close> only.\<close>

lemma String_js_Inl:
  "String_js w v = Inl e \<Longrightarrow> e = type_error"
  "String_elements w vs = Inl e \<Longrightarrow> e = type_error"
  by (induction w v and w vs arbitrary: e and e rule: String_js_String_elements.induct)
     (auto split: sum.splits if_splits)

lemma Number_js_Inl: "Number_js w v = Inl e \<Longrightarrow> e = type_error"
  by (cases v) (auto split: sum.splits if_splits dest: String_js_Inl)

text \<open>Steps on the arguments.\<close>

lemma step_succeed [step_intros]: "argument_step (succeed x)"
  by (auto simp: argument_step_def succeed_def)

lemma step_throw [step_intros]: "argument_error e \<Longrightarrow> argument_step (throw e)"
  by (auto simp: argument_step_def throw_def)

lemma step_coerce: "(\<And>e. c = Inl e \<Longrightarrow> argument_error e) \<Longrightarrow> argument_step (coerce c)"
  by (cases c) (auto simp: coerce_def step_succeed step_throw)

lemma step_ToString [step_intros]: "argument_step (ToString w v)"
  unfolding ToString_def by (rule step_coerce) (auto dest: String_js_Inl)

lemma step_ToNumber [step_intros]: "argument_step (ToNumber w v)"
  unfolding ToNumber_def by (rule step_coerce) (auto dest: Number_js_Inl)

lemma step_seq [step_intros]:
  assumes "argument_step m" and "\<And>x. argument_step (f x)"
  shows "argument_step (seq m f)"
proof -
  from assms(1) obtain c where m: "m = (\<lambda>s. (c, s))"
    and c: "case c of Inl e \<Rightarrow> argument_error e | Inr v \<Rightarrow> True"
    by (auto simp: argument_step_def)
  show ?thesis
  proof (cases c)
    case (Inl e)
    with m c have "seq m f = throw e" "argument_error e"
      by (simp_all add: seq_def throw_def)
    then show ?thesis by (simp add: step_throw)
  next
    case (Inr v)
    with m have "seq m f = f v" by (simp add: seq_def)
    with assms(2) show ?thesis by simp
  qed
qed

lemma step_if [step_intros]:
  "(c \<Longrightarrow> argument_step m) \<Longrightarrow> (\<not> c \<Longrightarrow> argument_step n) \<Longrightarrow> argument_step (if c then m else n)"
  by simp

lemma step_param [step_intros]: "argument_step m \<Longrightarrow> argument_step (param k m)"
  unfolding param_def by (intro step_seq step_succeed)

lemma step_gather_Nil [step_intros]: "argument_step (gather [])"
  by (simp add: step_succeed)

lemma step_gather_Cons [step_intros]:
  "argument_step m \<Longrightarrow> argument_step (gather ms) \<Longrightarrow> argument_step (gather (m # ms))"
  by (simp add: step_seq step_succeed)

lemma step_gather_map: "(\<And>x. argument_step (f x)) \<Longrightarrow> argument_step (gather (map f xs))"
  by (induction xs) (simp_all add: step_seq step_succeed)

lemma step_defined_params [step_intros]: "argument_step (defined_params w a names)"
  unfolding defined_params_def
  by (rule step_gather_map) (intro step_if step_param step_ToString step_succeed)

lemma step_string_params [step_intros]: "argument_step (string_params w a names)"
  by (induction names) (auto intro!: step_intros)

declare string_params.simps [simp del]
declare gather.simps [simp del]

lemma step_inert: "argument_step m \<Longrightarrow> inert m"
  by (auto simp: argument_step_def inert_def)

lemma step_run:
  "argument_step m \<Longrightarrow>
   (\<exists>e. argument_error e \<and> (\<forall>s. m s = (Inl e, s))) \<or> (\<exists>v. \<forall>s. m s = (Inr v, s))"
proof -
  assume "argument_step m"
  then obtain c where m: "m = (\<lambda>s. (c, s))"
    and c: "case c of Inl e \<Rightarrow> argument_error e | Inr v \<Rightarrow> True"
    by (auto simp: argument_step_def)
  show ?thesis
  proof (cases c)
    case (Inl e)
    with m c show ?thesis by auto
  next
    case (Inr v)
    with m show ?thesis by auto
  qed
qed

lemma headers_of_options [simp]:
  "headers no_options = None" "headers post = None"
  "headers (post_with c b) = Some [(''Content-Type'', c)]"
  by (simp_all add: no_options_def post_def post_with_def)

lemma shape_if:
  "(c \<Longrightarrow> auth_shape w m) \<Longrightarrow> (\<not> c \<Longrightarrow> auth_shape w n) \<Longrightarrow> auth_shape w (if c then m else n)"
  by simp

lemma shape_case_sum:
  "(\<And>e. x = Inl e \<Longrightarrow> auth_shape w (f e)) \<Longrightarrow> (\<And>v. x = Inr v \<Longrightarrow> auth_shape w (g v))
   \<Longrightarrow> auth_shape w (case x of Inl e \<Rightarrow> f e | Inr v \<Rightarrow> g v)"
  by (cases x) simp_all

lemma shape_step:
  assumes "argument_step m" and "\<And>v. auth_shape w (k v)"
  shows "auth_shape w (seq m k)"
proof -
  from step_run [OF assms(1)] show ?thesis
  proof
    assume "\<exists>e. argument_error e \<and> (\<forall>s. m s = (Inl e, s))"
    then obtain e where e: "argument_error e" and m: "\<forall>s. m s = (Inl e, s)" by blast
    from m have "seq m k = throw e" by (simp add: seq_def throw_def fun_eq_iff)
    with e show ?thesis by (simp add: shape_invalid)
  next
    assume "\<exists>v. \<forall>s. m s = (Inr v, s)"
    then obtain v where "\<forall>s. m s = (Inr v, s)" by blast
    then have "seq m k = k v" by (simp add: seq_def fun_eq_iff)
    with assms(2) show ?thesis by simp
  qed
qed

lemma shape_ToString: "(\<And>v. auth_shape w (k v)) \<Longrightarrow> auth_shape w (seq (ToString w x) k)"
  by (rule shape_step [OF step_ToString])

lemma shape_ToNumber: "(\<And>v. auth_shape w (k v)) \<Longrightarrow> auth_shape w (seq (ToNumber w x) k)"
  by (rule shape_step [OF step_ToNumber])

lemma shape_gather:
  "argument_step (gather ms) \<Longrightarrow> (\<And>v. auth_shape w (k v)) \<Longrightarrow> auth_shape w (seq (gather ms) k)"
  by (rule shape_step)

lemma shape_defined_params:
  "(\<And>v. auth_shape w (k v)) \<Longrightarrow> auth_shape w (seq (defined_params w a names) k)"
  by (rule shape_step [OF step_defined_params])

lemma shape_if_step:
  "argument_step (if c then m else n) \<Longrightarrow> (\<And>v. auth_shape w (k v))
   \<Longrightarrow> auth_shape w (seq (if c then m else n) k)"
  by (rule shape_step)

lemmas shape_intros =
  shape_if shape_case_sum shape_ToString shape_ToNumber shape_gather shape_defined_params
  shape_if_step auth_shape.intros

lemma decode_if:
  "(c \<Longrightarrow> decode_shape w P D m) \<Longrightarrow> (\<not> c \<Longrightarrow> decode_shape w P D n)
   \<Longrightarrow> decode_shape w P D (if c then m else n)"
  by simp

lemma decode_case_sum:
  "(\<And>e. x = Inl e \<Longrightarrow> decode_shape w P D (f e)) \<Longrightarrow>
   (\<And>v. x = Inr v \<Longrightarrow> decode_shape w P D (g v))
   \<Longrightarrow> decode_shape w P D (case x of Inl e \<Rightarrow> f e | Inr v \<Rightarrow> g v)"
  by (cases x) simp_all

lemma decode_step:
  assumes "argument_step m" and "\<And>v. decode_shape w P D (k v)"
  shows "decode_shape w P D (seq m k)"
proof -
  from step_run [OF assms(1)] show ?thesis
  proof
    assume "\<exists>e. argument_error e \<and> (\<forall>s. m s = (Inl e, s))"
    then obtain e where e: "argument_error e" and m: "\<forall>s. m s = (Inl e, s)" by blast
    from m have "seq m k = throw e" by (simp add: seq_def throw_def fun_eq_iff)
    with e show ?thesis by (simp add: decode_invalid)
  next
    assume "\<exists>v. \<forall>s. m s = (Inr v, s)"
    then obtain v where "\<forall>s. m s = (Inr v, s)" by blast
    then have "seq m k = k v" by (simp add: seq_def fun_eq_iff)
    with assms(2) show ?thesis by simp
  qed
qed

lemma decode_ToString:
  "(\<And>v. decode_shape w P D (k v)) \<Longrightarrow> decode_shape w P D (seq (ToString w x) k)"
  by (rule decode_step [OF step_ToString])

lemma decode_gather:
  "argument_step (gather ms) \<Longrightarrow> (\<And>v. decode_shape w P D (k v))
   \<Longrightarrow> decode_shape w P D (seq (gather ms) k)"
  by (rule decode_step)

lemma decode_defined_params:
  "(\<And>v. decode_shape w P D (k v)) \<Longrightarrow> decode_shape w P D (seq (defined_params w a names) k)"
  by (rule decode_step [OF step_defined_params])

lemmas decode_intros =
  decode_if decode_case_sum decode_ToString decode_gather decode_defined_params
  decode_shape.intros

lemma lichessRequest_no_token:
  "token_absent s \<Longrightarrow>
   lichessRequest w ep opts s =
     (Inl (Error MissingCredential ''Lichess API token not set. Use the set_token tool first.''), s)"
  by (auto simp: token_absent_def lichessRequest_def seq_def read_token_def throw_def
           split: option.splits)

lemma lichessRequest_token:
  "LICHESS_TOKEN s = Some tok \<Longrightarrow> tok \<noteq> [] \<Longrightarrow>
   lichessRequest w ep opts s =
     (case fetch w (bearer_request tok ep opts) of
        Rejected msg \<Rightarrow> Inl (Error TransportError msg)
      | Resolved r \<Rightarrow>
          if ok r then Inr r else Inl (http_error r (''Lichess API error: '' @ statusText r)),
      s\<lparr>fetched := fetched s @ [bearer_request tok ep opts]\<rparr>)"
  by (simp add: lichessRequest_def seq_def read_token_def throw_def succeed_def fetch_call_def
                bearer_request_def split: fetch_result.splits)



lemma try_catch_rethrow:
  "try_catch m (rethrow p) s =
     (case m s of
        (Inl e, s') \<Rightarrow>
          (Inl (Error (kind e) (p @ (if message e = [] then ''Unknown error'' else message e))), s')
      | (Inr x, s') \<Rightarrow> (Inr x, s'))"
  by (simp add: try_catch_def rethrow_def throw_def split: prod.splits sum.splits)

lemma try_catch_rethrow_snd: "snd (try_catch m (rethrow p) s) = snd (m s)"
  by (cases "m s"; cases "fst (m s)") (auto simp: try_catch_rethrow)

lemma try_catch_rethrow_kind:
  "fst (try_catch m (rethrow p) s) = Inl e \<Longrightarrow> \<exists>e'. fst (m s) = Inl e' \<and> kind e' = kind e"
  by (cases "m s"; cases "fst (m s)") (auto simp: try_catch_rethrow)

lemma try_catch_rethrow_Inr: "fst (m s) = Inr x \<Longrightarrow> fst (try_catch m (rethrow p) s) = Inr x"
  by (cases "m s") (auto simp: try_catch_rethrow)

lemma try_catch_rethrow_Inl:
  "fst (m s) = Inl e \<Longrightarrow>
   \<exists>e'. fst (try_catch m (rethrow p) s) = Inl e' \<and> kind e' = kind e"
  by (cases "m s") (auto simp: try_catch_rethrow)

lemma shape_frame:
  "auth_shape w m \<Longrightarrow> LICHESS_TOKEN (snd (m s)) = LICHESS_TOKEN s"
proof (induction arbitrary: s rule: auth_shape.induct)
  case (shape_invalid e)
  show ?case by (simp add: throw_def)
next
  case (shape_request opts k ep)
  show ?case
  proof (cases "token_absent s")
    case True
    then show ?thesis by (simp add: seq_def lichessRequest_no_token)
  next
    case False
    then obtain tok where tok: "LICHESS_TOKEN s = Some tok" "tok \<noteq> []"
      by (auto simp: token_absent_def split: option.splits)
    show ?thesis
      using shape_request(2)
      by (auto simp: seq_def lichessRequest_token [OF tok] inert_def
               split: fetch_result.splits)
  qed
next
  case (shape_catch m p)
  from shape_catch.IH [of s] show ?case
    by (auto simp: try_catch_rethrow split: prod.splits sum.splits)
qed



text \<open>
  A handler of the shape \<open>decode_shape\<close> that has handed the request \<open>q\<close> to
  \<^verbatim>\<open>fetch\<close> and got a response that is \<^verbatim>\<open>ok\<close> and satisfies \<open>P\<close> returns
  what the decoder gives, or throws an error of the kind that the decoder gives.
\<close>

lemma decode_response:
  assumes "decode_shape w P D m"
    and sent: "fetched (snd (m s)) = fetched s @ [q]"
    and reply: "fetch w q = Resolved r"
    and r: "ok r" "P r"
  shows "case D r of
           Inr t \<Rightarrow> fst (m s) = Inr t
         | Inl e \<Rightarrow> (\<exists>e'. fst (m s) = Inl e' \<and> kind e' = kind e)"
  using assms(1) sent
proof (induction rule: decode_shape.induct)
  case (decode_invalid e)
  then show ?case by (simp add: throw_def)
next
  case (decode_request k ep opts)
  show ?case
  proof (cases "token_absent s")
    case True
    with decode_request.prems show ?thesis
      by (simp add: seq_def lichessRequest_no_token)
  next
    case False
    then obtain tok where tok: "LICHESS_TOKEN s = Some tok" "tok \<noteq> []"
      by (auto simp: token_absent_def split: option.splits)
    let ?b = "bearer_request tok ep opts"
    let ?s1 = "s\<lparr>fetched := fetched s @ [?b]\<rparr>"
    from decode_request(1) have inert_k: "\<forall>r. inert (k r)" by blast
    have "fetched (snd (seq (lichessRequest w ep opts) k s)) = fetched s @ [?b]"
      using inert_k
      by (auto simp: seq_def lichessRequest_token [OF tok] inert_def split: fetch_result.splits)
    with decode_request.prems have "q = ?b" by simp
    with reply r have "seq (lichessRequest w ep opts) k s = k r ?s1"
      by (simp add: seq_def lichessRequest_token [OF tok])
    also from decode_request(2) [OF r] have "k r ?s1 = (D r, ?s1)" by simp
    finally show ?thesis by (auto split: sum.splits)
  qed
next
  case (decode_catch m p)
  from decode_catch.prems have "fetched (snd (m s)) = fetched s @ [q]"
    by (simp add: try_catch_rethrow_snd)
  from decode_catch.IH [OF this] show ?case
  proof (cases "D r")
    case (Inr t)
    with \<open>case D r of Inr t \<Rightarrow> fst (m s) = Inr t
            | Inl e \<Rightarrow> (\<exists>e'. fst (m s) = Inl e' \<and> kind e' = kind e)\<close>
    show ?thesis by (simp add: try_catch_rethrow_Inr)
  next
    case (Inl e)
    with \<open>case D r of Inr t \<Rightarrow> fst (m s) = Inr t
            | Inl e \<Rightarrow> (\<exists>e'. fst (m s) = Inl e' \<and> kind e' = kind e)\<close>
    obtain e' where e': "fst (m s) = Inl e'" "kind e' = kind e" by auto
    have "\<exists>e''. fst (try_catch m (rethrow p) s) = Inl e'' \<and> kind e'' = kind e'"
      using e'(1) by (rule try_catch_rethrow_Inl)
    with e'(2) Inl show ?thesis by auto
  qed
qed


text \<open>Every handler of the table has the shape \<open>auth_shape\<close>.\<close>

lemma shape_get_my_profile [tool_shapes]: "auth_shape w (get_my_profile w a)"
  unfolding get_my_profile_def Let_def by (intro shape_intros step_intros inert_intros; simp)

lemma shape_get_user_profile [tool_shapes]: "auth_shape w (get_user_profile w a)"
  unfolding get_user_profile_def Let_def by (intro shape_intros step_intros inert_intros; simp)

lemma shape_get_my_email [tool_shapes]: "auth_shape w (get_my_email w a)"
  unfolding get_my_email_def Let_def by (intro shape_intros step_intros inert_intros; simp)

lemma shape_get_kid_mode [tool_shapes]: "auth_shape w (get_kid_mode w a)"
  unfolding get_kid_mode_def Let_def by (intro shape_intros step_intros inert_intros; simp)

lemma shape_set_kid_mode [tool_shapes]: "auth_shape w (set_kid_mode w a)"
  unfolding set_kid_mode_def Let_def by (intro shape_intros step_intros inert_intros; simp)

lemma shape_create_challenge [tool_shapes]: "auth_shape w (create_challenge w a)"
  unfolding create_challenge_def Let_def by (intro shape_intros step_intros inert_intros; simp)

lemma shape_make_move [tool_shapes]: "auth_shape w (make_move w a)"
  unfolding make_move_def Let_def by (intro shape_intros step_intros inert_intros; simp)

lemma shape_get_preferences [tool_shapes]: "auth_shape w (get_preferences w a)"
  unfolding get_preferences_def Let_def by (intro shape_intros step_intros inert_intros; simp)

lemma shape_get_timeline [tool_shapes]: "auth_shape w (get_timeline w a)"
  unfolding get_timeline_def Let_def by (intro shape_intros step_intros inert_intros; simp)

lemma shape_upgrade_to_bot [tool_shapes]: "auth_shape w (upgrade_to_bot w a)"
  unfolding upgrade_to_bot_def Let_def by (intro shape_intros step_intros inert_intros; simp)

lemma shape_add_user_note [tool_shapes]: "auth_shape w (add_user_note w a)"
  unfolding add_user_note_def Let_def by (intro shape_intros step_intros inert_intros; simp)

lemma shape_send_message [tool_shapes]: "auth_shape w (send_message w a)"
  unfolding send_message_def Let_def by (intro shape_intros step_intros inert_intros; simp)

lemma shape_get_following [tool_shapes]: "auth_shape w (get_following w a)"
  unfolding get_following_def Let_def by (intro shape_intros step_intros inert_intros; simp)

lemma shape_follow_user [tool_shapes]: "auth_shape w (follow_user w a)"
  unfolding follow_user_def Let_def by (intro shape_intros step_intros inert_intros; simp)

lemma shape_unfollow_user [tool_shapes]: "auth_shape w (unfollow_user w a)"
  unfolding unfollow_user_def Let_def by (intro shape_intros step_intros inert_intros; simp)

lemma shape_block_user [tool_shapes]: "auth_shape w (block_user w a)"
  unfolding block_user_def Let_def by (intro shape_intros step_intros inert_intros; simp)

lemma shape_get_users_status [tool_shapes]: "auth_shape w (get_users_status w a)"
  unfolding get_users_status_def Let_def by (intro shape_intros step_intros inert_intros; simp)

lemma shape_get_all_top_10 [tool_shapes]: "auth_shape w (get_all_top_10 w a)"
  unfolding get_all_top_10_def Let_def by (intro shape_intros step_intros inert_intros; simp)

lemma shape_get_leaderboard [tool_shapes]: "auth_shape w (get_leaderboard w a)"
  unfolding get_leaderboard_def Let_def by (intro shape_intros step_intros inert_intros; simp)

lemma shape_get_user_public_data [tool_shapes]: "auth_shape w (get_user_public_data w a)"
  unfolding get_user_public_data_def Let_def by (intro shape_intros step_intros inert_intros; simp)

lemma shape_get_rating_history [tool_shapes]: "auth_shape w (get_rating_history w a)"
  unfolding get_rating_history_def Let_def by (intro shape_intros step_intros inert_intros; simp)

lemma shape_get_user_performance [tool_shapes]: "auth_shape w (get_user_performance w a)"
  unfolding get_user_performance_def Let_def by (intro shape_intros step_intros inert_intros; simp)

lemma shape_get_user_activity [tool_shapes]: "auth_shape w (get_user_activity w a)"
  unfolding get_user_activity_def Let_def by (intro shape_intros step_intros inert_intros; simp)

lemma shape_get_users_by_id [tool_shapes]: "auth_shape w (get_users_by_id w a)"
  unfolding get_users_by_id_def Let_def by (intro shape_intros step_intros inert_intros; simp)

lemma shape_unblock_user [tool_shapes]: "auth_shape w (unblock_user w a)"
  unfolding unblock_user_def Let_def by (intro shape_intros step_intros inert_intros; simp)

lemma shape_export_game [tool_shapes]: "auth_shape w (export_game w a)"
  unfolding export_game_def Let_def by (intro shape_intros step_intros inert_intros; simp)

lemma shape_export_ongoing_game [tool_shapes]: "auth_shape w (export_ongoing_game w a)"
  unfolding export_ongoing_game_def Let_def by (intro shape_intros step_intros inert_intros; simp)

lemma shape_export_user_games [tool_shapes]: "auth_shape w (export_user_games w a)"
  unfolding export_user_games_def Let_def by (intro shape_intros step_intros inert_intros; simp)

lemma shape_export_games_by_ids [tool_shapes]: "auth_shape w (export_games_by_ids w a)"
  unfolding export_games_by_ids_def Let_def by (intro shape_intros step_intros inert_intros; simp)

lemma shape_get_tv_channels [tool_shapes]: "auth_shape w (get_tv_channels w a)"
  unfolding get_tv_channels_def Let_def by (intro shape_intros step_intros inert_intros; simp)

lemma shape_get_tv_game [tool_shapes]: "auth_shape w (get_tv_game w a)"
  unfolding get_tv_game_def Let_def by (intro shape_intros step_intros inert_intros; simp)

lemma shape_get_puzzle_activity [tool_shapes]: "auth_shape w (get_puzzle_activity w a)"
  unfolding get_puzzle_activity_def Let_def by (intro shape_intros step_intros inert_intros; simp)

lemma shape_get_puzzle_dashboard [tool_shapes]: "auth_shape w (get_puzzle_dashboard w a)"
  unfolding get_puzzle_dashboard_def Let_def by (intro shape_intros step_intros inert_intros; simp)

lemma shape_get_puzzle_race [tool_shapes]: "auth_shape w (get_puzzle_race w a)"
  unfolding get_puzzle_race_def Let_def by (intro shape_intros step_intros inert_intros; simp)

lemma shape_create_puzzle_race [tool_shapes]: "auth_shape w (create_puzzle_race w a)"
  unfolding create_puzzle_race_def Let_def by (intro shape_intros step_intros inert_intros; simp)

lemma shape_get_puzzle_storm_dashboard [tool_shapes]: "auth_shape w (get_puzzle_storm_dashboard w a)"
  unfolding get_puzzle_storm_dashboard_def Let_def by (intro shape_intros step_intros inert_intros; simp)

lemma shape_get_team_info [tool_shapes]: "auth_shape w (get_team_info w a)"
  unfolding get_team_info_def Let_def by (intro shape_intros step_intros inert_intros; simp)

lemma shape_get_team_members [tool_shapes]: "auth_shape w (get_team_members w a)"
  unfolding get_team_members_def Let_def by (intro shape_intros step_intros inert_intros; simp)

lemma shape_get_team_join_requests [tool_shapes]: "auth_shape w (get_team_join_requests w a)"
  unfolding get_team_join_requests_def Let_def by (intro shape_intros step_intros inert_intros; simp)

lemma shape_join_team [tool_shapes]: "auth_shape w (join_team w a)"
  unfolding join_team_def Let_def by (intro shape_intros step_intros inert_intros; simp)

lemma shape_leave_team [tool_shapes]: "auth_shape w (leave_team w a)"
  unfolding leave_team_def Let_def by (intro shape_intros step_intros inert_intros; simp)

lemma shape_kick_user_from_team [tool_shapes]: "auth_shape w (kick_user_from_team w a)"
  unfolding kick_user_from_team_def Let_def by (intro shape_intros step_intros inert_intros; simp)

lemma shape_accept_join_request [tool_shapes]: "auth_shape w (accept_join_request w a)"
  unfolding accept_join_request_def Let_def by (intro shape_intros step_intros inert_intros; simp)

lemma shape_decline_join_request [tool_shapes]: "auth_shape w (decline_join_request w a)"
  unfolding decline_join_request_def Let_def by (intro shape_intros step_intros inert_intros; simp)

lemma shape_search_teams [tool_shapes]: "auth_shape w (search_teams w a)"
  unfolding search_teams_def Let_def by (intro shape_intros step_intros inert_intros; simp)

lemma shape_make_board_move [tool_shapes]: "auth_shape w (make_board_move w a)"
  unfolding make_board_move_def Let_def by (intro shape_intros step_intros inert_intros; simp)

lemma shape_abort_board_game [tool_shapes]: "auth_shape w (abort_board_game w a)"
  unfolding abort_board_game_def Let_def by (intro shape_intros step_intros inert_intros; simp)

lemma shape_resign_board_game [tool_shapes]: "auth_shape w (resign_board_game w a)"
  unfolding resign_board_game_def Let_def by (intro shape_intros step_intros inert_intros; simp)

lemma shape_write_in_chat [tool_shapes]: "auth_shape w (write_in_chat w a)"
  unfolding write_in_chat_def Let_def by (intro shape_intros step_intros inert_intros; simp)

lemma shape_handle_draw_board_game [tool_shapes]: "auth_shape w (handle_draw_board_game w a)"
  unfolding handle_draw_board_game_def Let_def by (intro shape_intros step_intros inert_intros; simp)

lemma shape_claim_victory [tool_shapes]: "auth_shape w (claim_victory w a)"
  unfolding claim_victory_def Let_def by (intro shape_intros step_intros inert_intros; simp)

lemma shape_list_challenges [tool_shapes]: "auth_shape w (list_challenges w a)"
  unfolding list_challenges_def Let_def by (intro shape_intros step_intros inert_intros; simp)

lemma shape_accept_challenge [tool_shapes]: "auth_shape w (accept_challenge w a)"
  unfolding accept_challenge_def Let_def by (intro shape_intros step_intros inert_intros; simp)

lemma shape_decline_challenge [tool_shapes]: "auth_shape w (decline_challenge w a)"
  unfolding decline_challenge_def Let_def by (intro shape_intros step_intros inert_intros; simp)

lemma shape_cancel_challenge [tool_shapes]: "auth_shape w (cancel_challenge w a)"
  unfolding cancel_challenge_def Let_def by (intro shape_intros step_intros inert_intros; simp)

lemma shape_get_arena_tournaments [tool_shapes]: "auth_shape w (get_arena_tournaments w a)"
  unfolding get_arena_tournaments_def Let_def by (intro shape_intros step_intros inert_intros; simp)

lemma shape_create_arena [tool_shapes]: "auth_shape w (create_arena w a)"
  unfolding create_arena_def Let_def by (intro shape_intros step_intros inert_intros; simp)

lemma shape_get_arena_info [tool_shapes]: "auth_shape w (get_arena_info w a)"
  unfolding get_arena_info_def Let_def by (intro shape_intros step_intros inert_intros; simp)

lemma shape_get_arena_games [tool_shapes]: "auth_shape w (get_arena_games w a)"
  unfolding get_arena_games_def Let_def by (intro shape_intros step_intros inert_intros; simp)

lemma shape_get_arena_results [tool_shapes]: "auth_shape w (get_arena_results w a)"
  unfolding get_arena_results_def Let_def by (intro shape_intros step_intros inert_intros; simp)

lemma shape_join_arena [tool_shapes]: "auth_shape w (join_arena w a)"
  unfolding join_arena_def Let_def by (intro shape_intros step_intros inert_intros; simp)

lemma shape_withdraw_from_arena [tool_shapes]: "auth_shape w (withdraw_from_arena w a)"
  unfolding withdraw_from_arena_def Let_def by (intro shape_intros step_intros inert_intros; simp)

lemma shape_get_team_battle_results [tool_shapes]: "auth_shape w (get_team_battle_results w a)"
  unfolding get_team_battle_results_def Let_def by (intro shape_intros step_intros inert_intros; simp)

lemma shape_create_swiss [tool_shapes]: "auth_shape w (create_swiss w a)"
  unfolding create_swiss_def Let_def by (intro shape_intros step_intros inert_intros; simp)

lemma shape_get_swiss_info [tool_shapes]: "auth_shape w (get_swiss_info w a)"
  unfolding get_swiss_info_def Let_def by (intro shape_intros step_intros inert_intros; simp)

lemma shape_get_swiss_games [tool_shapes]: "auth_shape w (get_swiss_games w a)"
  unfolding get_swiss_games_def Let_def by (intro shape_intros step_intros inert_intros; simp)

lemma shape_get_swiss_results [tool_shapes]: "auth_shape w (get_swiss_results w a)"
  unfolding get_swiss_results_def Let_def by (intro shape_intros step_intros inert_intros; simp)

lemma shape_join_swiss [tool_shapes]: "auth_shape w (join_swiss w a)"
  unfolding join_swiss_def Let_def by (intro shape_intros step_intros inert_intros; simp)

lemma shape_withdraw_from_swiss [tool_shapes]: "auth_shape w (withdraw_from_swiss w a)"
  unfolding withdraw_from_swiss_def Let_def by (intro shape_intros step_intros inert_intros; simp)

lemma shape_get_current_simuls [tool_shapes]: "auth_shape w (get_current_simuls w a)"
  unfolding get_current_simuls_def Let_def by (intro shape_intros step_intros inert_intros; simp)

lemma shape_create_simul [tool_shapes]: "auth_shape w (create_simul w a)"
  unfolding create_simul_def Let_def by (intro shape_intros step_intros inert_intros; simp)

lemma shape_join_simul [tool_shapes]: "auth_shape w (join_simul w a)"
  unfolding join_simul_def Let_def by (intro shape_intros step_intros inert_intros; simp)

lemma shape_withdraw_from_simul [tool_shapes]: "auth_shape w (withdraw_from_simul w a)"
  unfolding withdraw_from_simul_def Let_def by (intro shape_intros step_intros inert_intros; simp)

lemma shape_export_study_chapter [tool_shapes]: "auth_shape w (export_study_chapter w a)"
  unfolding export_study_chapter_def Let_def by (intro shape_intros step_intros inert_intros; simp)

lemma shape_export_all_study_chapters [tool_shapes]: "auth_shape w (export_all_study_chapters w a)"
  unfolding export_all_study_chapters_def Let_def by (intro shape_intros step_intros inert_intros; simp)

lemma shape_get_user_studies [tool_shapes]: "auth_shape w (get_user_studies w a)"
  unfolding get_user_studies_def Let_def by (intro shape_intros step_intros inert_intros; simp)

lemma shape_get_thread [tool_shapes]: "auth_shape w (get_thread w a)"
  unfolding get_thread_def Let_def by (intro shape_intros step_intros inert_intros; simp)

lemma shape_get_official_broadcasts [tool_shapes]: "auth_shape w (get_official_broadcasts w a)"
  unfolding get_official_broadcasts_def Let_def by (intro shape_intros step_intros inert_intros; simp)

lemma shape_get_broadcast [tool_shapes]: "auth_shape w (get_broadcast w a)"
  unfolding get_broadcast_def Let_def by (intro shape_intros step_intros inert_intros; simp)

lemma shape_get_broadcast_round [tool_shapes]: "auth_shape w (get_broadcast_round w a)"
  unfolding get_broadcast_round_def Let_def by (intro shape_intros step_intros inert_intros; simp)

lemma shape_push_broadcast_round_pgn [tool_shapes]: "auth_shape w (push_broadcast_round_pgn w a)"
  unfolding push_broadcast_round_pgn_def Let_def by (intro shape_intros step_intros inert_intros; simp)

lemma shape_get_cloud_eval [tool_shapes]: "auth_shape w (get_cloud_eval w a)"
  unfolding get_cloud_eval_def Let_def by (intro shape_intros step_intros inert_intros; simp)

lemma shape_get_fide_player [tool_shapes]: "auth_shape w (get_fide_player w a)"
  unfolding get_fide_player_def Let_def by (intro shape_intros step_intros inert_intros; simp)

lemma shape_search_fide_players [tool_shapes]: "auth_shape w (search_fide_players w a)"
  unfolding search_fide_players_def Let_def by (intro shape_intros step_intros inert_intros; simp)

lemma shape_get_ongoing_games [tool_shapes]: "auth_shape w (get_ongoing_games w a)"
  unfolding get_ongoing_games_def Let_def by (intro shape_intros step_intros inert_intros; simp)

lemma authenticated_tools_shape:
  "(tool, handle) \<in> set authenticated_tools \<Longrightarrow> auth_shape w (handle w a)"
  by (auto simp: authenticated_tools_def tool_shapes)

text \<open>The handlers that decode line by line, and those that return the body as text.\<close>

lemmas decode_simps =
  seq_def read_text_def succeed_def throw_def ndjson_def lines_result_def render_def
  pgn_or_json_def fun_eq_iff

lemma lines_get_following [tool_decodes]:
  "decode_shape w P (lines_result w) (get_following w a)"
  unfolding get_following_def Let_def
  by (intro decode_intros step_intros inert_intros; simp add: decode_simps split: sum.splits)

lemma lines_get_swiss_games [tool_decodes]:
  "decode_shape w P (lines_result w) (get_swiss_games w a)"
  unfolding get_swiss_games_def Let_def
  by (intro decode_intros step_intros inert_intros; simp add: decode_simps split: sum.splits)

lemma lines_get_swiss_results [tool_decodes]:
  "decode_shape w P (lines_result w) (get_swiss_results w a)"
  unfolding get_swiss_results_def Let_def
  by (intro decode_intros step_intros inert_intros; simp add: decode_simps split: sum.splits)

lemma lines_get_user_studies [tool_decodes]:
  "decode_shape w P (lines_result w) (get_user_studies w a)"
  unfolding get_user_studies_def Let_def
  by (intro decode_intros step_intros inert_intros; simp add: decode_simps split: sum.splits)

lemma lines_get_official_broadcasts [tool_decodes]:
  "decode_shape w P (lines_result w) (get_official_broadcasts w a)"
  unfolding get_official_broadcasts_def Let_def
  by (intro decode_intros step_intros inert_intros; simp add: decode_simps split: sum.splits)

lemma lines_export_user_games [tool_decodes]:
  "decode_shape w (\<lambda>r. is_ndjson r \<and> \<not> is_pgn r) (lines_result w) (export_user_games w a)"
  unfolding export_user_games_def Let_def
  by (intro decode_intros step_intros inert_intros; simp add: decode_simps split: sum.splits)

lemma lines_export_games_by_ids [tool_decodes]:
  "decode_shape w (\<lambda>r. is_ndjson r \<and> \<not> is_pgn r) (lines_result w) (export_games_by_ids w a)"
  unfolding export_games_by_ids_def Let_def
  by (intro decode_intros step_intros inert_intros; simp add: decode_simps split: sum.splits)

lemma verbatim_export_game [tool_decodes]:
  "decode_shape w is_pgn (\<lambda>r. Inr (text_body r)) (export_game w a)"
  unfolding export_game_def Let_def
  by (intro decode_intros step_intros inert_intros; simp add: decode_simps split: sum.splits)

lemma verbatim_export_ongoing_game [tool_decodes]:
  "decode_shape w is_pgn (\<lambda>r. Inr (text_body r)) (export_ongoing_game w a)"
  unfolding export_ongoing_game_def Let_def
  by (intro decode_intros step_intros inert_intros; simp add: decode_simps split: sum.splits)

lemma verbatim_export_user_games [tool_decodes]:
  "decode_shape w is_pgn (\<lambda>r. Inr (text_body r)) (export_user_games w a)"
  unfolding export_user_games_def Let_def
  by (intro decode_intros step_intros inert_intros; simp add: decode_simps split: sum.splits)

lemma verbatim_export_games_by_ids [tool_decodes]:
  "decode_shape w is_pgn (\<lambda>r. Inr (text_body r)) (export_games_by_ids w a)"
  unfolding export_games_by_ids_def Let_def
  by (intro decode_intros step_intros inert_intros; simp add: decode_simps split: sum.splits)

lemma verbatim_get_tv_game [tool_decodes]:
  "decode_shape w is_pgn (\<lambda>r. Inr (text_body r)) (get_tv_game w a)"
  unfolding get_tv_game_def Let_def
  by (intro decode_intros step_intros inert_intros; simp add: decode_simps split: sum.splits)

lemma verbatim_export_study_chapter [tool_decodes]:
  "decode_shape w P (\<lambda>r. Inr (text_body r)) (export_study_chapter w a)"
  unfolding export_study_chapter_def Let_def
  by (intro decode_intros step_intros inert_intros; simp add: decode_simps split: sum.splits)

lemma verbatim_export_all_study_chapters [tool_decodes]:
  "decode_shape w P (\<lambda>r. Inr (text_body r)) (export_all_study_chapters w a)"
  unfolding export_all_study_chapters_def Let_def
  by (intro decode_intros step_intros inert_intros; simp add: decode_simps split: sum.splits)

text \<open>The dispatcher on a name of the table, and on the other names.\<close>

lemma special_names_not_in_table:
  "map_of authenticated_tools ''set_token'' = None"
  "map_of authenticated_tools ''test_tokens'' = None"
  "map_of authenticated_tools ''revoke_token'' = None"
  by (simp_all add: authenticated_tools_def)

lemma call_tool_table:
  "map_of authenticated_tools (params_name rq) = Some handle \<Longrightarrow>
   call_tool w rq = handle w (argument rq)"
  using special_names_not_in_table by (auto simp: call_tool_def)


section \<open>The credential store\<close>

lemma test_tokens_frame: "LICHESS_TOKEN (snd (test_tokens w a s)) = LICHESS_TOKEN s"
  by (simp add: test_tokens_def seq_ToString)
     (simp add: seq_def fetch_call_def throw_def succeed_def json_def
           split: fetch_result.splits sum.splits)


text \<open>
  Claim C8. An invocation whose tool name is neither \<^verbatim>\<open>set_token\<close> nor
  \<^verbatim>\<open>revoke_token\<close> leaves the stored token as it was, whether it returns a result
  or throws: this holds for \<^verbatim>\<open>test_tokens\<close>, for every tool routed through
  \<open>lichessRequest\<close> and for a name that the dispatcher does not know.
\<close>

theorem credential_store_frame:
  "params_name rq \<noteq> ''set_token'' \<Longrightarrow> params_name rq \<noteq> ''revoke_token'' \<Longrightarrow>
   LICHESS_TOKEN (snd (call_tool w rq s)) = LICHESS_TOKEN s"
proof -
  assume other: "params_name rq \<noteq> ''set_token''" "params_name rq \<noteq> ''revoke_token''"
  show ?thesis
  proof (cases "params_name rq = ''test_tokens''")
    case True
    with other show ?thesis by (simp add: call_tool_def test_tokens_frame)
  next
    case False
    show ?thesis
    proof (cases "map_of authenticated_tools (params_name rq)")
      case None
      with other False show ?thesis by (simp add: call_tool_def throw_def)
    next
      case (Some handle)
      from map_of_SomeD [OF Some] have "auth_shape w (handle w (argument rq))"
        by (rule authenticated_tools_shape)
      then show ?thesis
        by (simp add: call_tool_table [OF Some] shape_frame)
    qed
  qed
qed

theorem credential_store_frame_witness:
  "''get_leaderboard'' \<noteq> ''set_token'' \<and> ''get_leaderboard'' \<noteq> ''revoke_token'' \<and>
   LICHESS_TOKEN (snd (call_tool (sample_world not_found_reply)
       (invoke ''get_leaderboard'' [(''perfType'', JString ''blitz'')]) (stored ''lip_abc'')))
   = Some ''lip_abc''"
  using credential_store_frame [of "invoke ''get_leaderboard'' [(''perfType'', JString ''blitz'')]"
      "sample_world not_found_reply" "stored ''lip_abc''"]
  by (simp add: invoke_def stored_def)




section \<open>Revoking the token\<close>





section \<open>Setting the token and using it\<close>







section \<open>Range checks and numeric defaults\<close>

lemma url_bearer_request [simp]: "url (bearer_request tok ep opts) = LICHESS_API_URL @ ep"
  by (simp add: bearer_request_def)

lemma String_num_examples:
  "String_num w (Num 200) = ''200''" "String_num w (Num 100) = ''100''"
  "String_num w (Num 9) = ''9''" "String_num w (Num 1) = ''1''"
  by (simp_all add: safe_integer_def digits.simps digit_char_def)

lemma call_get_leaderboard:
  "params_name rq = ''get_leaderboard'' \<Longrightarrow> call_tool w rq = get_leaderboard w (argument rq)"
  by (simp add: call_tool_def authenticated_tools_def)

lemma call_get_ongoing_games:
  "params_name rq = ''get_ongoing_games'' \<Longrightarrow> call_tool w rq = get_ongoing_games w (argument rq)"
  by (simp add: call_tool_def authenticated_tools_def)

lemma seq_lichessRequest_fetched:
  "LICHESS_TOKEN s = Some tok \<Longrightarrow> tok \<noteq> [] \<Longrightarrow> \<forall>r. inert (k r) \<Longrightarrow>
   fetched (snd (seq (lichessRequest w ep opts) k s)) = fetched s @ [bearer_request tok ep opts]"
  by (auto simp: seq_def lichessRequest_token inert_def split: fetch_result.splits)

lemma seq_lichessRequest_kind:
  assumes tok: "LICHESS_TOKEN s = Some tok" "tok \<noteq> []"
    and k: "\<forall>r s' e. k r s' = (Inl e, s') \<longrightarrow> kind e \<noteq> ValidationError"
    and inert_k: "\<forall>r. inert (k r)"
    and run: "fst (seq (lichessRequest w ep opts) k s) = Inl e"
  shows "kind e \<noteq> ValidationError"
proof (cases "fetch w (bearer_request tok ep opts)")
  case (Rejected msg)
  with run show ?thesis by (auto simp: seq_def lichessRequest_token [OF tok])
next
  case (Resolved r)
  show ?thesis
  proof (cases "ok r")
    case False
    with run Resolved show ?thesis
      by (auto simp: seq_def lichessRequest_token [OF tok] http_error_def http_kind_def
               split: if_splits)
  next
    case True
    let ?s' = "s\<lparr>fetched := fetched s @ [bearer_request tok ep opts]\<rparr>"
    from run Resolved True have "fst (k r ?s') = Inl e"
      by (simp add: seq_def lichessRequest_token [OF tok])
    moreover from inert_k have "k r ?s' = (fst (k r ?s'), ?s')" by (blast intro: inert_run)
    ultimately have "k r ?s' = (Inl e, ?s')" by simp
    with k show ?thesis by blast
  qed
qed

lemma json_then_stringify_kind:
  "seq (json w r) (\<lambda>v. succeed (f v)) s' = (Inl e, s'') \<Longrightarrow> kind e \<noteq> ValidationError"
  by (auto simp: seq_def json_def throw_def succeed_def split: sum.splits)



text \<open>
  Claim C10, as stated: with \<^verbatim>\<open>nb = 0\<close> or a value of \<^verbatim>\<open>nb\<close> that is not
  numeric, \<^verbatim>\<open>get_leaderboard\<close> raises no \<^verbatim>\<open>ValidationError\<close> and sends the
  request with the default 100. This fails for values that are not numbers and that
  \<^verbatim>\<open>Number(...)\<close> does not turn into \<^verbatim>\<open>NaN\<close>: the array \<^verbatim>\<open>[500]\<close>
  becomes 500 and is rejected by the range check, \<^verbatim>\<open>true\<close> becomes 1 and is
  sent as 1, and the object \<^verbatim>\<open>{"toString": 1}\<close> makes \<^verbatim>\<open>Number(...)\<close>
  throw a \<^verbatim>\<open>TypeError\<close>, so that no request is made.
\<close>

theorem falsy_numeric_default_counterexample:
  "call_tool (sample_world json_reply)
     (invoke ''get_leaderboard''
        [(''perfType'', JString ''blitz''), (''nb'', JArray [JNumber (Num 500)])])
     (stored ''lip_abc'')
   = (Inl (Error ValidationError ''nb parameter must be between 1 and 200''), stored ''lip_abc'') \<and>
   map url (fetched (snd (call_tool (sample_world json_reply)
      (invoke ''get_leaderboard'' [(''perfType'', JString ''blitz''), (''nb'', JBool True)])
      (stored ''lip_abc''))))
   = [''https://lichess.org/api/player/top/1/blitz''] \<and>
   call_tool (sample_world json_reply)
     (invoke ''get_leaderboard'' [(''perfType'', JString ''blitz''), (''nb'', unconvertible)])
     (stored ''lip_abc'')
   = (Inl (Error RuntimeTypeError ''Cannot convert object to primitive value''),
      stored ''lip_abc'')"
proof (intro conjI)
  have tok: "LICHESS_TOKEN (stored ''lip_abc'') = Some ''lip_abc''" "''lip_abc'' \<noteq> []"
    by (simp_all add: stored_def)
  have five_hundred: "sample_StringToNumber ''500'' = Num 500"
    by (simp add: sample_StringToNumber_def trim_def white_space_def)
  show "call_tool (sample_world json_reply)
     (invoke ''get_leaderboard''
        [(''perfType'', JString ''blitz''), (''nb'', JArray [JNumber (Num 500)])])
     (stored ''lip_abc'')
   = (Inl (Error ValidationError ''nb parameter must be between 1 and 200''), stored ''lip_abc'')"
    by (simp add: call_tool_def invoke_def argument_def authenticated_tools_def get_leaderboard_def
          leaderboard_perf_types_def seq_ToString seq_ToNumber safe_integer_def digits.simps
          digit_char_def sample_world_def five_hundred num_or_def throw_def invalid_def)
  show "map url (fetched (snd (call_tool (sample_world json_reply)
      (invoke ''get_leaderboard'' [(''perfType'', JString ''blitz''), (''nb'', JBool True)])
      (stored ''lip_abc''))))
   = [''https://lichess.org/api/player/top/1/blitz'']"
    by (simp add: call_tool_def invoke_def argument_def authenticated_tools_def get_leaderboard_def
          leaderboard_perf_types_def seq_ToString seq_ToNumber num_or_def String_num_examples
          seq_lichessRequest_fetched [OF tok] inert_intros del: String_num.simps)
       (simp add: stored_def LICHESS_API_URL_def)
  show "call_tool (sample_world json_reply)
     (invoke ''get_leaderboard'' [(''perfType'', JString ''blitz''), (''nb'', unconvertible)])
     (stored ''lip_abc'')
   = (Inl (Error RuntimeTypeError ''Cannot convert object to primitive value''),
      stored ''lip_abc'')"
    by (simp add: call_tool_def invoke_def argument_def authenticated_tools_def get_leaderboard_def
          leaderboard_perf_types_def seq_ToString seq_ToNumber unconvertible_def type_error_def)
qed

text \<open>
  Claim C10, amended. When \<^verbatim>\<open>Number(nb)\<close> is 0 or \<^verbatim>\<open>NaN\<close> (as it is for
  0, for a missing \<^verbatim>\<open>nb\<close> and for a string that is not a numeral),
  \<^verbatim>\<open>get_leaderboard\<close> with a \<^verbatim>\<open>perfType\<close> of the list and a token stored
  raises no \<^verbatim>\<open>ValidationError\<close>: the default 100 replaces the value and the
  request goes to \<^verbatim>\<open>/player/top/100/{perfType}\<close>. \<^verbatim>\<open>get_ongoing_games\<close> does
  the same with its default 9.
\<close>

theorem falsy_numeric_default:
  "Number_js w (argument rq ''nb'') = Inr (Num 0) \<or> Number_js w (argument rq ''nb'') = Inr NaN \<Longrightarrow>
   LICHESS_TOKEN s = Some tok \<Longrightarrow> tok \<noteq> [] \<Longrightarrow>
   (params_name rq = ''get_leaderboard'' \<longrightarrow>
    String_js w (argument rq ''perfType'') = Inr p \<longrightarrow> p \<in> set leaderboard_perf_types \<longrightarrow>
      (\<exists>q. fetched (snd (call_tool w rq s)) = fetched s @ [q] \<and>
           url q = ''https://lichess.org/api/player/top/100/'' @ p)
      \<and> (\<forall>e. fst (call_tool w rq s) = Inl e \<longrightarrow> kind e \<noteq> ValidationError)) \<and>
   (params_name rq = ''get_ongoing_games'' \<longrightarrow>
      (\<exists>q. fetched (snd (call_tool w rq s)) = fetched s @ [q] \<and>
           url q = ''https://lichess.org/api/account/playing?nb=9'')
      \<and> (\<forall>e. fst (call_tool w rq s) = Inl e \<longrightarrow> kind e \<noteq> ValidationError))"
proof -
  assume falsy: "Number_js w (argument rq ''nb'') = Inr (Num 0) \<or>
                 Number_js w (argument rq ''nb'') = Inr NaN"
    and tok: "LICHESS_TOKEN s = Some tok" "tok \<noteq> []"
  from falsy obtain n where n: "Number_js w (argument rq ''nb'') = Inr n"
    and d100: "num_or n 100 = Num 100" and d9: "num_or n 9 = Num 9"
    by (auto simp: num_or_def)
  have leaderboard:
    "(\<exists>q. fetched (snd (call_tool w rq s)) = fetched s @ [q] \<and>
           url q = ''https://lichess.org/api/player/top/100/'' @ p)
      \<and> (\<forall>e. fst (call_tool w rq s) = Inl e \<longrightarrow> kind e \<noteq> ValidationError)"
    if name: "params_name rq = ''get_leaderboard''"
      and perf: "String_js w (argument rq ''perfType'') = Inr p" "p \<in> set leaderboard_perf_types"
  proof -
    from perf have ne: "p \<noteq> []"
      by (auto simp: leaderboard_perf_types_def)
    let ?k = "\<lambda>response. seq (json w response) (\<lambda>leaderboard. succeed (JSON_stringify_2 w leaderboard))"
    have run: "call_tool w rq s =
        seq (lichessRequest w (''/player/top/100/'' @ p) no_options) ?k s"
      using perf ne
      by (simp add: call_get_leaderboard [OF name] get_leaderboard_def seq_ToString seq_ToNumber
            n Let_def d100 String_num_examples del: String_num.simps)
    have inert_k: "\<forall>r. inert (?k r)" by (intro allI inert_intros)
    have k_kind: "\<forall>r s' e. ?k r s' = (Inl e, s') \<longrightarrow> kind e \<noteq> ValidationError"
      using json_then_stringify_kind by blast
    have "fetched (snd (call_tool w rq s)) = fetched s @
        [bearer_request tok (''/player/top/100/'' @ p) no_options]"
      unfolding run by (rule seq_lichessRequest_fetched [OF tok inert_k])
    moreover have "kind e \<noteq> ValidationError" if "fst (call_tool w rq s) = Inl e" for e
      using that unfolding run by (rule seq_lichessRequest_kind [OF tok k_kind inert_k])
    ultimately show ?thesis by (simp add: LICHESS_API_URL_def)
  qed
  have ongoing:
    "(\<exists>q. fetched (snd (call_tool w rq s)) = fetched s @ [q] \<and>
           url q = ''https://lichess.org/api/account/playing?nb=9'')
      \<and> (\<forall>e. fst (call_tool w rq s) = Inl e \<longrightarrow> kind e \<noteq> ValidationError)"
    if name: "params_name rq = ''get_ongoing_games''"
  proof -
    let ?k = "\<lambda>response.
          if \<not> ok response
          then throw (http_error response (''Failed to get ongoing games: '' @ statusText response))
          else seq (json w response) (\<lambda>games. succeed (JSON_stringify_2 w games))"
    let ?m = "seq (lichessRequest w ''/account/playing?nb=9'' no_options) ?k"
    have run: "call_tool w rq s = try_catch ?m (rethrow ''Failed to get ongoing games: '') s"
      by (simp add: call_get_ongoing_games [OF name] get_ongoing_games_def try_catch_def
            seq_ToNumber n Let_def d9 String_num_examples del: String_num.simps)
    have inert_k: "\<forall>r. inert (?k r)" by (intro allI inert_intros)
    have k_kind: "\<forall>r s' e. ?k r s' = (Inl e, s') \<longrightarrow> kind e \<noteq> ValidationError"
      using json_then_stringify_kind [of w _ "JSON_stringify_2 w"]
      by (auto simp: throw_def http_error_def http_kind_def split: if_splits)
    have f: "fetched (snd (?m s)) = fetched s @ [bearer_request tok ''/account/playing?nb=9'' no_options]"
      by (rule seq_lichessRequest_fetched [OF tok inert_k])
    have m_kind: "kind e \<noteq> ValidationError" if "fst (?m s) = Inl e" for e
      using that by (rule seq_lichessRequest_kind [OF tok k_kind inert_k])
    have "fetched (snd (call_tool w rq s)) = fetched s @ [bearer_request tok ''/account/playing?nb=9'' no_options]"
      using f by (simp add: run try_catch_rethrow_snd)
    moreover have "kind e \<noteq> ValidationError" if "fst (call_tool w rq s) = Inl e" for e
      using try_catch_rethrow_kind [OF that [unfolded run]] m_kind by auto
    ultimately show ?thesis by (simp add: LICHESS_API_URL_def)
  qed
  from leaderboard ongoing show ?thesis by blast
qed

theorem falsy_numeric_default_witness:
  "(Number_js (sample_world json_reply)
      (argument (invoke ''get_leaderboard'' [(''perfType'', JString ''blitz''), (''nb'', JNumber (Num 0))]) ''nb'')
      = Inr (Num 0)) \<and>
   (Number_js (sample_world json_reply)
      (argument (invoke ''get_ongoing_games'' [(''nb'', JString ''abc'')]) ''nb'') = Inr NaN) \<and>
   LICHESS_TOKEN (stored ''lip_abc'') = Some ''lip_abc'' \<and> ''lip_abc'' \<noteq> [] \<and>
   map url (fetched (snd (call_tool (sample_world json_reply)
      (invoke ''get_leaderboard'' [(''perfType'', JString ''blitz''), (''nb'', JNumber (Num 0))])
      (stored ''lip_abc''))))
     = [''https://lichess.org/api/player/top/100/blitz''] \<and>
   map url (fetched (snd (call_tool (sample_world json_reply)
      (invoke ''get_ongoing_games'' [(''nb'', JString ''abc'')]) (stored ''lip_abc''))))
     = [''https://lichess.org/api/account/playing?nb=9'']"
proof -
  let ?w = "sample_world json_reply"
  let ?lead = "invoke ''get_leaderboard'' [(''perfType'', JString ''blitz''), (''nb'', JNumber (Num 0))]"
  let ?ongoing = "invoke ''get_ongoing_games'' [(''nb'', JString ''abc'')]"
  have zero: "Number_js ?w (argument ?lead ''nb'') = Inr (Num 0)"
    by (simp add: invoke_def argument_def)
  have nan: "Number_js ?w (argument ?ongoing ''nb'') = Inr NaN"
    by (simp add: invoke_def argument_def sample_world_def sample_StringToNumber_def trim_def
          white_space_def)
  have t: "LICHESS_TOKEN (stored ''lip_abc'') = Some ''lip_abc''" "''lip_abc'' \<noteq> []"
    by (simp_all add: stored_def)
  from falsy_numeric_default [OF disjI1 [OF zero] t, of "''blitz''"]
  have a: "map url (fetched (snd (call_tool ?w ?lead (stored ''lip_abc''))))
     = [''https://lichess.org/api/player/top/100/blitz'']"
    by (auto simp: invoke_def argument_def leaderboard_perf_types_def stored_def)
  from falsy_numeric_default [OF disjI2 [OF nan] t]
  have b: "map url (fetched (snd (call_tool ?w ?ongoing (stored ''lip_abc''))))
     = [''https://lichess.org/api/account/playing?nb=9'']"
    by (auto simp: invoke_def stored_def)
  from zero nan t a b show ?thesis by simp
qed

section \<open>Two places where the code misses what its own checks attempt\<close>

text \<open>
  Claim C1 says that a tool invoked without an argument that its schema requires raises
  a \<^verbatim>\<open>ValidationError\<close> and makes no network call. The code reads the argument
  with \<^verbatim>\<open>String(...)\<close>, which turns \<^verbatim>\<open>undefined\<close> into the non-empty
  string \<^verbatim>\<open>undefined\<close>, so that the test \<^verbatim>\<open>!token\<close> never fires on a
  missing argument: \<^verbatim>\<open>set_token\<close> stores the string and reports success,
  \<^verbatim>\<open>get_users_status\<close> (with the same test) and \<^verbatim>\<open>make_move\<close> (with no
  test) send a request.
\<close>

theorem required_argument_unchecked:
  "call_tool w \<lparr>params_name = ''set_token'', params_arguments = None\<rparr> s
     = (Inr ''Lichess API token has been set'', s\<lparr>LICHESS_TOKEN := Some ''undefined''\<rparr>) \<and>
   fetched (snd (call_tool w \<lparr>params_name = ''get_users_status'', params_arguments = None\<rparr>
                   (stored ''lip_abc'')))
     = [bearer_request ''lip_abc''
          (''/users/status?ids=undefined&'' @ URLSearchParams_toString w []) no_options] \<and>
   fetched (snd (call_tool w \<lparr>params_name = ''make_move'', params_arguments = None\<rparr>
                   (stored ''lip_abc'')))
     = [bearer_request ''lip_abc''
          (URL_pathname w ''/board/game/undefined/move/undefined'' LICHESS_API_URL
           @ URL_search w ''/board/game/undefined/move/undefined'' LICHESS_API_URL) post]"
proof (intro conjI)
  show "call_tool w \<lparr>params_name = ''set_token'', params_arguments = None\<rparr> s
     = (Inr ''Lichess API token has been set'', s\<lparr>LICHESS_TOKEN := Some ''undefined''\<rparr>)"
    by (simp add: call_tool_def set_token_def argument_def seq_ToString)
       (simp add: seq_def write_token_def succeed_def)
  have tok: "LICHESS_TOKEN (stored ''lip_abc'') = Some ''lip_abc''" "''lip_abc'' \<noteq> []"
    by (simp_all add: stored_def)
  show "fetched (snd (call_tool w \<lparr>params_name = ''get_users_status'', params_arguments = None\<rparr>
                   (stored ''lip_abc'')))
     = [bearer_request ''lip_abc''
          (''/users/status?ids=undefined&'' @ URLSearchParams_toString w []) no_options]"
    by (simp add: call_tool_def authenticated_tools_def get_users_status_def argument_def Let_def
          seq_ToString Boolean_js_def try_catch_rethrow_snd seq_lichessRequest_fetched [OF tok]
          inert_intros)
       (simp add: stored_def)
  show "fetched (snd (call_tool w \<lparr>params_name = ''make_move'', params_arguments = None\<rparr>
                   (stored ''lip_abc'')))
     = [bearer_request ''lip_abc''
          (URL_pathname w ''/board/game/undefined/move/undefined'' LICHESS_API_URL
           @ URL_search w ''/board/game/undefined/move/undefined'' LICHESS_API_URL) post]"
    by (simp add: call_tool_def authenticated_tools_def make_move_def argument_def Let_def
          seq_ToString Boolean_js_def seq_lichessRequest_fetched [OF tok] inert_intros)
       (simp add: stored_def)
qed

text \<open>
  Claim C2 says that a 404 on a user lookup gives a \<^verbatim>\<open>NotFound\<close> error whose
  message contains the username. \<open>lichessRequest\<close> throws on every response that is
  not \<^verbatim>\<open>ok\<close>, so the handler's own test of the status 404, which would name the
  user, is never reached: the message is that of \<open>lichessRequest\<close> with the
  handler's prefix.
\<close>

theorem user_lookup_not_found_message:
  "call_tool (sample_world not_found_reply)
     (invoke ''get_user_public_data'' [(''username'', JString ''alice'')]) (stored ''lip_abc'')
   = (Inl (Error NotFound ''Failed to get user data: Lichess API error: Not Found''),
      \<lparr>LICHESS_TOKEN = Some ''lip_abc'',
       fetched = [bearer_request ''lip_abc'' ''/user/alice?'' no_options]\<rparr>) \<and>
   \<not> includes_str ''Failed to get user data: Lichess API error: Not Found'' ''alice''"
proof -
  have tok: "LICHESS_TOKEN (stored ''lip_abc'') = Some ''lip_abc''" "''lip_abc'' \<noteq> []"
    by (simp_all add: stored_def)
  have "call_tool (sample_world not_found_reply)
     (invoke ''get_user_public_data'' [(''username'', JString ''alice'')]) (stored ''lip_abc'')
   = (Inl (Error NotFound ''Failed to get user data: Lichess API error: Not Found''),
      \<lparr>LICHESS_TOKEN = Some ''lip_abc'',
       fetched = [bearer_request ''lip_abc'' ''/user/alice?'' no_options]\<rparr>)"
    by (simp add: call_tool_def invoke_def authenticated_tools_def get_user_public_data_def
          argument_def Let_def seq_ToString Boolean_js_def trim_def white_space_def)
       (simp add: try_catch_rethrow seq_def lichessRequest_token [OF tok] sample_world_def
          not_found_reply_def ok_def http_error_def http_kind_def sample_query_def,
        simp add: stored_def)
  then show ?thesis by simp
qed

section \<open>Decoding of response bodies\<close>

text \<open>The dispatcher on the names of the tools that decode a body as lines or as text.\<close>

lemma call_get_following:
  "params_name rq = ''get_following'' \<Longrightarrow> call_tool w rq = get_following w (argument rq)"
  by (simp add: call_tool_def authenticated_tools_def)

lemma call_get_swiss_games:
  "params_name rq = ''get_swiss_games'' \<Longrightarrow> call_tool w rq = get_swiss_games w (argument rq)"
  by (simp add: call_tool_def authenticated_tools_def)

lemma call_get_swiss_results:
  "params_name rq = ''get_swiss_results'' \<Longrightarrow> call_tool w rq = get_swiss_results w (argument rq)"
  by (simp add: call_tool_def authenticated_tools_def)

lemma call_get_user_studies:
  "params_name rq = ''get_user_studies'' \<Longrightarrow> call_tool w rq = get_user_studies w (argument rq)"
  by (simp add: call_tool_def authenticated_tools_def)

lemma call_get_official_broadcasts:
  "params_name rq = ''get_official_broadcasts'' \<Longrightarrow> call_tool w rq = get_official_broadcasts w (argument rq)"
  by (simp add: call_tool_def authenticated_tools_def)

lemma call_export_user_games:
  "params_name rq = ''export_user_games'' \<Longrightarrow> call_tool w rq = export_user_games w (argument rq)"
  by (simp add: call_tool_def authenticated_tools_def)

lemma call_export_games_by_ids:
  "params_name rq = ''export_games_by_ids'' \<Longrightarrow> call_tool w rq = export_games_by_ids w (argument rq)"
  by (simp add: call_tool_def authenticated_tools_def)

lemma call_export_game:
  "params_name rq = ''export_game'' \<Longrightarrow> call_tool w rq = export_game w (argument rq)"
  by (simp add: call_tool_def authenticated_tools_def)

lemma call_export_ongoing_game:
  "params_name rq = ''export_ongoing_game'' \<Longrightarrow> call_tool w rq = export_ongoing_game w (argument rq)"
  by (simp add: call_tool_def authenticated_tools_def)

lemma call_get_tv_game:
  "params_name rq = ''get_tv_game'' \<Longrightarrow> call_tool w rq = get_tv_game w (argument rq)"
  by (simp add: call_tool_def authenticated_tools_def)

lemma call_export_study_chapter:
  "params_name rq = ''export_study_chapter'' \<Longrightarrow> call_tool w rq = export_study_chapter w (argument rq)"
  by (simp add: call_tool_def authenticated_tools_def)

lemma call_export_all_study_chapters:
  "params_name rq = ''export_all_study_chapters'' \<Longrightarrow> call_tool w rq = export_all_study_chapters w (argument rq)"
  by (simp add: call_tool_def authenticated_tools_def)

lemma ndjson_tools_decode:
  "params_name rq \<in> set ndjson_tools \<Longrightarrow>
   decode_shape w (\<lambda>r. is_ndjson r \<and> \<not> is_pgn r) (lines_result w) (call_tool w rq)"
  by (auto simp: ndjson_tools_def call_get_following call_get_swiss_games call_get_swiss_results
        call_get_user_studies call_get_official_broadcasts call_export_user_games
        call_export_games_by_ids tool_decodes)

lemma pgn_tools_decode:
  "params_name rq \<in> set pgn_tools \<Longrightarrow>
   decode_shape w is_pgn (\<lambda>r. Inr (text_body r)) (call_tool w rq)"
  by (auto simp: pgn_tools_def call_export_game call_export_ongoing_game
        call_export_user_games call_export_games_by_ids call_get_tv_game
        call_export_study_chapter call_export_all_study_chapters tool_decodes)

text \<open>\<open>parse_lines\<close> parses every line in order, and fails when one line fails.\<close>

lemma parse_lines_Inr:
  "map (JSON_parse w) ls = map Inr vs \<Longrightarrow> parse_lines w ls = Inr vs"
  by (induction ls arbitrary: vs) auto

lemma parse_lines_all_Inr:
  "parse_lines w ls = Inr vs \<Longrightarrow> map (JSON_parse w) ls = map Inr vs"
  by (induction ls arbitrary: vs) (auto split: sum.splits)

lemma parse_lines_Inl:
  assumes "\<exists>line\<in>set ls. \<exists>msg. JSON_parse w line = Inl msg"
  shows "\<exists>msg. parse_lines w ls = Inl msg"
proof (cases "parse_lines w ls")
  case (Inl msg)
  then show ?thesis by blast
next
  case (Inr vs)
  from assms obtain line msg where line: "line \<in> set ls" "JSON_parse w line = Inl msg"
    by blast
  from parse_lines_all_Inr [OF Inr] have "JSON_parse w line \<in> set (map Inr vs)"
    using line(1) by (metis image_eqI set_map)
  with line(2) show ?thesis by auto
qed

text \<open>The sample bodies, and the requests of the examples.\<close>

lemma ndjson_lines_sample:
  "ndjson_lines (text_body ndjson_response) = [record_a1, record_a2]"
  by (simp add: ndjson_response_def ndjson_lines_def record_a1_def record_a2_def trim_def
        white_space_def)

lemma ndjson_lines_malformed:
  "ndjson_lines (text_body malformed_response) = [record_a1, ''{oops'']"
  by (simp add: malformed_response_def ndjson_lines_def record_a1_def trim_def white_space_def)

lemma sample_replies [simp]:
  "ok ndjson_response" "is_ndjson ndjson_response" "\<not> is_pgn ndjson_response"
  "ok malformed_response" "is_ndjson malformed_response" "\<not> is_pgn malformed_response"
  "ok pgn_response" "is_pgn pgn_response"
  "ok two_types_response" "is_ndjson two_types_response" "is_pgn two_types_response"
  by (simp_all add: ok_def is_ndjson_def is_pgn_def ndjson_response_def malformed_response_def
        pgn_response_def two_types_response_def)

lemma stored_token:
  "LICHESS_TOKEN (stored ''lip_abc'') = Some ''lip_abc''" "''lip_abc'' \<noteq> []"
  by (simp_all add: stored_def)

lemma sent_get_following:
  "fetched (snd (call_tool w (invoke ''get_following'' []) (stored ''lip_abc'')))
   = fetched (stored ''lip_abc'') @ [bearer_request ''lip_abc'' ''/rel/following'' no_options]"
  by (simp add: call_tool_def invoke_def authenticated_tools_def get_following_def
        try_catch_rethrow_snd seq_lichessRequest_fetched [OF stored_token] inert_intros)

lemma sent_export_user_games:
  "\<exists>q. fetched (snd (call_tool w (invoke ''export_user_games'' [(''username'', JString ''alice'')])
                        (stored ''lip_abc'')))
        = fetched (stored ''lip_abc'') @ [q]"
  by (simp add: call_tool_def invoke_def authenticated_tools_def export_user_games_def
        argument_def step_simps trim_def white_space_def try_catch_rethrow_snd
        seq_lichessRequest_fetched [OF stored_token] inert_intros)

lemma sent_export_game:
  "\<exists>q. fetched (snd (call_tool w (invoke ''export_game'' [(''gameId'', JString ''q7ZvsdUF'')])
                        (stored ''lip_abc'')))
        = fetched (stored ''lip_abc'') @ [q]"
  by (simp add: call_tool_def invoke_def authenticated_tools_def export_game_def
        argument_def step_simps try_catch_rethrow_snd
        seq_lichessRequest_fetched [OF stored_token] inert_intros)

lemma sent_export_all_study_chapters:
  "\<exists>q. fetched (snd (call_tool w
                        (invoke ''export_all_study_chapters'' [(''studyId'', JString ''Ab3dE6gh'')])
                        (stored ''lip_abc'')))
        = fetched (stored ''lip_abc'') @ [q]"
  by (simp add: call_tool_def invoke_def authenticated_tools_def export_all_study_chapters_def
        study_params_def argument_def step_simps try_catch_rethrow_snd
        seq_lichessRequest_fetched [OF stored_token] inert_intros)

text \<open>
  Claim C5, as stated: every response whose \<^verbatim>\<open>content-type\<close> is newline-delimited
  JSON is split into lines, each parsed on its own, whatever the tool. This fails: the
  decoding is chosen by each handler. \<^verbatim>\<open>get_team_members\<close> reads every body
  with \<^verbatim>\<open>response.json()\<close>, so the body of two records on two lines, declared as
  \<^verbatim>\<open>application/x-ndjson\<close>, is parsed as one document and the invocation throws.
  And \<^verbatim>\<open>export_user_games\<close>, which does decode line by line, tests the PGN type
  first: a response whose \<^verbatim>\<open>content-type\<close> names both types is returned as
  text.
\<close>

theorem ndjson_decoding_counterexample:
  "is_ndjson ndjson_response \<and> ok ndjson_response \<and>
   call_tool (sample_world (Resolved ndjson_response))
     (invoke ''get_team_members'' [(''teamId'', JString ''coders'')]) (stored ''lip_abc'')
   = (Inl (Error ParseError ''Failed to get team members: Unexpected token''),
      \<lparr>LICHESS_TOKEN = Some ''lip_abc'',
       fetched = [bearer_request ''lip_abc'' ''/team/coders/users?max=100'' no_options]\<rparr>) \<and>
   is_ndjson two_types_response \<and> ok two_types_response \<and>
   fst (call_tool (sample_world (Resolved two_types_response))
          (invoke ''export_user_games'' [(''username'', JString ''alice'')]) (stored ''lip_abc''))
   = Inr (text_body two_types_response)"
proof (intro conjI)
  show "call_tool (sample_world (Resolved ndjson_response))
     (invoke ''get_team_members'' [(''teamId'', JString ''coders'')]) (stored ''lip_abc'')
   = (Inl (Error ParseError ''Failed to get team members: Unexpected token''),
      \<lparr>LICHESS_TOKEN = Some ''lip_abc'',
       fetched = [bearer_request ''lip_abc'' ''/team/coders/users?max=100'' no_options]\<rparr>)"
    by (simp add: call_tool_def invoke_def authenticated_tools_def get_team_members_def
          argument_def step_simps Let_def num_or_def trim_def white_space_def
          String_num_examples del: String_num.simps,
        simp add: try_catch_rethrow seq_def lichessRequest_token [OF stored_token]
          sample_world_def sample_query_def json_def sample_JSON_parse_def ndjson_response_def
          ok_def record_a1_def record_a2_def throw_def,
        simp add: stored_def)
  show "fst (call_tool (sample_world (Resolved two_types_response))
          (invoke ''export_user_games'' [(''username'', JString ''alice'')]) (stored ''lip_abc''))
   = Inr (text_body two_types_response)"
    by (simp add: call_tool_def invoke_def authenticated_tools_def export_user_games_def
          argument_def step_simps trim_def white_space_def,
        simp add: try_catch_rethrow seq_def lichessRequest_token [OF stored_token]
          sample_world_def read_text_def succeed_def render_def)
qed simp_all

text \<open>
  Claim C5, amended. For a response that is \<^verbatim>\<open>ok\<close> to the request of one of the
  tools \<^verbatim>\<open>get_following\<close>, \<^verbatim>\<open>get_swiss_games\<close>,
  \<^verbatim>\<open>get_swiss_results\<close>, \<^verbatim>\<open>get_user_studies\<close>,
  \<^verbatim>\<open>get_official_broadcasts\<close>, \<^verbatim>\<open>export_user_games\<close> and
  \<^verbatim>\<open>export_games_by_ids\<close>, whose \<^verbatim>\<open>content-type\<close> names
  \<^verbatim>\<open>application/x-ndjson\<close> and not the PGN type: the body is split on line breaks,
  the lines that are blank after trimming are dropped, and each remaining line is parsed
  on its own. When every line parses, the result is the serialised array of the parsed
  values in the order of the lines; when some line does not parse, the invocation
  throws a \<^verbatim>\<open>ParseError\<close>.
\<close>

theorem ndjson_decoding:
  "params_name rq \<in> set ndjson_tools \<Longrightarrow> is_ndjson r \<Longrightarrow> \<not> is_pgn r \<Longrightarrow>
   fetched (snd (call_tool w rq s)) = fetched s @ [q] \<Longrightarrow> fetch w q = Resolved r \<Longrightarrow> ok r \<Longrightarrow>
   (\<forall>vs. map (JSON_parse w) (ndjson_lines (text_body r)) = map Inr vs \<longrightarrow>
         fst (call_tool w rq s) = Inr (JSON_stringify_2 w (JArray vs))) \<and>
   ((\<exists>line\<in>set (ndjson_lines (text_body r)). \<exists>msg. JSON_parse w line = Inl msg) \<longrightarrow>
         (\<exists>e. fst (call_tool w rq s) = Inl e \<and> kind e = ParseError))"
proof -
  assume tool: "params_name rq \<in> set ndjson_tools"
    and kind: "is_ndjson r" "\<not> is_pgn r"
    and sent: "fetched (snd (call_tool w rq s)) = fetched s @ [q]"
    and reply: "fetch w q = Resolved r" and ok: "ok r"
  from kind have P: "is_ndjson r \<and> \<not> is_pgn r" by simp
  note decoded = decode_response [OF ndjson_tools_decode [OF tool] sent reply ok P]
  have good: "fst (call_tool w rq s) = Inr (JSON_stringify_2 w (JArray vs))"
    if "map (JSON_parse w) (ndjson_lines (text_body r)) = map Inr vs" for vs
    using decoded parse_lines_Inr [OF that] by (simp add: lines_result_def)
  have bad: "\<exists>e. fst (call_tool w rq s) = Inl e \<and> kind e = ParseError"
    if "\<exists>line\<in>set (ndjson_lines (text_body r)). \<exists>msg. JSON_parse w line = Inl msg"
    using decoded parse_lines_Inl [OF that] by (auto simp: lines_result_def)
  from good bad show ?thesis by blast
qed

theorem ndjson_decoding_witness:
  "params_name (invoke ''get_following'' []) \<in> set ndjson_tools \<and>
   params_name (invoke ''export_user_games'' [(''username'', JString ''alice'')]) \<in> set ndjson_tools \<and>
   is_ndjson ndjson_response \<and> \<not> is_pgn ndjson_response \<and> ok ndjson_response \<and>
   is_ndjson malformed_response \<and> \<not> is_pgn malformed_response \<and> ok malformed_response \<and>
   ndjson_lines (text_body ndjson_response) = [record_a1, record_a2] \<and>
   fst (call_tool (sample_world (Resolved ndjson_response)) (invoke ''get_following'' [])
          (stored ''lip_abc''))
     = Inr (JSON_stringify_2 (sample_world (Resolved ndjson_response))
              (JArray [JObject [(''a'', JNumber (Num 1))], JObject [(''a'', JNumber (Num 2))]])) \<and>
   fst (call_tool (sample_world (Resolved ndjson_response))
          (invoke ''export_user_games'' [(''username'', JString ''alice'')]) (stored ''lip_abc''))
     = Inr (JSON_stringify_2 (sample_world (Resolved ndjson_response))
              (JArray [JObject [(''a'', JNumber (Num 1))], JObject [(''a'', JNumber (Num 2))]])) \<and>
   (\<exists>e. fst (call_tool (sample_world (Resolved malformed_response)) (invoke ''get_following'' [])
               (stored ''lip_abc'')) = Inl e \<and> kind e = ParseError)"
proof -
  let ?w = "sample_world (Resolved ndjson_response)"
  let ?w' = "sample_world (Resolved malformed_response)"
  let ?following = "invoke ''get_following'' []"
  let ?games = "invoke ''export_user_games'' [(''username'', JString ''alice'')]"
  let ?records = "[JObject [(''a'', JNumber (Num 1))], JObject [(''a'', JNumber (Num 2))]]"
  have a: "params_name ?following \<in> set ndjson_tools" "params_name ?games \<in> set ndjson_tools"
    by (simp_all add: invoke_def ndjson_tools_def)
  have f: "fetch ?w q = Resolved ndjson_response" "fetch ?w' q = Resolved malformed_response" for q
    by (simp_all add: sample_world_def)
  have parsed: "map (JSON_parse ?w) (ndjson_lines (text_body ndjson_response)) = map Inr ?records"
    by (simp add: ndjson_lines_sample sample_world_def sample_JSON_parse_def record_a1_def
          record_a2_def)
  have broken: "\<exists>line\<in>set (ndjson_lines (text_body malformed_response)).
                  \<exists>msg. JSON_parse ?w' line = Inl msg"
    by (simp add: ndjson_lines_malformed sample_world_def sample_JSON_parse_def record_a1_def
          record_a2_def)
  from sent_export_user_games [of ?w] obtain q where
    q: "fetched (snd (call_tool ?w ?games (stored ''lip_abc''))) = fetched (stored ''lip_abc'') @ [q]"
    by blast
  from ndjson_decoding [OF a(1) _ _ sent_get_following f(1)] parsed
  have one: "fst (call_tool ?w ?following (stored ''lip_abc''))
               = Inr (JSON_stringify_2 ?w (JArray ?records))"
    by simp
  from ndjson_decoding [OF a(2) _ _ q f(1)] parsed
  have two: "fst (call_tool ?w ?games (stored ''lip_abc''))
               = Inr (JSON_stringify_2 ?w (JArray ?records))"
    by simp
  from ndjson_decoding [OF a(1) _ _ sent_get_following f(2)] broken
  have three: "\<exists>e. fst (call_tool ?w' ?following (stored ''lip_abc'')) = Inl e \<and> kind e = ParseError"
    by simp
  from a one two three ndjson_lines_sample show ?thesis by simp
qed

text \<open>
  Claim C6, as stated: every response whose \<^verbatim>\<open>content-type\<close> is the PGN type is
  returned as its body, unmodified. This fails for the same reason:
  \<^verbatim>\<open>get_arena_games\<close> reads every body with \<^verbatim>\<open>response.json()\<close>, so a body
  of PGN text declared as \<^verbatim>\<open>application/x-chess-pgn\<close> makes the invocation throw.
\<close>

theorem pgn_passthrough_counterexample:
  "is_pgn pgn_response \<and> ok pgn_response \<and>
   call_tool (sample_world (Resolved pgn_response))
     (invoke ''get_arena_games'' [(''tournamentId'', JString ''winter24'')]) (stored ''lip_abc'')
   = (Inl (Error ParseError ''Unexpected token''),
      \<lparr>LICHESS_TOKEN = Some ''lip_abc'',
       fetched = [bearer_request ''lip_abc'' ''/tournament/winter24/games'' no_options]\<rparr>)"
proof (intro conjI)
  show "call_tool (sample_world (Resolved pgn_response))
     (invoke ''get_arena_games'' [(''tournamentId'', JString ''winter24'')]) (stored ''lip_abc'')
   = (Inl (Error ParseError ''Unexpected token''),
      \<lparr>LICHESS_TOKEN = Some ''lip_abc'',
       fetched = [bearer_request ''lip_abc'' ''/tournament/winter24/games'' no_options]\<rparr>)"
    by (simp add: call_tool_def invoke_def authenticated_tools_def get_arena_games_def
          argument_def step_simps,
        simp add: seq_def lichessRequest_token [OF stored_token] sample_world_def json_def
          sample_JSON_parse_def pgn_response_def ok_def record_a1_def record_a2_def throw_def,
        simp add: stored_def)
qed simp_all

text \<open>
  Claim C6, amended. For a response that is \<^verbatim>\<open>ok\<close> to the request of one of the
  tools \<^verbatim>\<open>export_game\<close>, \<^verbatim>\<open>export_ongoing_game\<close>,
  \<^verbatim>\<open>export_user_games\<close>, \<^verbatim>\<open>export_games_by_ids\<close>, \<^verbatim>\<open>get_tv_game\<close>,
  \<^verbatim>\<open>export_study_chapter\<close> and \<^verbatim>\<open>export_all_study_chapters\<close>, whose
  \<^verbatim>\<open>content-type\<close> names \<^verbatim>\<open>application/x-chess-pgn\<close>: the invocation returns
  exactly the body of the response, neither parsed nor serialised again.
\<close>

theorem pgn_passthrough:
  "params_name rq \<in> set pgn_tools \<Longrightarrow> is_pgn r \<Longrightarrow>
   fetched (snd (call_tool w rq s)) = fetched s @ [q] \<Longrightarrow> fetch w q = Resolved r \<Longrightarrow> ok r \<Longrightarrow>
   fst (call_tool w rq s) = Inr (text_body r)"
proof -
  assume tool: "params_name rq \<in> set pgn_tools" and pgn: "is_pgn r"
    and sent: "fetched (snd (call_tool w rq s)) = fetched s @ [q]"
    and reply: "fetch w q = Resolved r" and ok: "ok r"
  from decode_response [OF pgn_tools_decode [OF tool] sent reply ok pgn]
  show ?thesis by simp
qed

theorem pgn_passthrough_witness:
  "params_name (invoke ''export_game'' [(''gameId'', JString ''q7ZvsdUF'')]) \<in> set pgn_tools \<and>
   params_name (invoke ''export_all_study_chapters'' [(''studyId'', JString ''Ab3dE6gh'')])
     \<in> set pgn_tools \<and>
   is_pgn pgn_response \<and> ok pgn_response \<and>
   fst (call_tool (sample_world (Resolved pgn_response))
          (invoke ''export_game'' [(''gameId'', JString ''q7ZvsdUF'')]) (stored ''lip_abc''))
     = Inr ''1. e4 e5 *'' \<and>
   fst (call_tool (sample_world (Resolved pgn_response))
          (invoke ''export_all_study_chapters'' [(''studyId'', JString ''Ab3dE6gh'')])
          (stored ''lip_abc''))
     = Inr ''1. e4 e5 *''"
proof -
  let ?w = "sample_world (Resolved pgn_response)"
  let ?game = "invoke ''export_game'' [(''gameId'', JString ''q7ZvsdUF'')]"
  let ?study = "invoke ''export_all_study_chapters'' [(''studyId'', JString ''Ab3dE6gh'')]"
  have a: "params_name ?game \<in> set pgn_tools" "params_name ?study \<in> set pgn_tools"
    by (simp_all add: invoke_def pgn_tools_def)
  have f: "fetch ?w q = Resolved pgn_response" for q
    by (simp add: sample_world_def)
  from sent_export_game [of ?w] obtain q where
    q: "fetched (snd (call_tool ?w ?game (stored ''lip_abc''))) = fetched (stored ''lip_abc'') @ [q]"
    by blast
  from sent_export_all_study_chapters [of ?w] obtain q' where
    q': "fetched (snd (call_tool ?w ?study (stored ''lip_abc''))) = fetched (stored ''lip_abc'') @ [q']"
    by blast
  have body: "text_body pgn_response = ''1. e4 e5 *''"
    by (simp add: pgn_response_def)
  from pgn_passthrough [OF a(1) _ q f]
  have one: "fst (call_tool ?w ?game (stored ''lip_abc'')) = Inr (text_body pgn_response)"
    by simp
  from pgn_passthrough [OF a(2) _ q' f]
  have two: "fst (call_tool ?w ?study (stored ''lip_abc'')) = Inr (text_body pgn_response)"
    by simp
  from a one two body show ?thesis by simp
qed

end
